theory Spec2Isabelle
  imports Complex_Main "HOL-Library.Word"
begin

section \<open>JavaScript strings\<close>

text \<open>
  A JavaScript string is a sequence of 16-bit code units. The literals of the source are
  ASCII and are written \<open>ascii ''...''\<close>; units that an Isabelle literal cannot hold
  (the double quote \<open>0x22\<close>, the backslash \<open>0x5C\<close>, the line feed \<open>0x0A\<close>) are
  written as numbers.
\<close>

type_synonym jsstring = "16 word list"

definition ascii :: "string \<Rightarrow> jsstring" where
  "ascii s = map (\<lambda>c. of_nat (of_char c)) s"

text \<open>\<open>Array.prototype.join\<close> on an array of strings.\<close>

fun join :: "jsstring \<Rightarrow> jsstring list \<Rightarrow> jsstring" where
  "join sep [] = []"
| "join sep [x] = x"
| "join sep (x # y # ys) = x @ sep @ join sep (y # ys)"

section \<open>Errors\<close>

text \<open>
  A thrown value. \<open>Error msg\<close> is \<open>new Error(msg)\<close>; the three built-in kinds are thrown
  by the language itself (their messages differ between engines and are not modelled);
  \<open>Rejected\<close> is a failure reported by an external service, a library or the network.
\<close>

datatype error =
    Error jsstring
  | SyntaxError
  | TypeError
  | RangeError
  | Rejected jsstring

section \<open>Numbers\<close>

subsection \<open>Integers as text\<close>

text \<open>
  Digits of a natural number in a radix up to 16, lower case, most significant first:
  what \<open>Number.prototype.toString(radix)\<close> prints for a non-negative integer.
\<close>

definition digit_unit :: "nat \<Rightarrow> 16 word" where
  "digit_unit d = (if d < 10 then of_nat (48 + d) else of_nat (87 + d))"

fun digits :: "nat \<Rightarrow> nat \<Rightarrow> jsstring" where
  "digits radix n =
     (if n < radix \<or> radix < 2 then [digit_unit n]
      else digits radix (n div radix) @ [digit_unit (n mod radix)])"

declare digits.simps [simp del]

text \<open>
  \<open>int_toString radix n\<close> is the text of \<open>n.toString(radix)\<close> for an integer \<open>n\<close>, and of
  the template substitution \<open>`${n}`\<close> for radix 10: a minus sign for a negative number,
  then the digits of its magnitude. JavaScript prints an integer this way up to
  \<open>2^53\<close> in magnitude, the range in which a Number holds every integer exactly.
\<close>

definition int_toString :: "nat \<Rightarrow> int \<Rightarrow> jsstring" where
  "int_toString radix n =
     (if n < 0 then ascii ''-'' @ digits radix (nat (- n)) else digits radix (nat n))"

text \<open>The value of a digit, and of a non-empty run of digits of a radix.\<close>

definition hex_value :: "16 word \<Rightarrow> nat option" where
  "hex_value c =
     (if 48 \<le> c \<and> c \<le> 57 then Some (unat c - 48)
      else if 97 \<le> c \<and> c \<le> 102 then Some (unat c - 87)
      else if 65 \<le> c \<and> c \<le> 70 then Some (unat c - 55)
      else None)"

definition is_digit_of :: "nat \<Rightarrow> 16 word \<Rightarrow> bool" where
  "is_digit_of radix c = (case hex_value c of Some d \<Rightarrow> d < radix | None \<Rightarrow> False)"

definition digit_value :: "16 word \<Rightarrow> nat" where
  "digit_value c = (case hex_value c of Some d \<Rightarrow> d | None \<Rightarrow> 0)"

definition radix_value :: "nat \<Rightarrow> jsstring \<Rightarrow> nat option" where
  "radix_value radix s =
     (if s \<noteq> [] \<and> list_all (is_digit_of radix) s
      then Some (foldl (\<lambda>a c. radix * a + digit_value c) 0 s) else None)"

definition is_digit :: "16 word \<Rightarrow> bool" where
  "is_digit c \<longleftrightarrow> 48 \<le> c \<and> c \<le> 57"

definition decimal_value :: "jsstring \<Rightarrow> nat" where
  "decimal_value s = foldl (\<lambda>a c. 10 * a + digit_value c) 0 s"

subsection \<open>Number values\<close>

text \<open>
  A Number is an IEEE 754 binary64 value. \<open>Fin q\<close> is the finite value \<open>q\<close>, a rational;
  the two zeros are not told apart. \<open>round64\<close> is the rounding of a real value to the
  nearest Number, ties to even, that the language applies to every numeric literal:
  53 significant bits, subnormal below \<open>2^-1022\<close>, infinite from \<open>2^1024\<close>.
\<close>

datatype jsnum = Fin rat | NaN | PosInf | NegInf

text \<open>For \<open>a > 0\<close>: the integer \<open>e\<close> with \<open>b^e \<le> a < b^(e+1)\<close>.\<close>

definition floor_log :: "nat \<Rightarrow> rat \<Rightarrow> int" where
  "floor_log b a =
     (let (p, d) = quotient_of a;
          c = int (length (digits b (nat p))) - int (length (digits b (nat d)))
      in if power_int (of_nat b) c \<le> a then c else c - 1)"

definition round_half_even :: "rat \<Rightarrow> int" where
  "round_half_even x =
     (let f = \<lfloor>x\<rfloor>; r = x - of_int f
      in if r < 1 / 2 then f else if 1 / 2 < r then f + 1 else if even f then f else f + 1)"

definition round64 :: "rat \<Rightarrow> jsnum" where
  "round64 q =
     (if q = 0 then Fin 0
      else
        let a = \<bar>q\<bar>;
            e = max (floor_log 2 a) (- 1022);
            ulp = power_int 2 (e - 52);
            r = of_int (round_half_even (a / ulp)) * ulp
        in if 2 ^ 1024 \<le> r then (if q < 0 then NegInf else PosInf)
           else Fin (if q < 0 then - r else r))"

text \<open>
  The values of the type that are Numbers: a finite one is its own rounding.
\<close>

definition is_Number :: "jsnum \<Rightarrow> bool" where
  "is_Number x = (case x of Fin q \<Rightarrow> round64 q = Fin q | _ \<Rightarrow> True)"

subsection \<open>Numbers as text\<close>

text \<open>
  \<open>Number::toString(x, radix)\<close> prints the shortest run of digits \<open>s\<close> (of \<open>k\<close> digits)
  and the exponent \<open>n\<close> for which \<open>s * radix^(n - k)\<close> rounds to the number, the closest
  such \<open>s\<close> when there are several. \<open>candidates radix q k\<close> are the \<open>k\<close>-digit neighbours
  of \<open>q\<close> that round to it.
\<close>

definition candidates :: "nat \<Rightarrow> rat \<Rightarrow> nat \<Rightarrow> (int \<times> int) list" where
  "candidates radix q k =
     (let n = floor_log radix q + 1;
          lo = \<lfloor>q / power_int (of_nat radix) (n - int k)\<rfloor>;
          up = (if lo + 1 < int radix ^ k then (lo + 1, n) else (int radix ^ (k - 1), n + 1))
      in filter (\<lambda>(s, n'). round64 (of_int s * power_int (of_nat radix) (n' - int k)) = Fin q)
           [(lo, n), up])"

definition closest :: "nat \<Rightarrow> rat \<Rightarrow> nat \<Rightarrow> (int \<times> int) list \<Rightarrow> int \<times> int" where
  "closest radix q k cs =
     (case cs of
        [c] \<Rightarrow> c
      | [(s1, n1), (s2, n2)] \<Rightarrow>
          (let d1 = q - of_int s1 * power_int (of_nat radix) (n1 - int k);
               d2 = of_int s2 * power_int (of_nat radix) (n2 - int k) - q
           in if d1 < d2 then (s1, n1) else if d2 < d1 then (s2, n2)
              else if even s1 then (s1, n1) else (s2, n2))
      | _ \<Rightarrow> (\<lfloor>q / power_int (of_nat radix) (floor_log radix q + 1 - int k)\<rfloor>,
              floor_log radix q + 1))"

text \<open>
  The search for the least \<open>k\<close>, from \<open>k\<close> upwards. A Number has 53 significant bits,
  so 53 digits always suffice.
\<close>

fun shortest :: "nat \<Rightarrow> rat \<Rightarrow> nat \<Rightarrow> nat \<Rightarrow> nat \<times> int \<times> int" where
  "shortest radix q k 0 = (k, closest radix q k (candidates radix q k))"
| "shortest radix q k (Suc more) =
     (if candidates radix q k = [] then shortest radix q (Suc k) more
      else (k, closest radix q k (candidates radix q k)))"

text \<open>
  The digits are laid out with the radix point in its place; in radix 10, a number of
  more than 21 integer digits, or with more than five zeros after the point, takes an
  exponent.
\<close>

definition format_digits :: "nat \<Rightarrow> nat \<times> int \<times> int \<Rightarrow> jsstring" where
  "format_digits radix t =
     (case t of (k, s, n) \<Rightarrow>
        let ds = digits radix (nat s)
        in if radix \<noteq> 10 \<or> (- 6 < n \<and> n \<le> 21) then
             (if int k \<le> n then ds @ replicate (nat (n - int k)) (digit_unit 0)
              else if 0 < n then take (nat n) ds @ ascii ''.'' @ drop (nat n) ds
              else ascii ''0.'' @ replicate (nat (- n)) (digit_unit 0) @ ds)
           else
             let ex = (if n - 1 < 0 then ascii ''e-'' else ascii ''e+'') @ digits 10 (nat \<bar>n - 1\<bar>)
             in if k = 1 then ds @ ex else take 1 ds @ ascii ''.'' @ drop 1 ds @ ex)"

text \<open>
  \<open>x.toString(radix)\<close> for a radix from 2 to 16. An integer up to \<open>2^53\<close> in magnitude
  prints as its digits; every other finite value by the shortest-digits rule.
\<close>

definition Number_toString_radix :: "nat \<Rightarrow> jsnum \<Rightarrow> jsstring" where
  "Number_toString_radix radix x =
     (case x of
        NaN \<Rightarrow> ascii ''NaN''
      | PosInf \<Rightarrow> ascii ''Infinity''
      | NegInf \<Rightarrow> ascii ''-Infinity''
      | Fin q \<Rightarrow>
          if q = of_int \<lfloor>q\<rfloor> \<and> \<bar>q\<bar> \<le> 2 ^ 53 then int_toString radix \<lfloor>q\<rfloor>
          else if q < 0 then ascii ''-'' @ format_digits radix (shortest radix (- q) 1 52)
          else format_digits radix (shortest radix q 1 52))"

text \<open>
  \<open>ToString\<close> of a Number, which a template substitution and a property access with a
  numeric key apply: the text in radix 10.
\<close>

definition Number_toString :: "jsnum \<Rightarrow> jsstring" where
  "Number_toString x = Number_toString_radix 10 x"
section \<open>JavaScript values\<close>

text \<open>
  The values that travel through the program: what a caller passes as \<open>params\<close>, what
  \<open>JSON.parse\<close> returns, what the functions return. An object is the list of its own
  properties in creation order, each key once.
\<close>

datatype jsval =
    Undefined
  | Null
  | Bool bool
  | Num jsnum
  | Str jsstring
  | Arr "jsval list"
  | Obj "(jsstring \<times> jsval) list"

text \<open>The conversion to boolean of \<open>if (v)\<close> and \<open>!v\<close>.\<close>

fun truthy :: "jsval \<Rightarrow> bool" where
  "truthy Undefined = False"
| "truthy Null = False"
| "truthy (Bool b) = b"
| "truthy (Num x) = (x \<noteq> Fin 0 \<and> x \<noteq> NaN)"
| "truthy (Str s) = (s \<noteq> [])"
| "truthy (Arr xs) = True"
| "truthy (Obj ps) = True"

text \<open>\<open>v != null\<close>: neither \<open>undefined\<close> nor \<open>null\<close>.\<close>

definition nullish :: "jsval \<Rightarrow> bool" where
  "nullish v \<longleftrightarrow> v = Undefined \<or> v = Null"

text \<open>\<open>a ?? b\<close>\<close>

definition nullish_coalesce :: "jsval \<Rightarrow> jsval \<Rightarrow> jsval" where
  "nullish_coalesce a b = (if nullish a then b else a)"

text \<open>
  \<open>v.name\<close>, for the property names this program reads (\<open>to\<close>, \<open>data\<close>, \<open>value\<close>,
  \<open>gas\<close>, \<open>nonce\<close>, \<open>types\<close>, \<open>domain\<close>, \<open>primaryType\<close>, \<open>primary_type\<close>, \<open>message\<close>,
  \<open>error\<close>, \<open>result\<close>): none of them is defined by a prototype, so the read finds an
  own property of an object or nothing. Reading a property of \<open>undefined\<close> or \<open>null\<close>
  throws a TypeError.
\<close>

definition own_property :: "(jsstring \<times> jsval) list \<Rightarrow> jsstring \<Rightarrow> jsval" where
  "own_property ps k = (case map_of ps k of None \<Rightarrow> Undefined | Some v \<Rightarrow> v)"

fun get :: "jsval \<Rightarrow> jsstring \<Rightarrow> error + jsval" where
  "get Undefined k = Inl TypeError"
| "get Null k = Inl TypeError"
| "get (Obj ps) k = Inr (own_property ps k)"
| "get v k = Inr Undefined"

text \<open>\<open>v[i]\<close> for a literal index \<open>i\<close>.\<close>

fun element :: "jsval \<Rightarrow> nat \<Rightarrow> error + jsval" where
  "element Undefined i = Inl TypeError"
| "element Null i = Inl TypeError"
| "element (Arr xs) i = Inr (if i < length xs then xs ! i else Undefined)"
| "element (Obj ps) i = Inr (own_property ps (digits 10 i))"
| "element (Str s) i = Inr (if i < length s then Str [s ! i] else Undefined)"
| "element v i = Inr Undefined"

subsection \<open>Property order\<close>

text \<open>
  The own keys of an object are enumerated with the array indices first (the canonical
  decimal texts of the integers below \<open>2^32 - 1\<close>), ascending, and the other keys after
  them in creation order. \<open>JSON.stringify\<close> and the rest pattern of a destructuring
  follow this order.
\<close>

definition index_of_key :: "jsstring \<Rightarrow> nat option" where
  "index_of_key k =
     (if k \<noteq> [] \<and> list_all is_digit k \<and> (k = ascii ''0'' \<or> hd k \<noteq> 48) \<and>
         decimal_value k < 4294967295
      then Some (decimal_value k) else None)"

definition own_properties :: "(jsstring \<times> 'a) list \<Rightarrow> (jsstring \<times> 'a) list" where
  "own_properties ps =
     sort_key (\<lambda>p. case index_of_key (fst p) of Some i \<Rightarrow> i | None \<Rightarrow> 0)
       (filter (\<lambda>p. index_of_key (fst p) \<noteq> None) ps) @
     filter (\<lambda>p. index_of_key (fst p) = None) ps"

text \<open>
  \<open>const { key: _, ...rest } = v\<close>: the own enumerable properties of \<open>v\<close> other than
  \<open>key\<close>, copied into a new object. An array and a string have their elements under
  their indices, a number and a boolean have none, and destructuring \<open>undefined\<close> or
  \<open>null\<close> throws a TypeError.
\<close>

definition indexed :: "jsval list \<Rightarrow> (jsstring \<times> jsval) list" where
  "indexed xs = map (\<lambda>i. (digits 10 i, xs ! i)) [0 ..< length xs]"

fun rest_without :: "jsstring \<Rightarrow> jsval \<Rightarrow> error + jsval" where
  "rest_without key Undefined = Inl TypeError"
| "rest_without key Null = Inl TypeError"
| "rest_without key (Obj ps) = Inr (Obj (filter (\<lambda>p. fst p \<noteq> key) (own_properties ps)))"
| "rest_without key (Arr xs) = Inr (Obj (filter (\<lambda>p. fst p \<noteq> key) (indexed xs)))"
| "rest_without key (Str s) =
     Inr (Obj (filter (\<lambda>p. fst p \<noteq> key) (indexed (map (\<lambda>c. Str [c]) s))))"
| "rest_without key v = Inr (Obj [])"

subsection \<open>Conversion to string\<close>

text \<open>
  \<open>ToString\<close>, as a template substitution applies it. An array prints its elements
  joined by commas, \<open>undefined\<close> and \<open>null\<close> elements as nothing; a plain object prints
  as \<open>[object Object]\<close>.
\<close>

fun ToString :: "jsval \<Rightarrow> jsstring" where
  "ToString Undefined = ascii ''undefined''"
| "ToString Null = ascii ''null''"
| "ToString (Bool b) = (if b then ascii ''true'' else ascii ''false'')"
| "ToString (Num x) = Number_toString x"
| "ToString (Str s) = s"
| "ToString (Arr xs) =
     join (ascii '','') (map (\<lambda>x. if x = Undefined \<or> x = Null then [] else ToString x) xs)"
| "ToString (Obj ps) = ascii ''[object Object]''"

section \<open>JSON.stringify\<close>

text \<open>
  \<open>QuoteJSONString\<close>: the two-character escapes, \<open>\\uXXXX\<close> (lower-case hexadecimal) for
  the other control characters and for a surrogate that is not half of a pair, every
  other unit as it is.
\<close>

definition hex4 :: "16 word \<Rightarrow> jsstring" where
  "hex4 c =
     (let n = unat c
      in map digit_unit [n div 4096, n div 256 mod 16, n div 16 mod 16, n mod 16])"

definition is_high_surrogate :: "16 word \<Rightarrow> bool" where
  "is_high_surrogate c \<longleftrightarrow> 0xD800 \<le> c \<and> c \<le> 0xDBFF"

definition is_low_surrogate :: "16 word \<Rightarrow> bool" where
  "is_low_surrogate c \<longleftrightarrow> 0xDC00 \<le> c \<and> c \<le> 0xDFFF"

definition escape_unit :: "16 word \<Rightarrow> jsstring" where
  "escape_unit c =
     (if c = 0x08 then [0x5C, 0x62]
      else if c = 0x09 then [0x5C, 0x74]
      else if c = 0x0A then [0x5C, 0x6E]
      else if c = 0x0C then [0x5C, 0x66]
      else if c = 0x0D then [0x5C, 0x72]
      else if c = 0x22 then [0x5C, 0x22]
      else if c = 0x5C then [0x5C, 0x5C]
      else if c < 0x20 \<or> is_high_surrogate c \<or> is_low_surrogate c
        then [0x5C, 0x75] @ hex4 c
      else [c])"

fun quote_units :: "jsstring \<Rightarrow> jsstring" where
  "quote_units [] = []"
| "quote_units [c] = escape_unit c"
| "quote_units (c # d # ds) =
     (if is_high_surrogate c \<and> is_low_surrogate d then c # d # quote_units ds
      else escape_unit c @ quote_units (d # ds))"

definition QuoteJSONString :: "jsstring \<Rightarrow> jsstring" where
  "QuoteJSONString s = [0x22] @ quote_units s @ [0x22]"

text \<open>
  The text of an array or an object from the texts of its members: nothing between the
  brackets when there are none, the members on one line when the gap is empty, otherwise
  one member per line, indented one gap more than the brackets.
\<close>

definition wrap ::
  "jsstring \<Rightarrow> jsstring \<Rightarrow> jsstring \<Rightarrow> jsstring \<Rightarrow> jsstring list \<Rightarrow> jsstring" where
  "wrap opening closing gap indent items =
     (if items = [] then opening @ closing
      else if gap = [] then opening @ join (ascii '','') items @ closing
      else opening @ [0x0A] @ indent @ gap @ join ([0x2C, 0x0A] @ indent @ gap) items @
           [0x0A] @ indent @ closing)"

text \<open>
  \<open>SerializeJSONProperty\<close>: \<open>None\<close> is the result \<open>undefined\<close>. An \<open>undefined\<close> element
  of an array prints as \<open>null\<close>, an \<open>undefined\<close> property of an object is left out, and
  a number that is not finite prints as \<open>null\<close>.
\<close>

fun SerializeJSONProperty :: "jsstring \<Rightarrow> jsstring \<Rightarrow> jsval \<Rightarrow> jsstring option" where
  "SerializeJSONProperty gap indent Undefined = None"
| "SerializeJSONProperty gap indent Null = Some (ascii ''null'')"
| "SerializeJSONProperty gap indent (Bool b) =
     Some (if b then ascii ''true'' else ascii ''false'')"
| "SerializeJSONProperty gap indent (Num x) =
     Some (case x of Fin q \<Rightarrow> Number_toString x | _ \<Rightarrow> ascii ''null'')"
| "SerializeJSONProperty gap indent (Str s) = Some (QuoteJSONString s)"
| "SerializeJSONProperty gap indent (Arr xs) =
     Some (wrap (ascii ''['') (ascii '']'') gap indent
       (map (\<lambda>x. case SerializeJSONProperty gap (indent @ gap) x of
                    None \<Rightarrow> ascii ''null''
                  | Some t \<Rightarrow> t) xs))"
| "SerializeJSONProperty gap indent (Obj ps) =
     Some (wrap (ascii ''{'') (ascii ''}'') gap indent
       (concat (map (\<lambda>p. case snd p of
                       None \<Rightarrow> []
                     | Some t \<Rightarrow>
                         [QuoteJSONString (fst p) @
                          (if gap = [] then ascii '':'' else ascii '': '') @ t])
          (own_properties
            (map (\<lambda>p. (fst p, SerializeJSONProperty gap (indent @ gap) (snd p))) ps)))))"

text \<open>
  \<open>JSON.stringify(v, null, space)\<close> for a numeric \<open>space\<close>: the gap is that many spaces,
  at most ten. \<open>JSON.stringify(v)\<close> is \<open>JSON_stringify v 0\<close>.
\<close>

definition JSON_stringify :: "jsval \<Rightarrow> nat \<Rightarrow> jsstring option" where
  "JSON_stringify v space = SerializeJSONProperty (replicate (min space 10) 0x20) [] v"

section \<open>JSON.parse\<close>

text \<open>
  The text is cut into tokens, and the tokens are read by a pushdown automaton. Every
  failure is the SyntaxError of \<open>JSON.parse\<close>.
\<close>

datatype token =
    LBrace | RBrace | LBrack | RBrack | Colon | Comma
  | TStr jsstring | TNum jsnum | TTrue | TFalse | TNull

text \<open>The unit written by the four hexadecimal digits of a \<open>\\u\<close> escape.\<close>

definition hex4_value :: "16 word \<Rightarrow> 16 word \<Rightarrow> 16 word \<Rightarrow> 16 word \<Rightarrow> 16 word option" where
  "hex4_value a b c d =
     (case (hex_value a, hex_value b, hex_value c, hex_value d) of
        (Some x, Some y, Some z, Some w) \<Rightarrow> Some (of_nat (((x * 16 + y) * 16 + z) * 16 + w))
      | _ \<Rightarrow> None)"

text \<open>The unit written by a two-character escape.\<close>

definition unescape :: "16 word \<Rightarrow> 16 word option" where
  "unescape e =
     (if e = 0x22 then Some 0x22
      else if e = 0x5C then Some 0x5C
      else if e = 0x2F then Some 0x2F
      else if e = 0x62 then Some 0x08
      else if e = 0x66 then Some 0x0C
      else if e = 0x6E then Some 0x0A
      else if e = 0x72 then Some 0x0D
      else if e = 0x74 then Some 0x09
      else None)"

text \<open>
  \<open>lex_string\<close> reads a string after its opening quote, up to the closing quote, and
  returns it with the text that follows. A control character inside a string is an error.
\<close>

definition cons_unit :: "16 word \<Rightarrow> (jsstring \<times> jsstring) option \<Rightarrow> (jsstring \<times> jsstring) option" where
  "cons_unit u r = map_option (\<lambda>p. (u # fst p, snd p)) r"

fun lex_string :: "jsstring \<Rightarrow> (jsstring \<times> jsstring) option" where
  "lex_string [] = None"
| "lex_string (c # cs) =
     (if c = 0x22 then Some ([], cs)
      else if c = 0x5C then
        (case cs of
           [] \<Rightarrow> None
         | e # es \<Rightarrow>
             if e = 0x75 then
               (case es of
                  h1 # h2 # h3 # h4 # rest \<Rightarrow>
                    (case hex4_value h1 h2 h3 h4 of
                       None \<Rightarrow> None
                     | Some u \<Rightarrow> cons_unit u (lex_string rest))
                | _ \<Rightarrow> None)
             else
               (case unescape e of
                  None \<Rightarrow> None
                | Some u \<Rightarrow> cons_unit u (lex_string es)))
      else if c < 0x20 then None
      else cons_unit c (lex_string cs))"

text \<open>
  A number: an optional minus sign, an integer part without a leading zero, an optional
  fraction, an optional exponent. Its value is rounded to a Number.
\<close>

definition digits_value :: "jsstring \<Rightarrow> rat" where
  "digits_value s = of_nat (decimal_value s)"

definition lex_fraction :: "jsstring \<Rightarrow> (rat \<times> jsstring) option" where
  "lex_fraction s =
     (case s of
        c # r \<Rightarrow>
          if c = 0x2E then
            (let ds = takeWhile is_digit r
             in if ds = [] then None
                else Some (digits_value ds / 10 ^ length ds, dropWhile is_digit r))
          else Some (0, s)
      | [] \<Rightarrow> Some (0, s))"

definition lex_exponent :: "jsstring \<Rightarrow> (int \<times> jsstring) option" where
  "lex_exponent s =
     (case s of
        c # r \<Rightarrow>
          if c = 0x65 \<or> c = 0x45 then
            (let neg = (case r of x # _ \<Rightarrow> x = 0x2D | [] \<Rightarrow> False);
                 r' = (case r of x # xs \<Rightarrow> if x = 0x2D \<or> x = 0x2B then xs else r | [] \<Rightarrow> r);
                 ds = takeWhile is_digit r'
             in if ds = [] then None
                else Some (if neg then - int (decimal_value ds) else int (decimal_value ds),
                           dropWhile is_digit r'))
          else Some (0, s)
      | [] \<Rightarrow> Some (0, s))"

definition lex_number :: "jsstring \<Rightarrow> (jsnum \<times> jsstring) option" where
  "lex_number s =
     (let neg = (case s of c # _ \<Rightarrow> c = 0x2D | [] \<Rightarrow> False);
          s1 = (if neg then tl s else s);
          ip = takeWhile is_digit s1
      in if ip = [] \<or> (hd ip = 0x30 \<and> length ip > 1) then None
         else
           case lex_fraction (dropWhile is_digit s1) of
             None \<Rightarrow> None
           | Some (f, s2) \<Rightarrow>
               (case lex_exponent s2 of
                  None \<Rightarrow> None
                | Some (e, s3) \<Rightarrow>
                    Some (round64 ((if neg then - 1 else 1) * (digits_value ip + f) * power_int 10 e),
                          s3)))"

text \<open>The tokens of a text. The four JSON white-space characters separate them.\<close>

definition is_json_space :: "16 word \<Rightarrow> bool" where
  "is_json_space c \<longleftrightarrow> c = 0x20 \<or> c = 0x09 \<or> c = 0x0A \<or> c = 0x0D"

definition cons_token :: "token \<Rightarrow> token list option \<Rightarrow> token list option" where
  "cons_token t r = map_option (Cons t) r"

definition strip_prefix :: "jsstring \<Rightarrow> jsstring \<Rightarrow> jsstring option" where
  "strip_prefix p s = (if take (length p) s = p then Some (drop (length p) s) else None)"

function tokenize :: "jsstring \<Rightarrow> token list option" where
  "tokenize [] = Some []"
| "tokenize (c # cs) =
     (if is_json_space c then tokenize cs
      else if c = 0x7B then cons_token LBrace (tokenize cs)
      else if c = 0x7D then cons_token RBrace (tokenize cs)
      else if c = 0x5B then cons_token LBrack (tokenize cs)
      else if c = 0x5D then cons_token RBrack (tokenize cs)
      else if c = 0x3A then cons_token Colon (tokenize cs)
      else if c = 0x2C then cons_token Comma (tokenize cs)
      else if c = 0x22 then
        (case lex_string cs of
           None \<Rightarrow> None
         | Some (s, rest) \<Rightarrow> cons_token (TStr s) (tokenize rest))
      else if c = 0x2D \<or> is_digit c then
        (case lex_number (c # cs) of
           None \<Rightarrow> None
         | Some (x, rest) \<Rightarrow> cons_token (TNum x) (tokenize rest))
      else if c = 0x74 then
        (case strip_prefix (ascii ''rue'') cs of
           None \<Rightarrow> None
         | Some rest \<Rightarrow> cons_token TTrue (tokenize rest))
      else if c = 0x66 then
        (case strip_prefix (ascii ''alse'') cs of
           None \<Rightarrow> None
         | Some rest \<Rightarrow> cons_token TFalse (tokenize rest))
      else if c = 0x6E then
        (case strip_prefix (ascii ''ull'') cs of
           None \<Rightarrow> None
         | Some rest \<Rightarrow> cons_token TNull (tokenize rest))
      else None)"
  by pat_completeness auto
termination
proof (relation "measure length")
  show "wf (measure length)" by simp
next
  fix c cs x2 x y
  assume "lex_string cs = Some x2" "(x, y) = x2"
  then have ls: "lex_string cs = Some (x, y)" by simp
  have "lex_string cs = Some (s, r) \<Longrightarrow> length r \<le> length cs" for s r
    by (induction cs arbitrary: s r rule: lex_string.induct)
       (fastforce simp: cons_unit_def split: if_splits list.splits option.splits)+
  from this [OF ls] show "(y, c # cs) \<in> measure length" by simp
next
  fix c cs x2 x y
  assume "lex_number (c # cs) = Some x2" "(x, y) = x2"
  then have ln: "lex_number (c # cs) = Some (x, y)" by simp
  have drop_le: "length (dropWhile is_digit s) \<le> length s" for s :: jsstring
    by (simp add: length_dropWhile_le)
  have frac: "lex_fraction s = Some (f, r) \<Longrightarrow> length r \<le> length s" for s f r
    using drop_le [of "tl s"]
    by (auto simp: lex_fraction_def Let_def split: list.splits if_splits)
  have expo: "lex_exponent s = Some (e, r) \<Longrightarrow> length r \<le> length s" for s e r
    using drop_le [of "tl s"] drop_le [of "tl (tl s)"]
    by (auto simp: lex_exponent_def Let_def split: list.splits if_splits)
  have strict: "takeWhile is_digit s \<noteq> [] \<Longrightarrow> length (dropWhile is_digit s) < length s"
    for s :: jsstring
    using drop_le [of "tl s"] by (cases s) (auto split: if_splits)
  define s1 where "s1 = (if (case c # cs of c # _ \<Rightarrow> c = 0x2D | [] \<Rightarrow> False) then tl (c # cs) else c # cs)"
  have s1: "length s1 \<le> length (c # cs)" by (simp add: s1_def)
  from ln obtain f s2 e where ne: "takeWhile is_digit s1 \<noteq> []"
    and lf: "lex_fraction (dropWhile is_digit s1) = Some (f, s2)"
    and le: "lex_exponent s2 = Some (e, y)"
    unfolding lex_number_def Let_def s1_def [symmetric]
    by (auto split: if_splits option.splits)
  from strict [OF ne] frac [OF lf] expo [OF le] s1
  show "(y, c # cs) \<in> measure length" by simp
qed (auto simp: strip_prefix_def split: if_splits)

text \<open>
  The automaton. Its stack holds the arrays and objects that are open: \<open>CArr\<close> with
  the elements read so far, \<open>CObj\<close> with the properties read so far, \<open>CMem\<close> when a
  key has been read and its value is awaited. \<open>expect\<close> is what may come next.
\<close>

datatype frame =
    CArr "jsval list"
  | CObj "(jsstring \<times> jsval) list"
  | CMem "(jsstring \<times> jsval) list" jsstring

datatype expect = EValue | EValueOrEnd | EKey | EKeyOrEnd | EColon | ESep | EEnd jsval

text \<open>CreateDataProperty: a repeated key keeps its place and takes the later value.\<close>

fun define_property :: "(jsstring \<times> jsval) list \<Rightarrow> jsstring \<Rightarrow> jsval \<Rightarrow> (jsstring \<times> jsval) list" where
  "define_property [] k v = [(k, v)]"
| "define_property (p # ps) k v =
     (if fst p = k then (k, v) # ps else p # define_property ps k v)"

text \<open>A value is finished: it is the result, or it joins the container on the stack.\<close>

fun complete :: "jsval \<Rightarrow> frame list \<Rightarrow> (expect \<times> frame list) option" where
  "complete v [] = Some (EEnd v, [])"
| "complete v (CArr xs # st) = Some (ESep, CArr (xs @ [v]) # st)"
| "complete v (CMem ps k # st) = Some (ESep, CObj (define_property ps k v) # st)"
| "complete v (CObj ps # st) = None"

fun start_value :: "token \<Rightarrow> frame list \<Rightarrow> (expect \<times> frame list) option" where
  "start_value LBrack st = Some (EValueOrEnd, CArr [] # st)"
| "start_value LBrace st = Some (EKeyOrEnd, CObj [] # st)"
| "start_value (TStr s) st = complete (Str s) st"
| "start_value (TNum x) st = complete (Num x) st"
| "start_value TTrue st = complete (Bool True) st"
| "start_value TFalse st = complete (Bool False) st"
| "start_value TNull st = complete Null st"
| "start_value _ st = None"

fun start_key :: "token \<Rightarrow> frame list \<Rightarrow> (expect \<times> frame list) option" where
  "start_key (TStr k) (CObj ps # st) = Some (EColon, CMem ps k # st)"
| "start_key _ _ = None"

fun step :: "expect \<Rightarrow> frame list \<Rightarrow> token \<Rightarrow> (expect \<times> frame list) option" where
  "step EValue st t = start_value t st"
| "step EValueOrEnd (CArr xs # st) RBrack = complete (Arr xs) st"
| "step EValueOrEnd st t = start_value t st"
| "step EKey st t = start_key t st"
| "step EKeyOrEnd (CObj ps # st) RBrace = complete (Obj ps) st"
| "step EKeyOrEnd st t = start_key t st"
| "step EColon st Colon = Some (EValue, st)"
| "step ESep (CArr xs # st) Comma = Some (EValue, CArr xs # st)"
| "step ESep (CArr xs # st) RBrack = complete (Arr xs) st"
| "step ESep (CObj ps # st) Comma = Some (EKey, CObj ps # st)"
| "step ESep (CObj ps # st) RBrace = complete (Obj ps) st"
| "step _ _ _ = None"

fun run :: "expect \<Rightarrow> frame list \<Rightarrow> token list \<Rightarrow> jsval option" where
  "run (EEnd v) [] [] = Some v"
| "run e st [] = None"
| "run e st (t # ts) =
     (case step e st t of None \<Rightarrow> None | Some (e', st') \<Rightarrow> run e' st' ts)"

definition JSON_parse :: "jsstring \<Rightarrow> error + jsval" where
  "JSON_parse text =
     (case tokenize text of
        None \<Rightarrow> Inl SyntaxError
      | Some ts \<Rightarrow> (case run EValue [] ts of None \<Rightarrow> Inl SyntaxError | Some v \<Rightarrow> Inr v))"

section \<open>Conversions to numbers\<close>

text \<open>
  The white space that \<open>Number(s)\<close> and \<open>BigInt(s)\<close> strip from both ends of a string:
  the \<open>WhiteSpace\<close> and \<open>LineTerminator\<close> code points.
\<close>

definition is_str_whitespace :: "16 word \<Rightarrow> bool" where
  "is_str_whitespace c \<longleftrightarrow>
     (0x09 \<le> c \<and> c \<le> 0x0D) \<or> c = 0x20 \<or> c = 0xA0 \<or> c = 0x1680 \<or>
     (0x2000 \<le> c \<and> c \<le> 0x200A) \<or> c = 0x2028 \<or> c = 0x2029 \<or> c = 0x202F \<or>
     c = 0x205F \<or> c = 0x3000 \<or> c = 0xFEFF"

definition trim :: "jsstring \<Rightarrow> jsstring" where
  "trim s = rev (dropWhile is_str_whitespace (rev (dropWhile is_str_whitespace s)))"

text \<open>\<open>0x\<close>, \<open>0o\<close> and \<open>0b\<close> literals (either case of the letter), which take no sign.\<close>

definition non_decimal_value :: "jsstring \<Rightarrow> nat option" where
  "non_decimal_value s =
     (case s of
        z # x # ds \<Rightarrow>
          if z \<noteq> 0x30 then None
          else if x = 0x78 \<or> x = 0x58 then radix_value 16 ds
          else if x = 0x6F \<or> x = 0x4F then radix_value 8 ds
          else if x = 0x62 \<or> x = 0x42 then radix_value 2 ds
          else None
      | _ \<Rightarrow> None)"

text \<open>
  \<open>StringToBigInt\<close>: the empty string is 0; otherwise a non-decimal literal, or decimal
  digits with an optional sign. \<open>None\<close> is a string that is not an integer literal.
\<close>

definition StringToBigInt :: "jsstring \<Rightarrow> int option" where
  "StringToBigInt str =
     (case trim str of
        [] \<Rightarrow> Some 0
      | c # r \<Rightarrow>
          (case non_decimal_value (c # r) of
             Some n \<Rightarrow> Some (int n)
           | None \<Rightarrow>
               if c = 0x2D then map_option (\<lambda>n. - int n) (radix_value 10 r)
               else if c = 0x2B then map_option int (radix_value 10 r)
               else map_option int (radix_value 10 (c # r))))"

text \<open>
  An unsigned decimal literal of \<open>StringToNumber\<close>: digits, with an optional fraction on
  either side of which the digits may be missing (but not on both), and an optional
  exponent; nothing may follow.
\<close>

definition decimal_literal :: "jsstring \<Rightarrow> rat option" where
  "decimal_literal s =
     (let ip = takeWhile is_digit s;
          s1 = dropWhile is_digit s;
          dot = (case s1 of c # _ \<Rightarrow> c = 0x2E | [] \<Rightarrow> False);
          fp = (if dot then takeWhile is_digit (tl s1) else []);
          s2 = (if dot then dropWhile is_digit (tl s1) else s1)
      in if ip = [] \<and> fp = [] then None
         else
           case lex_exponent s2 of
             Some (e, []) \<Rightarrow>
               Some ((digits_value ip + digits_value fp / 10 ^ length fp) * power_int 10 e)
           | _ \<Rightarrow> None)"

text \<open>\<open>StringToNumber\<close>: the empty string is 0, and a string that is no numeric literal is NaN.\<close>

definition StringToNumber :: "jsstring \<Rightarrow> jsnum" where
  "StringToNumber str =
     (case trim str of
        [] \<Rightarrow> Fin 0
      | c # r \<Rightarrow>
          (case non_decimal_value (c # r) of
             Some n \<Rightarrow> round64 (of_nat n)
           | None \<Rightarrow>
               let neg = (c = 0x2D);
                   u = (if c = 0x2D \<or> c = 0x2B then r else c # r)
               in if u = ascii ''Infinity'' then (if neg then NegInf else PosInf)
                  else
                    case decimal_literal u of
                      None \<Rightarrow> NaN
                    | Some q \<Rightarrow> round64 (if neg then - q else q)))"

text \<open>\<open>Number(v)\<close>. An array or an object is converted through its string.\<close>

fun Number :: "jsval \<Rightarrow> jsnum" where
  "Number Undefined = NaN"
| "Number Null = Fin 0"
| "Number (Bool b) = (if b then Fin 1 else Fin 0)"
| "Number (Num x) = x"
| "Number (Str s) = StringToNumber s"
| "Number v = StringToNumber (ToString v)"

text \<open>
  \<open>BigInt(v)\<close>: a RangeError for a number that is not an integer, a SyntaxError for a
  string that is not an integer literal, a TypeError for \<open>undefined\<close> and \<open>null\<close>.
\<close>

definition string_BigInt :: "jsstring \<Rightarrow> error + int" where
  "string_BigInt s = (case StringToBigInt s of None \<Rightarrow> Inl SyntaxError | Some n \<Rightarrow> Inr n)"

fun BigInt :: "jsval \<Rightarrow> error + int" where
  "BigInt Undefined = Inl TypeError"
| "BigInt Null = Inl TypeError"
| "BigInt (Bool b) = Inr (if b then 1 else 0)"
| "BigInt (Num x) =
     (case x of
        Fin q \<Rightarrow> if q = of_int \<lfloor>q\<rfloor> then Inr \<lfloor>q\<rfloor> else Inl RangeError
      | _ \<Rightarrow> Inl RangeError)"
| "BigInt (Str s) = string_BigInt s"
| "BigInt v = string_BigInt (ToString v)"

section \<open>chains.ts\<close>

text \<open>The three chain objects imported from \<open>viem/chains\<close>.\<close>

datatype Chain = mainnet | sepolia | base

text \<open>
  Modelled from the spec: the chain objects belong to the viem library, which is not part of
  the repository. A network entry carries its numeric id; these are the ids of the three
  viem objects.
\<close>

fun chain_id :: "Chain \<Rightarrow> jsnum" where
  "chain_id mainnet = Fin 1"
| "chain_id sepolia = Fin 11155111"
| "chain_id base = Fin 8453"

text \<open>
  \<open>CHAIN_MAP\<close>, a \<open>Record<number, Chain>\<close>, with its entries in source order. The key
  of a property written as a numeric literal is the text of the number.
\<close>

definition CHAIN_MAP :: "(jsstring \<times> Chain) list" where
  "CHAIN_MAP =
     [(Number_toString (Fin 1), mainnet),
      (Number_toString (Fin 11155111), sepolia),
      (Number_toString (Fin 8453), base)]"

text \<open>\<open>Object.keys\<close>: the own keys in the order of enumeration.\<close>

definition Object_keys :: "(jsstring \<times> 'a) list \<Rightarrow> jsstring list" where
  "Object_keys m = map fst (own_properties m)"

text \<open>
  \<open>CHAIN_MAP[chainId]\<close> reads the property whose key is the text of the number, which
  is also what the template substitution \<open>${chainId}\<close> prints. No property of
  \<open>Object.prototype\<close> has the text of a number for its name, so the read finds an own
  property or nothing. A chain object is truthy, so \<open>!chain\<close> holds exactly when the key
  is missing.
\<close>

definition resolveChain :: "jsnum \<Rightarrow> error + Chain" where
  "resolveChain chainId =
     (case map_of CHAIN_MAP (Number_toString chainId) of
        None \<Rightarrow>
          Inl (Error (ascii ''Unsupported chain ID: '' @ Number_toString chainId @
                      ascii ''. Supported: '' @ join (ascii '', '') (Object_keys CHAIN_MAP)))
      | Some chain \<Rightarrow> Inr chain)"

section \<open>The outside world\<close>

text \<open>
  Every call that leaves the program is recorded as an event, in the order of the calls.
\<close>

record CreateWalletOptions =
  privyAppId :: jsstring
  privyAppSecret :: jsstring

record P256KeyPair =
  privateKey :: jsstring
  publicKey :: jsstring

record fetch_init =
  http_method :: jsstring
  headers :: "(jsstring \<times> jsstring) list"
  body :: "jsstring option"

record TransactionRequest =
  to :: jsval
  data :: jsval
  "value" :: "int option"
  gas :: "int option"
  nonce :: "jsnum option"
  chain :: Chain

record TypedData =
  domain :: jsval
  types :: jsval
  primaryType :: jsval
  message :: jsval

datatype event =
    GenerateP256KeyPair
  | WalletsCreate CreateWalletOptions jsstring jsstring
  | Fetch jsstring fetch_init
  | SendTransaction TransactionRequest
  | SignMessage jsval
  | SignTypedData TypedData

section \<open>wallet.ts\<close>

text \<open>
  The file system: the text of each regular file that exists, under its absolute path.
  A write replaces the text under its path; failures of the disk (a missing directory,
  a refused permission) are not modelled. The files are UTF-8, and a file holds the text
  that was written to it: \<open>JSON.stringify\<close> writes no surrogate outside a pair, so the
  encoding loses nothing.
\<close>

type_synonym files = "jsstring \<rightharpoonup> jsstring"

text \<open>
  What the collaborators of the wallet helpers answer: \<open>path.resolve\<close> for the working
  directory of the process, the outcome of \<open>generateP256KeyPair()\<close>, the outcome of
  \<open>privy.wallets().create(...)\<close> for a client built from the given credentials (the id
  and the address of the new wallet, or a failure), and the text of
  \<open>new Date().toISOString()\<close>.
\<close>

record wallet_env =
  path_resolve :: "jsstring \<Rightarrow> jsstring"
  generateP256KeyPair :: "error + P256KeyPair"
  wallets_create :: "CreateWalletOptions \<Rightarrow> jsstring \<Rightarrow> jsstring \<Rightarrow> error + jsstring \<times> jsstring"
  toISOString_now :: jsstring

record PersistedWallet =
  walletId :: jsstring
  address :: jsstring
  authPrivateKey :: jsstring
  authPublicKey :: jsstring
  createdAt :: jsstring

text \<open>A \<open>PersistedWallet\<close> as the JavaScript object it is.\<close>

definition PersistedWallet_object :: "PersistedWallet \<Rightarrow> jsval" where
  "PersistedWallet_object w =
     Obj [(ascii ''walletId'', Str (walletId w)),
          (ascii ''address'', Str (address w)),
          (ascii ''authPrivateKey'', Str (authPrivateKey w)),
          (ascii ''authPublicKey'', Str (authPublicKey w)),
          (ascii ''createdAt'', Str (createdAt w))]"

definition DEFAULT_WALLET_FILE :: jsstring where
  "DEFAULT_WALLET_FILE = ascii ''.privy-wallet.json''"

definition createWallet ::
  "wallet_env \<Rightarrow> CreateWalletOptions \<Rightarrow> (error + PersistedWallet) \<times> event list" where
  "createWallet env opts =
     (case generateP256KeyPair env of
        Inl e \<Rightarrow> (Inl e, [GenerateP256KeyPair])
      | Inr keypair \<Rightarrow>
          (case wallets_create env opts (ascii ''ethereum'') (publicKey keypair) of
             Inl e \<Rightarrow>
               (Inl e,
                [GenerateP256KeyPair, WalletsCreate opts (ascii ''ethereum'') (publicKey keypair)])
           | Inr (wallet_id, wallet_address) \<Rightarrow>
               (Inr \<lparr>walletId = wallet_id,
                     address = wallet_address,
                     authPrivateKey = privateKey keypair,
                     authPublicKey = publicKey keypair,
                     createdAt = toISOString_now env\<rparr>,
                [GenerateP256KeyPair, WalletsCreate opts (ascii ''ethereum'') (publicKey keypair)])))"

definition resolved_path :: "wallet_env \<Rightarrow> jsstring option \<Rightarrow> jsstring" where
  "resolved_path env filePath =
     path_resolve env (case filePath of None \<Rightarrow> DEFAULT_WALLET_FILE | Some p \<Rightarrow> p)"

text \<open>
  \<open>loadWallet\<close> returns what \<open>JSON.parse\<close> returns: the cast to \<open>PersistedWallet\<close> checks
  nothing at run time.
\<close>

definition loadWallet :: "wallet_env \<Rightarrow> files \<Rightarrow> jsstring option \<Rightarrow> error + jsval" where
  "loadWallet env fs filePath =
     (case fs (resolved_path env filePath) of
        None \<Rightarrow> Inr Null
      | Some text \<Rightarrow> JSON_parse text)"

definition saveWallet :: "wallet_env \<Rightarrow> files \<Rightarrow> PersistedWallet \<Rightarrow> jsstring option \<Rightarrow> files" where
  "saveWallet env fs wallet filePath =
     fs(resolved_path env filePath \<mapsto>
          (case JSON_stringify (PersistedWallet_object wallet) 2 of
             None \<Rightarrow> ascii ''undefined''
           | Some text \<Rightarrow> text) @ [0x0A])"

text \<open>The result, the file system afterwards, and the calls made.\<close>

definition getOrCreateWallet ::
  "wallet_env \<Rightarrow> files \<Rightarrow> CreateWalletOptions \<Rightarrow> jsstring option \<Rightarrow>
   (error + jsval) \<times> files \<times> event list" where
  "getOrCreateWallet env fs opts filePath =
     (case loadWallet env fs filePath of
        Inl e \<Rightarrow> (Inl e, fs, [])
      | Inr existing \<Rightarrow>
          if truthy existing then (Inr existing, fs, [])
          else
            (case createWallet env opts of
               (Inl e, calls) \<Rightarrow> (Inl e, fs, calls)
             | (Inr wallet, calls) \<Rightarrow>
                 (Inr (PersistedWallet_object wallet), saveWallet env fs wallet filePath, calls)))"

section \<open>provider.ts\<close>

text \<open>
  \<open>PrivyProviderConfig\<close> has the two fields of \<open>CreateWalletOptions\<close> and five more; its
  \<open>walletId\<close> is named \<open>config_walletId\<close> here, apart from the field of \<open>PersistedWallet\<close>.
\<close>

record PrivyProviderConfig = CreateWalletOptions +
  config_walletId :: jsstring
  walletAddress :: jsstring
  authorizationPrivateKey :: jsstring
  rpcUrl :: jsstring
  chainId :: jsnum

text \<open>
  What the collaborators of the provider answer: \<open>createViemAccount\<close> of the Privy
  library for a client built from the given credentials, a wallet id, an address and an
  authorization key (the library refuses an address that is not well formed); \<open>fetch\<close>
  followed by reading the body of the response as text (or a failure of the network);
  and the three operations of the viem wallet client that \<open>createPrivyProvider\<close> binds
  to the Privy account, the chain and the transport.
\<close>

record provider_env =
  createViemAccount :: "CreateWalletOptions \<Rightarrow> jsstring \<Rightarrow> jsstring \<Rightarrow> jsstring \<Rightarrow> error + unit"
  fetch :: "jsstring \<Rightarrow> fetch_init \<Rightarrow> error + jsstring"
  sendTransaction :: "TransactionRequest \<Rightarrow> error + jsval"
  signMessage :: "jsval \<Rightarrow> error + jsval"
  signTypedData :: "TypedData \<Rightarrow> error + jsval"

text \<open>
  The provider: the configuration and the chain that the closure of \<open>request\<close> captures.
  The account is created first, then the chain is resolved; either may fail. Building
  the Privy client, the account and the wallet client makes no call.
\<close>

record provider =
  config :: PrivyProviderConfig
  resolved_chain :: Chain

definition createPrivyProvider :: "provider_env \<Rightarrow> PrivyProviderConfig \<Rightarrow> error + provider" where
  "createPrivyProvider env cfg =
     (case createViemAccount env
             \<lparr>privyAppId = privyAppId cfg, privyAppSecret = privyAppSecret cfg\<rparr>
             (config_walletId cfg) (walletAddress cfg) (authorizationPrivateKey cfg) of
        Inl e \<Rightarrow> Inl e
      | Inr account \<Rightarrow>
          (case resolveChain (chainId cfg) of
             Inl e \<Rightarrow> Inl e
           | Inr c \<Rightarrow> Inr \<lparr>config = cfg, resolved_chain = c\<rparr>))"

text \<open>A step that makes no call: its failure ends the request.\<close>

definition attempt ::
  "error + 'a \<Rightarrow> ('a \<Rightarrow> (error + 'b) \<times> event list) \<Rightarrow> (error + 'b) \<times> event list" where
  "attempt r k = (case r of Inl e \<Rightarrow> (Inl e, []) | Inr x \<Rightarrow> k x)"

text \<open>\<open>v != null ? f(v) : undefined\<close>\<close>

definition unless_nullish :: "(jsval \<Rightarrow> error + 'a) \<Rightarrow> jsval \<Rightarrow> error + 'a option" where
  "unless_nullish f v =
     (if nullish v then Inr None
      else case f v of Inl e \<Rightarrow> Inl e | Inr x \<Rightarrow> Inr (Some x))"

definition rpc_request :: "jsstring \<Rightarrow> jsval \<Rightarrow> jsval" where
  "rpc_request method params =
     Obj [(ascii ''jsonrpc'', Str (ascii ''2.0'')),
          (ascii ''id'', Num (Fin 1)),
          (ascii ''method'', Str method),
          (ascii ''params'', nullish_coalesce params (Arr []))]"

definition rpc_result :: "jsstring \<Rightarrow> jsval \<Rightarrow> error + jsval" where
  "rpc_result method json =
     (case get json (ascii ''error'') of
        Inl e \<Rightarrow> Inl e
      | Inr err \<Rightarrow>
          if truthy err then
            (case get err (ascii ''message'') of
               Inl e \<Rightarrow> Inl e
             | Inr m \<Rightarrow>
                 Inl (Error (ascii ''RPC error ('' @ method @ ascii ''): '' @ ToString m)))
          else get json (ascii ''result''))"

definition proxyToRpc ::
  "provider_env \<Rightarrow> provider \<Rightarrow> jsstring \<Rightarrow> jsval \<Rightarrow> (error + jsval) \<times> event list" where
  "proxyToRpc env p method params =
     (let init = \<lparr>http_method = ascii ''POST'',
                  headers = [(ascii ''Content-Type'', ascii ''application/json'')],
                  body = JSON_stringify (rpc_request method params) 0\<rparr>
      in (case fetch env (rpcUrl (config p)) init of
            Inl e \<Rightarrow> Inl e
          | Inr text \<Rightarrow>
              (case JSON_parse text of
                 Inl e \<Rightarrow> Inl e
               | Inr json \<Rightarrow> rpc_result method json),
          [Fetch (rpcUrl (config p)) init]))"

definition eth_sendTransaction ::
  "provider_env \<Rightarrow> provider \<Rightarrow> jsval \<Rightarrow> (error + jsval) \<times> event list" where
  "eth_sendTransaction env p params =
     attempt (element params 0) (\<lambda>tx.
     attempt (get tx (ascii ''to'')) (\<lambda>tx_to.
     attempt (get tx (ascii ''data'')) (\<lambda>tx_data.
     attempt (get tx (ascii ''value'')) (\<lambda>tx_value.
     attempt (unless_nullish BigInt tx_value) (\<lambda>value_arg.
     attempt (get tx (ascii ''gas'')) (\<lambda>tx_gas.
     attempt (unless_nullish BigInt tx_gas) (\<lambda>gas_arg.
     attempt (get tx (ascii ''nonce'')) (\<lambda>tx_nonce.
     attempt (unless_nullish (\<lambda>v. Inr (Number v)) tx_nonce) (\<lambda>nonce_arg.
       let req = \<lparr>to = tx_to, data = tx_data, value = value_arg, gas = gas_arg,
                  nonce = nonce_arg, chain = resolved_chain p\<rparr>
       in (sendTransaction env req, [SendTransaction req]))))))))))"

definition personal_sign ::
  "provider_env \<Rightarrow> provider \<Rightarrow> jsval \<Rightarrow> (error + jsval) \<times> event list" where
  "personal_sign env p params =
     attempt (element params 0) (\<lambda>message.
       (signMessage env message, [SignMessage message]))"

text \<open>\<open>typeof raw === 'string' ? JSON.parse(raw) : raw\<close>\<close>

definition parse_if_string :: "jsval \<Rightarrow> error + jsval" where
  "parse_if_string raw = (case raw of Str s \<Rightarrow> JSON_parse s | _ \<Rightarrow> Inr raw)"

definition eth_signTypedData_v4 ::
  "provider_env \<Rightarrow> provider \<Rightarrow> jsval \<Rightarrow> (error + jsval) \<times> event list" where
  "eth_signTypedData_v4 env p params =
     attempt (element params 1) (\<lambda>typedDataRaw.
     attempt (parse_if_string typedDataRaw) (\<lambda>typedData.
     attempt (get typedData (ascii ''types'')) (\<lambda>typedData_types.
     attempt (rest_without (ascii ''EIP712Domain'') typedData_types) (\<lambda>typesWithoutDomain.
     attempt (get typedData (ascii ''domain'')) (\<lambda>typedData_domain.
     attempt (get typedData (ascii ''primaryType'')) (\<lambda>typedData_primaryType.
     attempt (get typedData (ascii ''primary_type'')) (\<lambda>typedData_primary_type.
     attempt (get typedData (ascii ''message'')) (\<lambda>typedData_message.
       let td = \<lparr>domain = typedData_domain,
                 types = typesWithoutDomain,
                 primaryType = nullish_coalesce typedData_primaryType typedData_primary_type,
                 message = typedData_message\<rparr>
       in (signTypedData env td, [SignTypedData td])))))))))"

definition request ::
  "provider_env \<Rightarrow> provider \<Rightarrow> jsstring \<Rightarrow> jsval \<Rightarrow> (error + jsval) \<times> event list" where
  "request env p method params =
     (if method = ascii ''eth_accounts'' \<or> method = ascii ''eth_requestAccounts''
        then (Inr (Arr [Str (walletAddress (config p))]), [])
      else if method = ascii ''eth_chainId''
        then (Inr (Str (ascii ''0x'' @ Number_toString_radix 16 (chainId (config p)))), [])
      else if method = ascii ''eth_sendTransaction'' then eth_sendTransaction env p params
      else if method = ascii ''personal_sign'' then personal_sign env p params
      else if method = ascii ''eth_signTypedData_v4'' then eth_signTypedData_v4 env p params
      else proxyToRpc env p method params)"

section \<open>What the specification describes\<close>

text \<open>
  The persisted credential file: a JSON object with the keys \<open>walletId\<close>, \<open>address\<close>,
  \<open>authPrivateKey\<close>, \<open>authPublicKey\<close> and \<open>createdAt\<close>, in this order, indented by two
  spaces, one member per line, with a trailing newline.
\<close>

definition member_line :: "string \<Rightarrow> jsstring \<Rightarrow> jsstring" where
  "member_line key s =
     ascii ''  '' @ QuoteJSONString (ascii key) @ ascii '': '' @ QuoteJSONString s"

definition wallet_json_text :: "PersistedWallet \<Rightarrow> jsstring" where
  "wallet_json_text w =
     ascii ''{'' @ [0x0A] @
     member_line ''walletId'' (walletId w) @ ascii '','' @ [0x0A] @
     member_line ''address'' (address w) @ ascii '','' @ [0x0A] @
     member_line ''authPrivateKey'' (authPrivateKey w) @ ascii '','' @ [0x0A] @
     member_line ''authPublicKey'' (authPublicKey w) @ ascii '','' @ [0x0A] @
     member_line ''createdAt'' (createdAt w) @ [0x0A] @
     ascii ''}''"

definition wallet_file_text :: "PersistedWallet \<Rightarrow> jsstring" where
  "wallet_file_text w = wallet_json_text w @ [0x0A]"

text \<open>
  A text is well formed when every surrogate in it is half of a pair: a high surrogate
  followed by a low one. Such a text is unchanged by being written to a file as UTF-8 and
  read back, which is how the file system of this model stores it.
\<close>

fun well_formed_utf16 :: "jsstring \<Rightarrow> bool" where
  "well_formed_utf16 [] = True"
| "well_formed_utf16 [c] = (\<not> is_high_surrogate c \<and> \<not> is_low_surrogate c)"
| "well_formed_utf16 (c # d # ds) =
     (if is_high_surrogate c then is_low_surrogate d \<and> well_formed_utf16 ds
      else \<not> is_low_surrogate c \<and> well_formed_utf16 (d # ds))"

text \<open>The method names that \<open>request\<close> handles itself.\<close>

definition handled_methods :: "jsstring set" where
  "handled_methods =
     {ascii ''eth_accounts'', ascii ''eth_requestAccounts'', ascii ''eth_chainId'',
      ascii ''eth_sendTransaction'', ascii ''personal_sign'', ascii ''eth_signTypedData_v4''}"

text \<open>
  The body of a proxied call: the JSON object with \<open>jsonrpc\<close> \<open>"2.0"\<close>, \<open>id\<close> 1, the
  method name and the text of the parameters, on one line.
\<close>

definition rpc_body_text :: "jsstring \<Rightarrow> jsstring \<Rightarrow> jsstring" where
  "rpc_body_text method params_text =
     ascii ''{'' @ QuoteJSONString (ascii ''jsonrpc'') @ ascii '':'' @
     QuoteJSONString (ascii ''2.0'') @ ascii '','' @
     QuoteJSONString (ascii ''id'') @ ascii '':1,'' @
     QuoteJSONString (ascii ''method'') @ ascii '':'' @ QuoteJSONString method @ ascii '','' @
     QuoteJSONString (ascii ''params'') @ ascii '':'' @ params_text @ ascii ''}''"

text \<open>
  What the typed-data signer is asked to sign for a payload with the properties \<open>ps\<close>
  whose \<open>types\<close> has the properties \<open>ts\<close>.
\<close>

definition typed_data_request ::
  "(jsstring \<times> jsval) list \<Rightarrow> (jsstring \<times> jsval) list \<Rightarrow> TypedData" where
  "typed_data_request ps ts =
     \<lparr>domain = own_property ps (ascii ''domain''),
      types = Obj (filter (\<lambda>kv. fst kv \<noteq> ascii ''EIP712Domain'') (own_properties ts)),
      primaryType = nullish_coalesce (own_property ps (ascii ''primaryType''))
                      (own_property ps (ascii ''primary_type'')),
      message = own_property ps (ascii ''message'')\<rparr>"

text \<open>
  Two typed-data payloads that differ only in the name of the field that carries the
  primary type: every property under the name \<open>a\<close> is moved to the name \<open>b\<close>.
\<close>

definition rename_key ::
  "jsstring \<Rightarrow> jsstring \<Rightarrow> (jsstring \<times> jsval) list \<Rightarrow> (jsstring \<times> jsval) list" where
  "rename_key a b ps = map (\<lambda>p. if fst p = a then (b, snd p) else p) ps"

text \<open>
  The integer that a transaction field denotes when it is a decimal string, a \<open>0x\<close>
  hexadecimal string or an integral number.
\<close>

definition integer_text :: "jsstring \<Rightarrow> int option" where
  "integer_text s =
     (if take 2 s = ascii ''0x'' then map_option int (radix_value 16 (drop 2 s))
      else map_option int (radix_value 10 s))"

fun as_integer :: "jsval \<Rightarrow> int option" where
  "as_integer (Str s) = integer_text s"
| "as_integer (Num (Fin q)) = (if q = of_int \<lfloor>q\<rfloor> then Some \<lfloor>q\<rfloor> else None)"
| "as_integer v = None"

text \<open>The counter of a stub custody client: the number of wallet-creation calls.\<close>

fun is_WalletsCreate :: "event \<Rightarrow> bool" where
  "is_WalletsCreate (WalletsCreate opts chain_type owner) = True"
| "is_WalletsCreate e = False"

definition creation_calls :: "event list \<Rightarrow> nat" where
  "creation_calls calls = length (filter is_WalletsCreate calls)"

section \<open>Concrete inputs\<close>

text \<open>A custody service that creates a wallet, and one that rejects the request.\<close>

definition example_options :: CreateWalletOptions where
  "example_options = \<lparr>privyAppId = ascii ''app-id'', privyAppSecret = ascii ''app-secret''\<rparr>"

definition example_keypair :: P256KeyPair where
  "example_keypair = \<lparr>privateKey = ascii ''cHJpdmF0ZQ=='', publicKey = ascii ''cHVibGlj''\<rparr>"

definition example_wallet_env :: wallet_env where
  "example_wallet_env =
     \<lparr>path_resolve = (\<lambda>p. ascii ''/srv/agent/'' @ p),
      generateP256KeyPair = Inr example_keypair,
      wallets_create = (\<lambda>opts chain_type owner. Inr (ascii ''wallet-1'', ascii ''0xaa'')),
      toISOString_now = ascii ''2026-01-01T00:00:00.000Z''\<rparr>"

definition rejecting_wallet_env :: wallet_env where
  "rejecting_wallet_env =
     example_wallet_env
       \<lparr>wallets_create := (\<lambda>opts chain_type owner. Inl (Rejected (ascii ''401 Unauthorized'')))\<rparr>"

definition example_wallet :: PersistedWallet where
  "example_wallet =
     \<lparr>walletId = ascii ''wallet-1'', address = ascii ''0xaa'',
      authPrivateKey = ascii ''cHJpdmF0ZQ=='', authPublicKey = ascii ''cHVibGlj'',
      createdAt = ascii ''2026-01-01T00:00:00.000Z''\<rparr>"

definition example_path :: jsstring where
  "example_path = ascii ''/srv/agent/.privy-wallet.json''"

text \<open>File systems in which the credential file holds \<open>null\<close>, \<open>{}\<close> and \<open>not json\<close>.\<close>

definition null_file :: files where
  "null_file = [example_path \<mapsto> ascii ''null'']"

definition empty_object_file :: files where
  "empty_object_file = [example_path \<mapsto> ascii ''{}'']"

definition garbage_file :: files where
  "garbage_file = [example_path \<mapsto> ascii ''not json'']"

text \<open>A provider for Sepolia.\<close>

definition example_config :: PrivyProviderConfig where
  "example_config =
     \<lparr>privyAppId = ascii ''app-id'', privyAppSecret = ascii ''app-secret'',
      config_walletId = ascii ''wallet-1'',
      walletAddress = ascii ''0x00000000000000000000000000000000000000aa'',
      authorizationPrivateKey = ascii ''cHJpdmF0ZQ=='', rpcUrl = ascii ''https://rpc.example'',
      chainId = Fin 11155111\<rparr>"

definition example_provider :: provider where
  "example_provider = \<lparr>config = example_config, resolved_chain = sepolia\<rparr>"

text \<open>
  Stub collaborators of a provider: an account library that accepts an address made of
  \<open>0x\<close> and 40 hexadecimal digits and refuses any other, a node that answers every call
  with the result \<open>"0x10"\<close>, a node that answers with the error \<open>Method not found\<close>, and
  signers whose answers are fixed functions of what they are asked to sign.
\<close>

definition is_address :: "jsstring \<Rightarrow> bool" where
  "is_address a \<longleftrightarrow>
     take 2 a = ascii ''0x'' \<and> length a = 42 \<and> list_all (is_digit_of 16) (drop 2 a)"

definition result_response :: jsstring where
  "result_response =
     ascii ''{'' @ QuoteJSONString (ascii ''result'') @ ascii '':'' @
     QuoteJSONString (ascii ''0x10'') @ ascii ''}''"

definition error_response :: jsstring where
  "error_response =
     ascii ''{'' @ QuoteJSONString (ascii ''error'') @ ascii '':{'' @
     QuoteJSONString (ascii ''message'') @ ascii '':'' @
     QuoteJSONString (ascii ''Method not found'') @ ascii ''}}''"

definition example_provider_env :: provider_env where
  "example_provider_env =
     \<lparr>createViemAccount =
        (\<lambda>credentials wallet_id wallet_address key.
           if is_address wallet_address then Inr ()
           else Inl (Rejected (ascii ''InvalidAddressError''))),
      fetch = (\<lambda>url init. Inr result_response),
      sendTransaction = (\<lambda>req. Inr (Str (ascii ''0xhash''))),
      signMessage = (\<lambda>raw. Inr (Str (ascii ''0xsigned''))),
      signTypedData = (\<lambda>td. Inr (Str (ascii ''0xsigned:'' @ ToString (primaryType td))))\<rparr>"

definition failing_provider_env :: provider_env where
  "failing_provider_env = example_provider_env\<lparr>fetch := (\<lambda>url init. Inr error_response)\<rparr>"

text \<open>
  Two more nodes: one whose answer has the \<open>error\<close> field \<open>null\<close> beside a result, and
  one whose answer has a string for its \<open>error\<close> field.
\<close>

definition null_error_response :: jsstring where
  "null_error_response =
     ascii ''{'' @ QuoteJSONString (ascii ''error'') @ ascii '':null,'' @
     QuoteJSONString (ascii ''result'') @ ascii '':'' @ QuoteJSONString (ascii ''0x1'') @
     ascii ''}''"

definition string_error_response :: jsstring where
  "string_error_response =
     ascii ''{'' @ QuoteJSONString (ascii ''error'') @ ascii '':'' @
     QuoteJSONString (ascii ''boom'') @ ascii ''}''"

definition null_error_provider_env :: provider_env where
  "null_error_provider_env =
     example_provider_env\<lparr>fetch := (\<lambda>url init. Inr null_error_response)\<rparr>"

definition string_error_provider_env :: provider_env where
  "string_error_provider_env =
     example_provider_env\<lparr>fetch := (\<lambda>url init. Inr string_error_response)\<rparr>"

text \<open>
  A typed-data payload with the primary type under the name \<open>primaryType\<close>, and the
  types that remain without \<open>EIP712Domain\<close>.
\<close>

definition example_types :: "(jsstring \<times> jsval) list" where
  "example_types =
     [(ascii ''Mail'', Arr [Obj [(ascii ''name'', Str (ascii ''body'')),
                                 (ascii ''type'', Str (ascii ''string''))]])]"

definition example_typed_data :: "(jsstring \<times> jsval) list" where
  "example_typed_data =
     [(ascii ''domain'', Obj [(ascii ''name'', Str (ascii ''Mail''))]),
      (ascii ''types'', Obj ((ascii ''EIP712Domain'', Arr []) # example_types)),
      (ascii ''primaryType'', Str (ascii ''Mail'')),
      (ascii ''message'', Obj [(ascii ''body'', Str (ascii ''hello''))])]"

text \<open>
  Transactions: one whose fields are a hexadecimal string, a number and a decimal
  string, and one whose nonce is the decimal string of \<open>2^53 + 1\<close>.
\<close>

definition example_transaction :: jsval where
  "example_transaction =
     Arr [Obj [(ascii ''to'', Str (ascii ''0xbb'')),
               (ascii ''value'', Str (ascii ''0x10'')),
               (ascii ''gas'', Num (Fin 21000)),
               (ascii ''nonce'', Str (ascii ''7''))]]"

definition large_nonce_transaction :: jsval where
  "large_nonce_transaction = Arr [Obj [(ascii ''nonce'', Str (ascii ''9007199254740993''))]]"

section \<open>Digits\<close>

lemma digits_small: "n < radix \<Longrightarrow> digits radix n = [digit_unit n]"
  by (simp add: digits.simps)

lemma digits_step:
  "2 \<le> radix \<Longrightarrow> radix \<le> n \<Longrightarrow>
   digits radix n = digits radix (n div radix) @ [digit_unit (n mod radix)]"
  by (subst digits.simps) simp

lemma below_16_cases:
  "d < 16 \<Longrightarrow>
   d = 0 \<or> d = 1 \<or> d = 2 \<or> d = 3 \<or> d = 4 \<or> d = 5 \<or> d = 6 \<or> d = 7 \<or> d = 8 \<or> d = 9 \<or>
   d = 10 \<or> d = 11 \<or> d = 12 \<or> d = 13 \<or> d = 14 \<or> d = (15::nat)"
  by arith

lemma hex_value_digit_unit: "d < 16 \<Longrightarrow> hex_value (digit_unit d) = Some d"
  by (drule below_16_cases) (elim disjE; simp add: hex_value_def digit_unit_def)

lemma digit_unit_lower_hex:
  "d < 16 \<Longrightarrow> digit_unit d \<in> set (ascii ''0123456789abcdef'')"
  by (drule below_16_cases) (elim disjE; simp add: digit_unit_def ascii_def)

lemma digits_not_empty: "digits radix n \<noteq> []"
  by (subst digits.simps) simp

lemma digits_lower_hex:
  "radix \<le> 16 \<Longrightarrow> 2 \<le> radix \<Longrightarrow> c \<in> set (digits radix n) \<Longrightarrow> c \<in> set (ascii ''0123456789abcdef'')"
proof (induction radix n rule: digits.induct)
  case (1 radix n)
  show ?case
  proof (cases "n < radix")
    case True
    with 1 show ?thesis
      using digit_unit_lower_hex [of n] by (simp add: digits_small)
  next
    case False
    from 1(2,3) have "n mod radix < 16"
      using mod_less_divisor [of radix n] by linarith
    with False 1 digit_unit_lower_hex [of "n mod radix"] show ?thesis
      by (auto simp: digits_step)
  qed
qed

lemma radix_value_snoc:
  "radix_value radix s = Some a \<Longrightarrow> is_digit_of radix c \<Longrightarrow>
   radix_value radix (s @ [c]) = Some (radix * a + digit_value c)"
  by (auto simp: radix_value_def split: if_splits)

lemma radix_value_digits:
  "2 \<le> radix \<Longrightarrow> radix \<le> 16 \<Longrightarrow> radix_value radix (digits radix n) = Some n"
proof (induction radix n rule: digits.induct)
  case (1 radix n)
  have unit: "d < radix \<Longrightarrow> is_digit_of radix (digit_unit d) \<and> digit_value (digit_unit d) = d" for d
    using 1(3) hex_value_digit_unit [of d] by (simp add: is_digit_of_def digit_value_def)
  show ?case
  proof (cases "n < radix")
    case True
    with unit [of n] show ?thesis
      by (simp add: digits_small radix_value_def)
  next
    case False
    with 1 have ih: "radix_value radix (digits radix (n div radix)) = Some (n div radix)"
      by simp
    from 1(2) have "n mod radix < radix" by simp
    from radix_value_snoc [OF ih] unit [OF this] False 1(2) show ?thesis
      by (simp add: digits_step)
  qed
qed

section \<open>Reading back a quoted string\<close>

lemma hex4_sum:
  "((n div 4096 * 16 + n div 256 mod 16) * 16 + n div 16 mod 16) * 16 + n mod 16 = (n::nat)"
proof -
  define a where "a = n div 16"
  define b where "b = a div 16"
  define c where "c = b div 16"
  have d256: "n div 256 = b" unfolding a_def b_def by (simp add: div_mult2_eq)
  have d4096: "n div 4096 = c" unfolding a_def b_def c_def by (simp add: div_mult2_eq)
  define r0 where "r0 = n mod 16"
  define r1 where "r1 = a mod 16"
  define r2 where "r2 = b mod 16"
  have n: "n = 16 * a + r0" unfolding a_def r0_def by simp
  have a: "a = 16 * b + r1" unfolding b_def r1_def by simp
  have b: "b = 16 * c + r2" unfolding c_def r2_def by simp
  have "((c * 16 + r2) * 16 + r1) * 16 + r0 = n"
    by (subst n, subst a, subst b) (simp add: algebra_simps)
  then have "((c * 16 + b mod 16) * 16 + a mod 16) * 16 + n mod 16 = n"
    by (simp add: r0_def r1_def r2_def)
  then show ?thesis by (simp add: d256 d4096 a_def [symmetric])
qed

lemma hex4_value_digits:
  assumes "n < 65536"
  shows "hex4_value (digit_unit (n div 4096)) (digit_unit (n div 256 mod 16))
           (digit_unit (n div 16 mod 16)) (digit_unit (n mod 16)) = Some (of_nat n)"
proof -
  from assms have "n div 4096 < 16" by (simp add: div_less_iff_less_mult)
  with hex4_sum [of n] show ?thesis
    by (simp add: hex4_value_def hex_value_digit_unit)
qed

lemma lex_string_plain:
  "c \<noteq> 0x22 \<Longrightarrow> c \<noteq> 0x5C \<Longrightarrow> \<not> c < 0x20 \<Longrightarrow>
   lex_string (c # rest) = cons_unit c (lex_string rest)"
  by simp

lemma lex_string_unicode_escape:
  "lex_string ([0x5C, 0x75] @ hex4 u @ rest) = cons_unit u (lex_string rest)"
proof -
  have "unat u < 65536" using unsigned_less [of u] by simp
  from hex4_value_digits [OF this] show ?thesis
    by (simp add: hex4_def Let_def)
qed

lemma surrogate_plain:
  "is_high_surrogate c \<or> is_low_surrogate c \<Longrightarrow> c \<noteq> 0x22 \<and> c \<noteq> 0x5C \<and> \<not> c < 0x20"
  by (auto simp: is_high_surrogate_def is_low_surrogate_def word_le_nat_alt word_less_nat_alt)

lemma lex_string_escape_unit:
  "lex_string (escape_unit c @ rest) = cons_unit c (lex_string rest)"
proof -
  consider "c = 0x08" | "c = 0x09" | "c = 0x0A" | "c = 0x0C" | "c = 0x0D" | "c = 0x22" | "c = 0x5C"
    | "c \<notin> {0x08, 0x09, 0x0A, 0x0C, 0x0D, 0x22, 0x5C}"
      "c < 0x20 \<or> is_high_surrogate c \<or> is_low_surrogate c"
    | "c \<notin> {0x08, 0x09, 0x0A, 0x0C, 0x0D, 0x22, 0x5C}"
      "\<not> (c < 0x20 \<or> is_high_surrogate c \<or> is_low_surrogate c)"
    by blast
  then show ?thesis
  proof cases
    case 8
    then have "escape_unit c = [0x5C, 0x75] @ hex4 c" by (simp add: escape_unit_def)
    then show ?thesis using lex_string_unicode_escape [of c rest] by simp
  next
    case 9
    then have "escape_unit c = [c]" by (simp add: escape_unit_def)
    with 9 show ?thesis by simp
  qed (simp_all add: escape_unit_def unescape_def)
qed

lemma lex_string_quote_units:
  "lex_string (quote_units s @ 0x22 # rest) = Some (s, rest)"
proof (induction s rule: quote_units.induct)
  case 1
  show ?case by simp
next
  case (2 c)
  have "lex_string (escape_unit c @ 0x22 # rest) = cons_unit c (lex_string (0x22 # rest))"
    by (rule lex_string_escape_unit)
  then show ?case by (simp add: cons_unit_def)
next
  case (3 c d ds)
  show ?case
  proof (cases "is_high_surrogate c \<and> is_low_surrogate d")
    case True
    then have q: "quote_units (c # d # ds) = c # d # quote_units ds" by simp
    from True surrogate_plain [of c] surrogate_plain [of d]
    have "lex_string (c # d # quote_units ds @ 0x22 # rest) =
          cons_unit c (cons_unit d (lex_string (quote_units ds @ 0x22 # rest)))"
      by (simp add: lex_string_plain del: lex_string.simps)
    with True 3 show ?thesis by (simp add: q cons_unit_def del: lex_string.simps)
  next
    case False
    then have q: "quote_units (c # d # ds) = escape_unit c @ quote_units (d # ds)" by auto
    have "lex_string (escape_unit c @ quote_units (d # ds) @ 0x22 # rest) =
          cons_unit c (lex_string (quote_units (d # ds) @ 0x22 # rest))"
      by (rule lex_string_escape_unit)
    with False 3 show ?thesis by (simp add: q cons_unit_def del: lex_string.simps quote_units.simps)
  qed
qed

section \<open>The credential file\<close>

lemma wallet_keys_not_indices:
  "index_of_key (ascii ''walletId'') = None"
  "index_of_key (ascii ''address'') = None"
  "index_of_key (ascii ''authPrivateKey'') = None"
  "index_of_key (ascii ''authPublicKey'') = None"
  "index_of_key (ascii ''createdAt'') = None"
  by (simp_all add: index_of_key_def ascii_def is_digit_def)

lemma stringify_wallet:
  "JSON_stringify (PersistedWallet_object w) 2 = Some (wallet_json_text w)"
  by (simp add: JSON_stringify_def PersistedWallet_object_def own_properties_def
      wallet_keys_not_indices wrap_def wallet_json_text_def member_line_def numeral_2_eq_2)
     (simp add: ascii_def)

lemma saveWallet_text:
  "saveWallet env fs w filePath = fs(resolved_path env filePath \<mapsto> wallet_file_text w)"
  by (simp add: saveWallet_def stringify_wallet wallet_file_text_def)

lemma tokenize_quoted [simp]:
  "tokenize (QuoteJSONString s @ rest) = cons_token (TStr s) (tokenize rest)"
  using lex_string_quote_units [of s rest] by (simp add: QuoteJSONString_def is_json_space_def)

lemma tokenize_wallet_file_text:
  "tokenize (wallet_file_text w) =
     Some [LBrace,
       TStr (ascii ''walletId''), Colon, TStr (walletId w), Comma,
       TStr (ascii ''address''), Colon, TStr (address w), Comma,
       TStr (ascii ''authPrivateKey''), Colon, TStr (authPrivateKey w), Comma,
       TStr (ascii ''authPublicKey''), Colon, TStr (authPublicKey w), Comma,
       TStr (ascii ''createdAt''), Colon, TStr (createdAt w),
       RBrace]"
proof -
  have sp: "tokenize (0x20 # rest) = tokenize rest" "tokenize (0x0A # rest) = tokenize rest"
    "tokenize (0x7B # rest) = cons_token LBrace (tokenize rest)"
    "tokenize (0x7D # rest) = cons_token RBrace (tokenize rest)"
    "tokenize (0x3A # rest) = cons_token Colon (tokenize rest)"
    "tokenize (0x2C # rest) = cons_token Comma (tokenize rest)" for rest
    by (simp_all add: is_json_space_def)
  have units: "ascii ''{'' = [0x7B]" "ascii ''}'' = [0x7D]" "ascii '','' = [0x2C]"
    "ascii '': '' = [0x3A, 0x20]" "ascii ''  '' = [0x20, 0x20]"
    by (simp_all add: ascii_def)
  show ?thesis
    by (simp add: wallet_file_text_def wallet_json_text_def member_line_def units sp
        cons_token_def del: tokenize.simps(2))
qed

lemma JSON_parse_wallet_file_text:
  "JSON_parse (wallet_file_text w) = Inr (PersistedWallet_object w)"
  by (simp add: JSON_parse_def tokenize_wallet_file_text PersistedWallet_object_def) (simp add: ascii_def)

section \<open>The text written to the credential file is well formed\<close>

lemma not_surrogate_ascii:
  "c \<le> 0x7F \<Longrightarrow> \<not> is_high_surrogate c \<and> \<not> is_low_surrogate c"
  by (auto simp: is_high_surrogate_def is_low_surrogate_def word_le_nat_alt)

lemma well_formed_Cons:
  "\<not> is_high_surrogate c \<Longrightarrow> \<not> is_low_surrogate c \<Longrightarrow>
   well_formed_utf16 (c # s) = well_formed_utf16 s"
  by (cases s) simp_all

lemma well_formed_pair:
  "is_high_surrogate c \<Longrightarrow> is_low_surrogate d \<Longrightarrow>
   well_formed_utf16 (c # d # s) = well_formed_utf16 s"
  by simp

lemma well_formed_plain:
  "\<forall>c \<in> set a. \<not> is_high_surrogate c \<and> \<not> is_low_surrogate c \<Longrightarrow>
   well_formed_utf16 (a @ s) = well_formed_utf16 s"
  by (induction a) (simp_all add: well_formed_Cons)

lemma digit_unit_ascii: "d < 16 \<Longrightarrow> digit_unit d \<le> 0x7F"
  by (drule below_16_cases) (elim disjE; simp add: digit_unit_def)

lemma hex4_ascii: "c \<in> set (hex4 u) \<Longrightarrow> c \<le> 0x7F"
proof -
  have "unat u < 65536" using unsigned_less [of u] by simp
  then have "unat u div 4096 < 16" by (simp add: div_less_iff_less_mult)
  then show "c \<in> set (hex4 u) \<Longrightarrow> c \<le> 0x7F"
    by (auto simp: hex4_def Let_def digit_unit_ascii)
qed

lemma escape_unit_plain:
  "c' \<in> set (escape_unit c) \<Longrightarrow> \<not> is_high_surrogate c' \<and> \<not> is_low_surrogate c'"
proof -
  assume m: "c' \<in> set (escape_unit c)"
  show ?thesis
  proof (cases "escape_unit c = [c]")
    case True
    with m have "c' = c" by simp
    moreover from True have "\<not> (c < 0x20 \<or> is_high_surrogate c \<or> is_low_surrogate c)"
      by (auto simp: escape_unit_def hex4_def Let_def split: if_splits)
    ultimately show ?thesis by simp
  next
    case False
    with m have "c' \<le> 0x7F"
      by (auto simp: escape_unit_def dest: hex4_ascii split: if_splits)
    then show ?thesis by (rule not_surrogate_ascii)
  qed
qed

lemma well_formed_quote_units:
  "well_formed_utf16 (quote_units s @ rest) = well_formed_utf16 rest"
proof (induction s rule: quote_units.induct)
  case 1
  show ?case by simp
next
  case (2 c)
  show ?case using escape_unit_plain [of _ c] by (simp add: well_formed_plain)
next
  case (3 c d ds)
  show ?case
  proof (cases "is_high_surrogate c \<and> is_low_surrogate d")
    case True
    with 3 show ?thesis by simp
  next
    case False
    then have q: "quote_units (c # d # ds) = escape_unit c @ quote_units (d # ds)" by auto
    have "well_formed_utf16 (escape_unit c @ quote_units (d # ds) @ rest) =
          well_formed_utf16 (quote_units (d # ds) @ rest)"
      using escape_unit_plain [of _ c] by (intro well_formed_plain) blast
    with False 3 show ?thesis by (simp add: q del: quote_units.simps)
  qed
qed

lemma well_formed_QuoteJSONString:
  "well_formed_utf16 (QuoteJSONString s @ rest) = well_formed_utf16 rest"
  using well_formed_quote_units [of s "0x22 # rest"]
  by (simp add: QuoteJSONString_def well_formed_Cons is_high_surrogate_def is_low_surrogate_def)

lemma well_formed_wallet_file_text: "well_formed_utf16 (wallet_file_text w)"
proof -
  have units: "ascii ''{'' = [0x7B]" "ascii ''}'' = [0x7D]" "ascii '','' = [0x2C]"
    "ascii '': '' = [0x3A, 0x20]" "ascii ''  '' = [0x20, 0x20]"
    by (simp_all add: ascii_def)
  show ?thesis
    by (simp add: wallet_file_text_def wallet_json_text_def member_line_def units
        well_formed_QuoteJSONString well_formed_Cons is_high_surrogate_def is_low_surrogate_def
        del: well_formed_utf16.simps(3))
qed

section \<open>The wallet lifecycle\<close>

lemma createWallet_success:
  assumes "generateP256KeyPair env = Inr keypair"
    and "wallets_create env opts (ascii ''ethereum'') (publicKey keypair) = Inr (wid, waddr)"
  shows "createWallet env opts =
     (Inr \<lparr>walletId = wid, address = waddr, authPrivateKey = privateKey keypair,
           authPublicKey = publicKey keypair, createdAt = toISOString_now env\<rparr>,
      [GenerateP256KeyPair, WalletsCreate opts (ascii ''ethereum'') (publicKey keypair)])"
  using assms by (simp add: createWallet_def)

lemma createWallet_rejected:
  assumes "generateP256KeyPair env = Inr keypair"
    and "wallets_create env opts (ascii ''ethereum'') (publicKey keypair) = Inl e"
  shows "createWallet env opts =
     (Inl e, [GenerateP256KeyPair, WalletsCreate opts (ascii ''ethereum'') (publicKey keypair)])"
  using assms by (simp add: createWallet_def)

lemma truthy_PersistedWallet_object: "truthy (PersistedWallet_object w)"
  by (simp add: PersistedWallet_object_def)

lemma getOrCreateWallet_hit:
  assumes "fs (resolved_path env filePath) = Some text" and "JSON_parse text = Inr v" and "truthy v"
  shows "getOrCreateWallet env fs opts filePath = (Inr v, fs, [])"
  using assms by (simp add: getOrCreateWallet_def loadWallet_def)

lemma getOrCreateWallet_miss:
  assumes "loadWallet env fs filePath = Inr v" and "\<not> truthy v"
  shows "getOrCreateWallet env fs opts filePath =
     (case createWallet env opts of
        (Inl e, calls) \<Rightarrow> (Inl e, fs, calls)
      | (Inr wallet, calls) \<Rightarrow>
          (Inr (PersistedWallet_object wallet),
           fs(resolved_path env filePath \<mapsto> wallet_file_text wallet), calls))"
  using assms by (simp add: getOrCreateWallet_def saveWallet_text split: prod.splits sum.splits)

lemma JSON_parse_null: "JSON_parse (ascii ''null'') = Inr Null"
  by (simp add: JSON_parse_def ascii_def is_json_space_def is_digit_def strip_prefix_def
      cons_token_def)

lemma JSON_parse_empty_object: "JSON_parse (ascii ''{}'') = Inr (Obj [])"
  by (simp add: JSON_parse_def ascii_def is_json_space_def cons_token_def)

lemma JSON_parse_garbage: "JSON_parse (ascii ''not json'') = Inl SyntaxError"
  by (simp add: JSON_parse_def ascii_def is_json_space_def is_digit_def strip_prefix_def
      cons_token_def)

lemma example_resolved: "resolved_path example_wallet_env None = example_path"
  "resolved_path rejecting_wallet_env None = example_path"
  by (simp_all add: resolved_path_def example_wallet_env_def rejecting_wallet_env_def
      DEFAULT_WALLET_FILE_def example_path_def ascii_def)

text \<open>
  Claim C5. For every record of five strings and every path (given or defaulted),
  \<open>saveWallet\<close> writes the text of the credential file, which is well formed, and
  \<open>loadWallet\<close> on the same path afterwards returns the object with exactly the five
  saved properties.
\<close>

theorem save_then_load:
  "saveWallet env fs wallet filePath = fs(resolved_path env filePath \<mapsto> wallet_file_text wallet) \<and>
   well_formed_utf16 (wallet_file_text wallet) \<and>
   loadWallet env (saveWallet env fs wallet filePath) filePath = Inr (PersistedWallet_object wallet)"
  by (simp add: loadWallet_def saveWallet_text JSON_parse_wallet_file_text
      well_formed_wallet_file_text)

theorem save_then_load_witness:
  "saveWallet example_wallet_env Map.empty example_wallet None =
     [example_path \<mapsto> wallet_file_text example_wallet] \<and>
   loadWallet example_wallet_env (saveWallet example_wallet_env Map.empty example_wallet None) None =
     Inr (PersistedWallet_object example_wallet)"
proof -
  note saved = save_then_load [of example_wallet_env Map.empty example_wallet None]
  from saved have "saveWallet example_wallet_env Map.empty example_wallet None =
      [example_path \<mapsto> wallet_file_text example_wallet]"
    by (simp add: example_resolved)
  moreover from saved have
    "loadWallet example_wallet_env (saveWallet example_wallet_env Map.empty example_wallet None) None =
       Inr (PersistedWallet_object example_wallet)"
    by (elim conjE)
  ultimately show ?thesis by (intro conjI)
qed

text \<open>
  Claim C1, as the code has it. When a file exists at the resolved path and its content
  is JSON for a truthy value, which every object and so every credential record is,
  \<open>getOrCreateWallet\<close> returns the loaded value as it is, makes no call (the creation
  counter stays at zero) and leaves the files alone; when the content is not JSON it
  fails with the error of the parser, again without a call. When no file exists it runs
  \<open>createWallet\<close> once, and when the creation succeeds it has generated one key pair and
  called the custody service once, it writes the record and returns it; the file then
  exists and loading it gives the returned record.
\<close>

theorem getOrCreateWallet_load_or_create:
  "(\<forall>content v.
      fs (resolved_path env filePath) = Some content \<and> JSON_parse content = Inr v \<and> truthy v \<longrightarrow>
      getOrCreateWallet env fs opts filePath = (Inr v, fs, []) \<and>
      creation_calls (snd (snd (getOrCreateWallet env fs opts filePath))) = 0) \<and>
   (\<forall>content loaded.
      fs (resolved_path env filePath) = Some content \<and>
      JSON_parse content = Inr (PersistedWallet_object loaded) \<longrightarrow>
      getOrCreateWallet env fs opts filePath = (Inr (PersistedWallet_object loaded), fs, [])) \<and>
   (\<forall>content e.
      fs (resolved_path env filePath) = Some content \<and> JSON_parse content = Inl e \<longrightarrow>
      getOrCreateWallet env fs opts filePath = (Inl e, fs, [])) \<and>
   (fs (resolved_path env filePath) = None \<longrightarrow>
      snd (snd (getOrCreateWallet env fs opts filePath)) = snd (createWallet env opts)) \<and>
   (\<forall>keypair wid waddr.
      fs (resolved_path env filePath) = None \<and>
      generateP256KeyPair env = Inr keypair \<and>
      wallets_create env opts (ascii ''ethereum'') (publicKey keypair) = Inr (wid, waddr) \<longrightarrow>
      (let wallet = \<lparr>walletId = wid, address = waddr, authPrivateKey = privateKey keypair,
                     authPublicKey = publicKey keypair, createdAt = toISOString_now env\<rparr>;
           fs' = fs(resolved_path env filePath \<mapsto> wallet_file_text wallet);
           calls = [GenerateP256KeyPair, WalletsCreate opts (ascii ''ethereum'') (publicKey keypair)]
       in getOrCreateWallet env fs opts filePath = (Inr (PersistedWallet_object wallet), fs', calls) \<and>
          creation_calls (snd (snd (getOrCreateWallet env fs opts filePath))) = 1 \<and>
          loadWallet env fs' filePath = Inr (PersistedWallet_object wallet)))"
proof (intro conjI allI impI)
  fix content v
  assume a: "fs (resolved_path env filePath) = Some content \<and> JSON_parse content = Inr v \<and> truthy v"
  then show hit: "getOrCreateWallet env fs opts filePath = (Inr v, fs, [])"
    by (simp add: getOrCreateWallet_hit)
  then show "creation_calls (snd (snd (getOrCreateWallet env fs opts filePath))) = 0"
    by (simp add: creation_calls_def)
next
  fix content loaded
  assume "fs (resolved_path env filePath) = Some content \<and>
      JSON_parse content = Inr (PersistedWallet_object loaded)"
  then show "getOrCreateWallet env fs opts filePath = (Inr (PersistedWallet_object loaded), fs, [])"
    by (simp add: getOrCreateWallet_hit truthy_PersistedWallet_object)
next
  fix content e
  assume "fs (resolved_path env filePath) = Some content \<and> JSON_parse content = Inl e"
  then show "getOrCreateWallet env fs opts filePath = (Inl e, fs, [])"
    by (simp add: getOrCreateWallet_def loadWallet_def)
next
  assume "fs (resolved_path env filePath) = None"
  then have "loadWallet env fs filePath = Inr Null" by (simp add: loadWallet_def)
  from getOrCreateWallet_miss [OF this, of opts]
  show "snd (snd (getOrCreateWallet env fs opts filePath)) = snd (createWallet env opts)"
    by (simp split: prod.splits sum.splits)
next
  fix keypair wid waddr
  assume a: "fs (resolved_path env filePath) = None \<and>
      generateP256KeyPair env = Inr keypair \<and>
      wallets_create env opts (ascii ''ethereum'') (publicKey keypair) = Inr (wid, waddr)"
  define wallet where "wallet = \<lparr>walletId = wid, address = waddr, authPrivateKey = privateKey keypair,
                     authPublicKey = publicKey keypair, createdAt = toISOString_now env\<rparr>"
  from a have load: "loadWallet env fs filePath = Inr Null" by (simp add: loadWallet_def)
  from a have create: "createWallet env opts =
      (Inr wallet, [GenerateP256KeyPair, WalletsCreate opts (ascii ''ethereum'') (publicKey keypair)])"
    by (simp add: createWallet_success wallet_def)
  have res: "getOrCreateWallet env fs opts filePath =
      (Inr (PersistedWallet_object wallet), fs(resolved_path env filePath \<mapsto> wallet_file_text wallet),
       [GenerateP256KeyPair, WalletsCreate opts (ascii ''ethereum'') (publicKey keypair)])"
    using getOrCreateWallet_miss [OF load, of opts] by (simp add: create)
  have again: "loadWallet env (fs(resolved_path env filePath \<mapsto> wallet_file_text wallet)) filePath =
      Inr (PersistedWallet_object wallet)"
    by (simp add: loadWallet_def JSON_parse_wallet_file_text)
  from res again
  show "let wallet = \<lparr>walletId = wid, address = waddr, authPrivateKey = privateKey keypair,
                     authPublicKey = publicKey keypair, createdAt = toISOString_now env\<rparr>;
           fs' = fs(resolved_path env filePath \<mapsto> wallet_file_text wallet);
           calls = [GenerateP256KeyPair, WalletsCreate opts (ascii ''ethereum'') (publicKey keypair)]
       in getOrCreateWallet env fs opts filePath = (Inr (PersistedWallet_object wallet), fs', calls) \<and>
          creation_calls (snd (snd (getOrCreateWallet env fs opts filePath))) = 1 \<and>
          loadWallet env fs' filePath = Inr (PersistedWallet_object wallet)"
    by (simp add: Let_def wallet_def creation_calls_def)
qed

lemma example_creation:
  "generateP256KeyPair example_wallet_env = Inr example_keypair"
  "wallets_create example_wallet_env opts (ascii ''ethereum'') (publicKey example_keypair) =
     Inr (ascii ''wallet-1'', ascii ''0xaa'')"
  "\<lparr>walletId = ascii ''wallet-1'', address = ascii ''0xaa'',
    authPrivateKey = privateKey example_keypair, authPublicKey = publicKey example_keypair,
    createdAt = toISOString_now example_wallet_env\<rparr> = example_wallet"
  by (simp_all add: example_wallet_env_def example_keypair_def example_wallet_def)

theorem getOrCreateWallet_load_or_create_witness:
  "[example_path \<mapsto> wallet_file_text example_wallet] (resolved_path example_wallet_env None) =
     Some (wallet_file_text example_wallet) \<and>
   JSON_parse (wallet_file_text example_wallet) = Inr (PersistedWallet_object example_wallet) \<and>
   truthy (PersistedWallet_object example_wallet) \<and>
   getOrCreateWallet example_wallet_env [example_path \<mapsto> wallet_file_text example_wallet]
       example_options None =
     (Inr (PersistedWallet_object example_wallet),
      [example_path \<mapsto> wallet_file_text example_wallet], []) \<and>
   garbage_file (resolved_path example_wallet_env None) = Some (ascii ''not json'') \<and>
   JSON_parse (ascii ''not json'') = Inl SyntaxError \<and>
   getOrCreateWallet example_wallet_env garbage_file example_options None =
     (Inl SyntaxError, garbage_file, []) \<and>
   Map.empty (resolved_path example_wallet_env None) = None \<and>
   generateP256KeyPair example_wallet_env = Inr example_keypair \<and>
   wallets_create example_wallet_env example_options (ascii ''ethereum'')
       (publicKey example_keypair) = Inr (ascii ''wallet-1'', ascii ''0xaa'') \<and>
   getOrCreateWallet example_wallet_env Map.empty example_options None =
     (Inr (PersistedWallet_object example_wallet),
      [example_path \<mapsto> wallet_file_text example_wallet],
      [GenerateP256KeyPair,
       WalletsCreate example_options (ascii ''ethereum'') (publicKey example_keypair)])"
proof -
  have hit: "[example_path \<mapsto> wallet_file_text example_wallet] (resolved_path example_wallet_env None) =
       Some (wallet_file_text example_wallet) \<and>
     JSON_parse (wallet_file_text example_wallet) = Inr (PersistedWallet_object example_wallet) \<and>
     truthy (PersistedWallet_object example_wallet)"
    by (simp add: example_resolved JSON_parse_wallet_file_text truthy_PersistedWallet_object)
  have bad: "garbage_file (resolved_path example_wallet_env None) = Some (ascii ''not json'') \<and>
     JSON_parse (ascii ''not json'') = Inl SyntaxError"
    by (simp add: example_resolved garbage_file_def JSON_parse_garbage)
  have miss: "Map.empty (resolved_path example_wallet_env None) = None \<and>
     generateP256KeyPair example_wallet_env = Inr example_keypair \<and>
     wallets_create example_wallet_env example_options (ascii ''ethereum'')
       (publicKey example_keypair) = Inr (ascii ''wallet-1'', ascii ''0xaa'')"
    by (simp add: example_creation)
  from hit
    getOrCreateWallet_load_or_create
      [of "[example_path \<mapsto> wallet_file_text example_wallet]" example_wallet_env None example_options]
  have 1: "getOrCreateWallet example_wallet_env [example_path \<mapsto> wallet_file_text example_wallet]
       example_options None =
     (Inr (PersistedWallet_object example_wallet),
      [example_path \<mapsto> wallet_file_text example_wallet], [])"
    by blast
  from bad
    getOrCreateWallet_load_or_create [of garbage_file example_wallet_env None example_options]
  have 2: "getOrCreateWallet example_wallet_env garbage_file example_options None =
     (Inl SyntaxError, garbage_file, [])"
    by blast
  from miss
    getOrCreateWallet_load_or_create [of Map.empty example_wallet_env None example_options]
  have 3: "getOrCreateWallet example_wallet_env Map.empty example_options None =
     (Inr (PersistedWallet_object example_wallet),
      [example_path \<mapsto> wallet_file_text example_wallet],
      [GenerateP256KeyPair,
       WalletsCreate example_options (ascii ''ethereum'') (publicKey example_keypair)])"
    by (simp add: Let_def example_creation example_resolved)
  from hit bad miss 1 2 3 show ?thesis by simp
qed

text \<open>
  The claim as stated fails for a file that exists: when the credential file holds
  \<open>null\<close>, \<open>getOrCreateWallet\<close> does not return what was loaded. It generates a key
  pair, calls the custody service once and writes the new record over the file.
\<close>

theorem getOrCreateWallet_counterexample:
  "null_file (resolved_path example_wallet_env None) = Some (ascii ''null'') \<and>
   loadWallet example_wallet_env null_file None = Inr Null \<and>
   getOrCreateWallet example_wallet_env null_file example_options None =
     (Inr (PersistedWallet_object example_wallet),
      null_file(example_path \<mapsto> wallet_file_text example_wallet),
      [GenerateP256KeyPair,
       WalletsCreate example_options (ascii ''ethereum'') (publicKey example_keypair)]) \<and>
   creation_calls
     (snd (snd (getOrCreateWallet example_wallet_env null_file example_options None))) = 1 \<and>
   PersistedWallet_object example_wallet \<noteq> Null \<and>
   (null_file(example_path \<mapsto> wallet_file_text example_wallet)) example_path \<noteq>
     null_file example_path"
proof -
  have nf: "null_file (resolved_path example_wallet_env None) = Some (ascii ''null'')"
    by (simp add: example_resolved null_file_def)
  then have load: "loadWallet example_wallet_env null_file None = Inr Null"
    by (simp add: loadWallet_def JSON_parse_null)
  have falsy: "\<not> truthy Null" by simp
  have created:
    "getOrCreateWallet example_wallet_env null_file example_options None =
       (Inr (PersistedWallet_object example_wallet),
        null_file(example_path \<mapsto> wallet_file_text example_wallet),
        [GenerateP256KeyPair,
         WalletsCreate example_options (ascii ''ethereum'') (publicKey example_keypair)])"
    using getOrCreateWallet_miss [OF load falsy, of example_options]
    by (simp add: createWallet_success [OF example_creation(1) example_creation(2)]
        example_creation example_resolved)
  then have count: "creation_calls
      (snd (snd (getOrCreateWallet example_wallet_env null_file example_options None))) = 1"
    by (simp add: creation_calls_def)
  have other: "PersistedWallet_object example_wallet \<noteq> Null"
    by (simp add: PersistedWallet_object_def)
  have changed: "(null_file(example_path \<mapsto> wallet_file_text example_wallet)) example_path \<noteq>
      null_file example_path"
    by (simp add: null_file_def wallet_file_text_def wallet_json_text_def ascii_def)
  from nf load created count other changed show ?thesis by (intro conjI)
qed

text \<open>
  Claim C6, as the code has it. \<open>loadWallet\<close> returns \<open>null\<close>, and no error, when no file
  exists at the resolved path. When a file exists it returns the value of its content as
  JSON, whatever the shape of that value, and fails with a SyntaxError when the content
  is not JSON. So \<open>null\<close> is returned when there is no file or when the file holds
  \<open>null\<close>.
\<close>

theorem loadWallet_result:
  "(fs (resolved_path env filePath) = None \<longrightarrow> loadWallet env fs filePath = Inr Null) \<and>
   (\<forall>content. fs (resolved_path env filePath) = Some content \<longrightarrow>
      loadWallet env fs filePath = JSON_parse content \<and>
      (JSON_parse content = Inl SyntaxError \<or> (\<exists>v. JSON_parse content = Inr v))) \<and>
   (loadWallet env fs filePath = Inr Null \<longleftrightarrow>
      fs (resolved_path env filePath) = None \<or>
      (\<exists>content. fs (resolved_path env filePath) = Some content \<and> JSON_parse content = Inr Null))"
  by (auto simp: loadWallet_def JSON_parse_def split: option.splits)

theorem loadWallet_result_witness:
  "Map.empty (resolved_path example_wallet_env None) = None \<and>
   loadWallet example_wallet_env Map.empty None = Inr Null \<and>
   garbage_file (resolved_path example_wallet_env None) = Some (ascii ''not json'') \<and>
   loadWallet example_wallet_env garbage_file None = Inl SyntaxError"
  using loadWallet_result [of Map.empty example_wallet_env None]
    loadWallet_result [of garbage_file example_wallet_env None]
  by (simp add: example_resolved garbage_file_def JSON_parse_garbage)

text \<open>
  The claim as stated fails: a file that exists and holds \<open>null\<close> gives the absent value,
  and a file that holds \<open>{}\<close>, which has none of the properties of a credential record,
  is loaded without a failure.
\<close>

theorem loadWallet_counterexample:
  "null_file (resolved_path example_wallet_env None) = Some (ascii ''null'') \<and>
   loadWallet example_wallet_env null_file None = Inr Null \<and>
   empty_object_file (resolved_path example_wallet_env None) = Some (ascii ''{}'') \<and>
   loadWallet example_wallet_env empty_object_file None = Inr (Obj []) \<and>
   get (Obj []) (ascii ''walletId'') = Inr Undefined"
  by (simp add: example_resolved null_file_def empty_object_file_def loadWallet_def
      JSON_parse_null JSON_parse_empty_object own_property_def)

text \<open>
  Claim C9. When the custody service rejects the creation, \<open>createWallet\<close> fails with
  that error and returns no record, so the key pair it generated is gone;
  \<open>getOrCreateWallet\<close> on a miss fails with the same error and writes nothing. Whatever
  the files and the path, the files are the same after the call as before.
\<close>

theorem creation_failure_persists_nothing:
  assumes "generateP256KeyPair env = Inr keypair"
    and "wallets_create env opts (ascii ''ethereum'') (publicKey keypair) = Inl e"
    and "fs (resolved_path env filePath) = None"
  shows "createWallet env opts =
           (Inl e, [GenerateP256KeyPair, WalletsCreate opts (ascii ''ethereum'') (publicKey keypair)]) \<and>
         getOrCreateWallet env fs opts filePath =
           (Inl e, fs, [GenerateP256KeyPair, WalletsCreate opts (ascii ''ethereum'') (publicKey keypair)]) \<and>
         fst (snd (getOrCreateWallet env fs' opts filePath')) = fs'"
proof -
  have create: "createWallet env opts =
      (Inl e, [GenerateP256KeyPair, WalletsCreate opts (ascii ''ethereum'') (publicKey keypair)])"
    using assms(1,2) by (rule createWallet_rejected)
  from assms(3) have "loadWallet env fs filePath = Inr Null" by (simp add: loadWallet_def)
  from getOrCreateWallet_miss [OF this, of opts]
  have miss: "getOrCreateWallet env fs opts filePath =
      (Inl e, fs, [GenerateP256KeyPair, WalletsCreate opts (ascii ''ethereum'') (publicKey keypair)])"
    by (simp add: create)
  have "fst (snd (getOrCreateWallet env fs' opts filePath')) = fs'"
    by (simp add: getOrCreateWallet_def create split: sum.splits)
  with create miss show ?thesis by simp
qed

lemma rejecting_creation:
  "generateP256KeyPair rejecting_wallet_env = Inr example_keypair"
  "wallets_create rejecting_wallet_env opts (ascii ''ethereum'') (publicKey example_keypair) =
     Inl (Rejected (ascii ''401 Unauthorized''))"
  by (simp_all add: rejecting_wallet_env_def example_wallet_env_def)

theorem creation_failure_persists_nothing_witness:
  "generateP256KeyPair rejecting_wallet_env = Inr example_keypair \<and>
   wallets_create rejecting_wallet_env example_options (ascii ''ethereum'')
     (publicKey example_keypair) = Inl (Rejected (ascii ''401 Unauthorized'')) \<and>
   Map.empty (resolved_path rejecting_wallet_env None) = None \<and>
   getOrCreateWallet rejecting_wallet_env Map.empty example_options None =
     (Inl (Rejected (ascii ''401 Unauthorized'')), Map.empty,
      [GenerateP256KeyPair,
       WalletsCreate example_options (ascii ''ethereum'') (publicKey example_keypair)])"
proof -
  have none: "Map.empty (resolved_path rejecting_wallet_env None) = None" by simp
  from creation_failure_persists_nothing [OF rejecting_creation none]
  show ?thesis by (simp add: rejecting_creation)
qed

text \<open>
  Claim C10. When the credential file exists and its content is JSON for a falsy value
  (\<open>null\<close> for one), \<open>loadWallet\<close> returns that value, and \<open>getOrCreateWallet\<close> goes on
  as on a miss: it runs \<open>createWallet\<close>, which starts by generating a key pair, and when
  the creation succeeds it writes the new record over the file and returns it.
\<close>

theorem falsy_file_is_a_miss:
  assumes "fs (resolved_path env filePath) = Some content"
    and "JSON_parse content = Inr v"
    and "\<not> truthy v"
  shows "loadWallet env fs filePath = Inr v \<and>
         getOrCreateWallet env fs opts filePath =
           (case createWallet env opts of
              (Inl e, calls) \<Rightarrow> (Inl e, fs, calls)
            | (Inr wallet, calls) \<Rightarrow>
                (Inr (PersistedWallet_object wallet),
                 fs(resolved_path env filePath \<mapsto> wallet_file_text wallet), calls)) \<and>
         hd (snd (createWallet env opts)) = GenerateP256KeyPair \<and>
         (\<forall>keypair wid waddr.
            generateP256KeyPair env = Inr keypair \<and>
            wallets_create env opts (ascii ''ethereum'') (publicKey keypair) = Inr (wid, waddr) \<longrightarrow>
            (let wallet = \<lparr>walletId = wid, address = waddr, authPrivateKey = privateKey keypair,
                           authPublicKey = publicKey keypair, createdAt = toISOString_now env\<rparr>
             in getOrCreateWallet env fs opts filePath =
                  (Inr (PersistedWallet_object wallet),
                   fs(resolved_path env filePath \<mapsto> wallet_file_text wallet),
                   [GenerateP256KeyPair,
                    WalletsCreate opts (ascii ''ethereum'') (publicKey keypair)])))"
proof -
  from assms have load: "loadWallet env fs filePath = Inr v" by (simp add: loadWallet_def)
  note miss = getOrCreateWallet_miss [OF load assms(3), of opts]
  have first: "hd (snd (createWallet env opts)) = GenerateP256KeyPair"
    by (simp add: createWallet_def split: sum.splits prod.splits)
  have ok: "getOrCreateWallet env fs opts filePath =
        (Inr (PersistedWallet_object \<lparr>walletId = wid, address = waddr,
                authPrivateKey = privateKey keypair, authPublicKey = publicKey keypair,
                createdAt = toISOString_now env\<rparr>),
         fs(resolved_path env filePath \<mapsto> wallet_file_text \<lparr>walletId = wid, address = waddr,
                authPrivateKey = privateKey keypair, authPublicKey = publicKey keypair,
                createdAt = toISOString_now env\<rparr>),
         [GenerateP256KeyPair, WalletsCreate opts (ascii ''ethereum'') (publicKey keypair)])"
    if "generateP256KeyPair env = Inr keypair"
      and "wallets_create env opts (ascii ''ethereum'') (publicKey keypair) = Inr (wid, waddr)"
    for keypair wid waddr
    using miss by (simp add: createWallet_success [OF that])
  from load miss first ok show ?thesis by (simp add: Let_def)
qed

theorem falsy_file_is_a_miss_witness:
  "null_file (resolved_path example_wallet_env None) = Some (ascii ''null'') \<and>
   JSON_parse (ascii ''null'') = Inr Null \<and> \<not> truthy Null \<and>
   loadWallet example_wallet_env null_file None = Inr Null \<and>
   getOrCreateWallet example_wallet_env null_file example_options None =
     (Inr (PersistedWallet_object example_wallet),
      null_file(example_path \<mapsto> wallet_file_text example_wallet),
      [GenerateP256KeyPair,
       WalletsCreate example_options (ascii ''ethereum'') (publicKey example_keypair)])"
proof -
  have nf: "null_file (resolved_path example_wallet_env None) = Some (ascii ''null'')"
    by (simp add: example_resolved null_file_def)
  have falsy: "\<not> truthy Null" by simp
  note miss = falsy_file_is_a_miss
      [where fs = null_file and env = example_wallet_env and filePath = None
         and opts = example_options, OF nf JSON_parse_null falsy]
  from miss have load: "loadWallet example_wallet_env null_file None = Inr Null"
    by (rule conjunct1)
  from miss have
    "generateP256KeyPair example_wallet_env = Inr example_keypair \<and>
     wallets_create example_wallet_env example_options (ascii ''ethereum'')
       (publicKey example_keypair) = Inr (ascii ''wallet-1'', ascii ''0xaa'') \<longrightarrow>
     (let wallet = \<lparr>walletId = ascii ''wallet-1'', address = ascii ''0xaa'',
                    authPrivateKey = privateKey example_keypair,
                    authPublicKey = publicKey example_keypair,
                    createdAt = toISOString_now example_wallet_env\<rparr>
      in getOrCreateWallet example_wallet_env null_file example_options None =
           (Inr (PersistedWallet_object wallet),
            null_file(resolved_path example_wallet_env None \<mapsto> wallet_file_text wallet),
            [GenerateP256KeyPair,
             WalletsCreate example_options (ascii ''ethereum'') (publicKey example_keypair)]))"
    by blast
  then have created:
    "getOrCreateWallet example_wallet_env null_file example_options None =
       (Inr (PersistedWallet_object example_wallet),
        null_file(example_path \<mapsto> wallet_file_text example_wallet),
        [GenerateP256KeyPair,
         WalletsCreate example_options (ascii ''ethereum'') (publicKey example_keypair)])"
    by (simp add: Let_def example_creation example_resolved)
  from nf JSON_parse_null load created show ?thesis by simp
qed

section \<open>Proxied calls\<close>

lemma rpc_keys_not_indices:
  "index_of_key (ascii ''jsonrpc'') = None"
  "index_of_key (ascii ''id'') = None"
  "index_of_key (ascii ''method'') = None"
  "index_of_key (ascii ''params'') = None"
  by (simp_all add: index_of_key_def ascii_def is_digit_def)

lemma Number_toString_1: "Number_toString (Fin 1) = ascii ''1''"
  by (simp add: Number_toString_def Number_toString_radix_def int_toString_def digits_small
      digit_unit_def ascii_def)

lemma Serialize_defined:
  "v \<noteq> Undefined \<Longrightarrow> \<exists>t. SerializeJSONProperty gap indent v = Some t"
  by (cases v) simp_all

lemma stringify_rpc_request:
  assumes "SerializeJSONProperty [] [] (nullish_coalesce params (Arr [])) = Some t"
  shows "JSON_stringify (rpc_request method params) 0 = Some (rpc_body_text method t)"
  using assms
  by (simp add: JSON_stringify_def rpc_request_def own_properties_def rpc_keys_not_indices
      wrap_def rpc_body_text_def Number_toString_1)
     (simp add: ascii_def)

lemma rpc_result_error:
  "own_property ps (ascii ''error'') = Obj eps \<Longrightarrow>
   rpc_result method (Obj ps) =
     Inl (Error (ascii ''RPC error ('' @ method @ ascii ''): '' @
                 ToString (own_property eps (ascii ''message''))))"
  by (simp add: rpc_result_def)

lemma rpc_result_falsy:
  "\<not> truthy (own_property ps (ascii ''error'')) \<Longrightarrow>
   rpc_result method (Obj ps) = Inr (own_property ps (ascii ''result''))"
  by (simp add: rpc_result_def)

lemma rpc_result_not_object:
  assumes "truthy (own_property ps (ascii ''error''))"
    and "\<forall>eps. own_property ps (ascii ''error'') \<noteq> Obj eps"
  shows "rpc_result method (Obj ps) =
     Inl (Error (ascii ''RPC error ('' @ method @ ascii ''): undefined''))"
proof -
  from assms have "get (own_property ps (ascii ''error'')) (ascii ''message'') = Inr Undefined"
    by (cases "own_property ps (ascii ''error'')") simp_all
  with assms(1) show ?thesis
    by (simp add: rpc_result_def) (simp add: ascii_def)
qed

lemma rpc_result_truthy:
  "truthy (own_property ps (ascii ''error'')) \<Longrightarrow> \<exists>e. rpc_result method (Obj ps) = Inl e"
  by (cases "own_property ps (ascii ''error'')") (simp_all add: rpc_result_def)

lemma rpc_result_other:
  "(\<forall>ps. json \<noteq> Obj ps) \<Longrightarrow>
   rpc_result method json = (if nullish json then Inl TypeError else Inr Undefined)"
  by (cases json) (simp_all add: rpc_result_def nullish_def)

lemma request_unknown:
  "method \<notin> handled_methods \<Longrightarrow> request env p method params = proxyToRpc env p method params"
  by (simp add: request_def handled_methods_def)

text \<open>
  Claim C2, as the code has it. For a method name outside the six that \<open>request\<close>
  handles itself, the request makes exactly one call: a POST to the configured URL whose
  body is the JSON object with \<open>jsonrpc\<close> \<open>"2.0"\<close>, \<open>id\<close> 1, the method name and the
  parameters, an empty array standing for missing parameters. A failure of the call, or
  a body that is not JSON, is the failure of the request. When the response is a JSON
  object, its \<open>error\<close> field is tested for truth: a truthy \<open>error\<close> makes the request
  fail, with the message \<open>RPC error (method): \<close> followed by the error's message when
  \<open>error\<close> is an object whose \<open>message\<close> is a string, and followed by \<open>undefined\<close> when
  \<open>error\<close> is not an object; an absent or falsy \<open>error\<close> (\<open>null\<close>, \<open>false\<close>, \<open>0\<close>, the
  empty string) makes the request return the \<open>result\<close> field. A response that is
  \<open>null\<close> fails with a TypeError, and any other response that is not an object gives
  \<open>undefined\<close>.
\<close>

theorem unknown_method_is_proxied:
  assumes "method \<notin> handled_methods"
  shows "\<exists>t. SerializeJSONProperty [] [] (nullish_coalesce params (Arr [])) = Some t \<and>
     (let init = \<lparr>http_method = ascii ''POST'',
                  headers = [(ascii ''Content-Type'', ascii ''application/json'')],
                  body = Some (rpc_body_text method t)\<rparr>;
          outcome = fst (request env p method params)
      in snd (request env p method params) = [Fetch (rpcUrl (config p)) init] \<and>
         (\<forall>e. fetch env (rpcUrl (config p)) init = Inl e \<longrightarrow> outcome = Inl e) \<and>
         (\<forall>content. fetch env (rpcUrl (config p)) init = Inr content \<longrightarrow>
            (\<forall>e. JSON_parse content = Inl e \<longrightarrow> outcome = Inl e) \<and>
            (\<forall>ps. JSON_parse content = Inr (Obj ps) \<longrightarrow>
               (\<not> truthy (own_property ps (ascii ''error'')) \<longrightarrow>
                  outcome = Inr (own_property ps (ascii ''result''))) \<and>
               (truthy (own_property ps (ascii ''error'')) \<longrightarrow> (\<exists>e. outcome = Inl e)) \<and>
               (\<forall>eps m. own_property ps (ascii ''error'') = Obj eps \<and>
                    own_property eps (ascii ''message'') = Str m \<longrightarrow>
                  outcome = Inl (Error (ascii ''RPC error ('' @ method @ ascii ''): '' @ m))) \<and>
               (truthy (own_property ps (ascii ''error'')) \<and>
                (\<forall>eps. own_property ps (ascii ''error'') \<noteq> Obj eps) \<longrightarrow>
                  outcome = Inl (Error (ascii ''RPC error ('' @ method @ ascii ''): undefined'')))) \<and>
            (\<forall>json. JSON_parse content = Inr json \<and> (\<forall>ps. json \<noteq> Obj ps) \<longrightarrow>
               outcome = (if nullish json then Inl TypeError else Inr Undefined))))"
proof -
  have "nullish_coalesce params (Arr []) \<noteq> Undefined"
    by (simp add: nullish_coalesce_def nullish_def)
  from Serialize_defined [OF this]
  obtain t where t: "SerializeJSONProperty [] [] (nullish_coalesce params (Arr [])) = Some t"
    by blast
  let ?init = "\<lparr>http_method = ascii ''POST'',
                  headers = [(ascii ''Content-Type'', ascii ''application/json'')],
                  body = Some (rpc_body_text method t)\<rparr>"
  note req = request_unknown [OF assms, of env p params]
  have calls: "snd (request env p method params) = [Fetch (rpcUrl (config p)) ?init]"
    by (simp add: req proxyToRpc_def Let_def stringify_rpc_request [OF t])
  have failed: "fst (request env p method params) = Inl e"
    if "fetch env (rpcUrl (config p)) ?init = Inl e" for e
    using that by (simp add: req proxyToRpc_def Let_def stringify_rpc_request [OF t])
  have answered: "fst (request env p method params) =
      (case JSON_parse content of Inl e \<Rightarrow> Inl e | Inr json \<Rightarrow> rpc_result method json)"
    if "fetch env (rpcUrl (config p)) ?init = Inr content" for content
    using that by (simp add: req proxyToRpc_def Let_def stringify_rpc_request [OF t])
  have object: "fst (request env p method params) = rpc_result method json"
    if "fetch env (rpcUrl (config p)) ?init = Inr content" "JSON_parse content = Inr json"
    for content json
    using answered [OF that(1)] that(2) by simp
  have unparsed: "fst (request env p method params) = Inl e"
    if "fetch env (rpcUrl (config p)) ?init = Inr content" "JSON_parse content = Inl e"
    for content e
    using answered [OF that(1)] that(2) by simp
  show ?thesis
  proof (rule exI [of _ t], simp only: Let_def, intro conjI allI impI)
    show "SerializeJSONProperty [] [] (nullish_coalesce params (Arr [])) = Some t" by (rule t)
  next
    show "snd (request env p method params) = [Fetch (rpcUrl (config p)) ?init]" by (rule calls)
  next
    fix e assume "fetch env (rpcUrl (config p)) ?init = Inl e"
    then show "fst (request env p method params) = Inl e" by (rule failed)
  next
    fix content e
    assume "fetch env (rpcUrl (config p)) ?init = Inr content" "JSON_parse content = Inl e"
    then show "fst (request env p method params) = Inl e" by (rule unparsed)
  next
    fix content ps
    assume "fetch env (rpcUrl (config p)) ?init = Inr content" "JSON_parse content = Inr (Obj ps)"
      "\<not> truthy (own_property ps (ascii ''error''))"
    then show "fst (request env p method params) = Inr (own_property ps (ascii ''result''))"
      by (simp add: object rpc_result_falsy)
  next
    fix content ps
    assume "fetch env (rpcUrl (config p)) ?init = Inr content" "JSON_parse content = Inr (Obj ps)"
      "truthy (own_property ps (ascii ''error''))"
    then show "\<exists>e. fst (request env p method params) = Inl e"
      by (simp add: object rpc_result_truthy)
  next
    fix content ps eps m
    assume "fetch env (rpcUrl (config p)) ?init = Inr content" "JSON_parse content = Inr (Obj ps)"
      "own_property ps (ascii ''error'') = Obj eps \<and> own_property eps (ascii ''message'') = Str m"
    then show "fst (request env p method params) =
        Inl (Error (ascii ''RPC error ('' @ method @ ascii ''): '' @ m))"
      by (simp add: object rpc_result_error)
  next
    fix content ps
    assume "fetch env (rpcUrl (config p)) ?init = Inr content" "JSON_parse content = Inr (Obj ps)"
      "truthy (own_property ps (ascii ''error'')) \<and>
       (\<forall>eps. own_property ps (ascii ''error'') \<noteq> Obj eps)"
    then show "fst (request env p method params) =
        Inl (Error (ascii ''RPC error ('' @ method @ ascii ''): undefined''))"
      by (simp add: object rpc_result_not_object)
  next
    fix content json
    assume "fetch env (rpcUrl (config p)) ?init = Inr content"
      "JSON_parse content = Inr json \<and> (\<forall>ps. json \<noteq> Obj ps)"
    then show "fst (request env p method params) =
        (if nullish json then Inl TypeError else Inr Undefined)"
      using rpc_result_other [of json] by (simp add: object)
  qed
qed

lemma JSON_parse_result_response:
  "JSON_parse result_response = Inr (Obj [(ascii ''result'', Str (ascii ''0x10''))])"
  by (simp add: JSON_parse_def result_response_def cons_token_def del: tokenize.simps(2))
     (simp add: ascii_def cons_token_def is_json_space_def)

lemma JSON_parse_error_response:
  "JSON_parse error_response =
     Inr (Obj [(ascii ''error'', Obj [(ascii ''message'', Str (ascii ''Method not found''))])])"
  by (simp add: JSON_parse_def error_response_def cons_token_def del: tokenize.simps(2))
     (simp add: ascii_def cons_token_def is_json_space_def)

lemma unknown_method_not_handled: "ascii ''unknown_method'' \<notin> handled_methods"
  by (simp add: handled_methods_def ascii_def)

lemma Serialize_1_2:
  "SerializeJSONProperty [] [] (nullish_coalesce (Arr [Num (Fin 1), Num (Fin 2)]) (Arr [])) =
     Some (ascii ''[1,2]'')"
  by (simp add: nullish_coalesce_def nullish_def wrap_def Number_toString_def
      Number_toString_radix_def int_toString_def digits_small digit_unit_def ascii_def)

theorem unknown_method_is_proxied_witness:
  "ascii ''unknown_method'' \<notin> handled_methods \<and>
   request example_provider_env example_provider (ascii ''unknown_method'')
       (Arr [Num (Fin 1), Num (Fin 2)]) =
     (Inr (Str (ascii ''0x10'')),
      [Fetch (ascii ''https://rpc.example'')
         \<lparr>http_method = ascii ''POST'',
          headers = [(ascii ''Content-Type'', ascii ''application/json'')],
          body = Some (rpc_body_text (ascii ''unknown_method'') (ascii ''[1,2]''))\<rparr>]) \<and>
   request failing_provider_env example_provider (ascii ''unknown_method'')
       (Arr [Num (Fin 1), Num (Fin 2)]) =
     (Inl (Error (ascii ''RPC error (unknown_method): Method not found'')),
      [Fetch (ascii ''https://rpc.example'')
         \<lparr>http_method = ascii ''POST'',
          headers = [(ascii ''Content-Type'', ascii ''application/json'')],
          body = Some (rpc_body_text (ascii ''unknown_method'') (ascii ''[1,2]''))\<rparr>])"
proof -
  let ?params = "Arr [Num (Fin 1), Num (Fin 2)]"
  let ?init = "\<lparr>http_method = ascii ''POST'',
          headers = [(ascii ''Content-Type'', ascii ''application/json'')],
          body = Some (rpc_body_text (ascii ''unknown_method'') (ascii ''[1,2]''))\<rparr>"
  have url: "rpcUrl (config example_provider) = ascii ''https://rpc.example''"
    by (simp add: example_provider_def example_config_def)
  have ok: "fetch example_provider_env (ascii ''https://rpc.example'') ?init = Inr result_response"
    by (simp add: example_provider_env_def)
  have bad: "fetch failing_provider_env (ascii ''https://rpc.example'') ?init = Inr error_response"
    by (simp add: failing_provider_env_def example_provider_env_def)
  have no_error: "\<not> truthy (own_property [(ascii ''result'', Str (ascii ''0x10''))] (ascii ''error''))"
    by (simp add: own_property_def ascii_def)
  have result: "own_property [(ascii ''result'', Str (ascii ''0x10''))] (ascii ''result'') =
      Str (ascii ''0x10'')"
    by (simp add: own_property_def)
  have error: "own_property [(ascii ''error'', Obj [(ascii ''message'', Str (ascii ''Method not found''))])]
      (ascii ''error'') = Obj [(ascii ''message'', Str (ascii ''Method not found''))]"
    by (simp add: own_property_def)
  have text_of: "own_property [(ascii ''message'', Str (ascii ''Method not found''))]
      (ascii ''message'') = Str (ascii ''Method not found'')"
    by (simp add: own_property_def)
  from unknown_method_is_proxied [OF unknown_method_not_handled,
      of ?params example_provider_env example_provider]
  have 1: "request example_provider_env example_provider (ascii ''unknown_method'') ?params =
      (Inr (Str (ascii ''0x10'')), [Fetch (ascii ''https://rpc.example'') ?init])"
    using ok JSON_parse_result_response no_error result
    by (simp add: Serialize_1_2 url Let_def prod_eq_iff)
  from unknown_method_is_proxied [OF unknown_method_not_handled,
      of ?params failing_provider_env example_provider]
  have 2: "request failing_provider_env example_provider (ascii ''unknown_method'') ?params =
      (Inl (Error (ascii ''RPC error (unknown_method): Method not found'')),
       [Fetch (ascii ''https://rpc.example'') ?init])"
    using bad JSON_parse_error_response error text_of
    by (simp add: Serialize_1_2 url Let_def prod_eq_iff) (simp add: ascii_def)
  from unknown_method_not_handled 1 2 show ?thesis by simp
qed

lemma JSON_parse_null_error_response:
  "JSON_parse null_error_response =
     Inr (Obj [(ascii ''error'', Null), (ascii ''result'', Str (ascii ''0x1''))])"
  by (simp add: JSON_parse_def null_error_response_def cons_token_def del: tokenize.simps(2))
     (simp add: ascii_def cons_token_def is_json_space_def is_digit_def strip_prefix_def)

lemma JSON_parse_string_error_response:
  "JSON_parse string_error_response = Inr (Obj [(ascii ''error'', Str (ascii ''boom''))])"
  by (simp add: JSON_parse_def string_error_response_def cons_token_def del: tokenize.simps(2))
     (simp add: ascii_def cons_token_def is_json_space_def)

text \<open>
  The claim as stated fails on the \<open>error\<close> field. A response that contains the field
  \<open>error\<close> with the value \<open>null\<close> does not make the call fail: the result is returned.
  A response whose \<open>error\<close> is the string \<open>boom\<close> makes the call fail with a message
  that does not contain the error text.
\<close>

theorem error_field_counterexample:
  "JSON_parse null_error_response =
     Inr (Obj [(ascii ''error'', Null), (ascii ''result'', Str (ascii ''0x1''))]) \<and>
   map_of [(ascii ''error'', Null), (ascii ''result'', Str (ascii ''0x1''))] (ascii ''error'') =
     Some Null \<and>
   fst (request null_error_provider_env example_provider (ascii ''unknown_method'') Undefined) =
     Inr (Str (ascii ''0x1'')) \<and>
   JSON_parse string_error_response = Inr (Obj [(ascii ''error'', Str (ascii ''boom''))]) \<and>
   fst (request string_error_provider_env example_provider (ascii ''unknown_method'') Undefined) =
     Inl (Error (ascii ''RPC error (unknown_method): undefined''))"
proof -
  have field: "map_of [(ascii ''error'', Null), (ascii ''result'', Str (ascii ''0x1''))]
      (ascii ''error'') = Some Null"
    by simp
  have 1: "fst (request null_error_provider_env example_provider (ascii ''unknown_method'')
      Undefined) = Inr (Str (ascii ''0x1''))"
    by (simp add: request_unknown [OF unknown_method_not_handled] proxyToRpc_def Let_def
        null_error_provider_env_def example_provider_env_def JSON_parse_null_error_response
        rpc_result_def own_property_def)
       (simp add: ascii_def)
  have 2: "fst (request string_error_provider_env example_provider (ascii ''unknown_method'')
      Undefined) = Inl (Error (ascii ''RPC error (unknown_method): undefined''))"
    by (simp add: request_unknown [OF unknown_method_not_handled] proxyToRpc_def Let_def
        string_error_provider_env_def example_provider_env_def JSON_parse_string_error_response
        rpc_result_def own_property_def)
       (simp add: ascii_def)
  from JSON_parse_null_error_response field 1 JSON_parse_string_error_response 2
  show ?thesis by (intro conjI)
qed

section \<open>Typed data\<close>

lemma set_own_properties: "set (own_properties ps) = set ps"
  by (auto simp: own_properties_def)

lemma map_of_rename_key_other:
  "k \<noteq> a \<Longrightarrow> k \<noteq> b \<Longrightarrow> map_of (rename_key a b ps) k = map_of ps k"
  by (induction ps) (auto simp: rename_key_def)

lemma map_of_rename_key_old:
  "a \<noteq> b \<Longrightarrow> map_of (rename_key a b ps) a = None"
  by (induction ps) (auto simp: rename_key_def)

lemma map_of_rename_key_new:
  "a \<noteq> b \<Longrightarrow> b \<notin> fst ` set ps \<Longrightarrow> map_of (rename_key a b ps) b = map_of ps a"
  by (induction ps) (auto simp: rename_key_def)

lemma typed_data_names:
  "ascii ''primaryType'' \<noteq> ascii ''primary_type''"
  "ascii ''types'' \<noteq> ascii ''primaryType''" "ascii ''types'' \<noteq> ascii ''primary_type''"
  "ascii ''domain'' \<noteq> ascii ''primaryType''" "ascii ''domain'' \<noteq> ascii ''primary_type''"
  "ascii ''message'' \<noteq> ascii ''primaryType''" "ascii ''message'' \<noteq> ascii ''primary_type''"
  by (simp_all add: ascii_def)

lemma eth_signTypedData_v4_object:
  assumes "element params 1 = Inr raw" and "parse_if_string raw = Inr (Obj ps)"
    and "own_property ps (ascii ''types'') = Obj ts"
  shows "request env p (ascii ''eth_signTypedData_v4'') params =
     (signTypedData env (typed_data_request ps ts), [SignTypedData (typed_data_request ps ts)])"
proof -
  have "request env p (ascii ''eth_signTypedData_v4'') params = eth_signTypedData_v4 env p params"
    by (simp add: request_def ascii_def)
  with assms show ?thesis
    by (simp add: eth_signTypedData_v4_def attempt_def typed_data_request_def Let_def)
qed

lemma typed_data_request_rename:
  assumes "ascii ''primary_type'' \<notin> fst ` set ps"
    and "\<not> nullish (own_property ps (ascii ''primaryType''))"
  shows "typed_data_request (rename_key (ascii ''primaryType'') (ascii ''primary_type'') ps) ts =
         typed_data_request ps ts"
proof -
  let ?ps' = "rename_key (ascii ''primaryType'') (ascii ''primary_type'') ps"
  have same: "own_property ?ps' k = own_property ps k"
    if "k \<noteq> ascii ''primaryType''" "k \<noteq> ascii ''primary_type''" for k
    using that by (simp add: own_property_def map_of_rename_key_other)
  have old: "own_property ?ps' (ascii ''primaryType'') = Undefined"
    by (simp add: own_property_def map_of_rename_key_old typed_data_names)
  have new: "own_property ?ps' (ascii ''primary_type'') = own_property ps (ascii ''primaryType'')"
    using assms(1) by (simp add: own_property_def map_of_rename_key_new typed_data_names)
  from assms(2) show ?thesis
    by (simp add: typed_data_request_def same typed_data_names old new nullish_coalesce_def
        nullish_def)
qed

text \<open>
  Claim C7. For a typed-data payload (an object, or a string that parses to one) whose
  \<open>types\<close> is an object, \<open>eth_signTypedData_v4\<close> makes one call, to the typed-data
  signer, and the \<open>types\<close> it passes are the properties of the payload's \<open>types\<close> without
  the key \<open>EIP712Domain\<close>. A second payload that differs only in carrying the primary
  type under the name \<open>primary_type\<close> instead of \<open>primaryType\<close> leads to the same call,
  so to the same signature from any signer.
\<close>

theorem typed_data_domain_stripped_and_alias:
  assumes "element params 1 = Inr raw" and "parse_if_string raw = Inr (Obj ps)"
    and "own_property ps (ascii ''types'') = Obj ts"
  shows "\<exists>td. request env p (ascii ''eth_signTypedData_v4'') params =
                (signTypedData env td, [SignTypedData td]) \<and>
              (\<exists>kept. types td = Obj kept \<and>
                 set kept = {kv \<in> set ts. fst kv \<noteq> ascii ''EIP712Domain''}) \<and>
              primaryType td = nullish_coalesce (own_property ps (ascii ''primaryType''))
                                 (own_property ps (ascii ''primary_type'')) \<and>
              (\<forall>params' raw'.
                 element params' 1 = Inr raw' \<and>
                 parse_if_string raw' =
                   Inr (Obj (rename_key (ascii ''primaryType'') (ascii ''primary_type'') ps)) \<and>
                 ascii ''primary_type'' \<notin> fst ` set ps \<and>
                 \<not> nullish (own_property ps (ascii ''primaryType'')) \<longrightarrow>
                 request env p (ascii ''eth_signTypedData_v4'') params' =
                   request env p (ascii ''eth_signTypedData_v4'') params)"
proof (intro exI conjI allI impI)
  show "request env p (ascii ''eth_signTypedData_v4'') params =
      (signTypedData env (typed_data_request ps ts), [SignTypedData (typed_data_request ps ts)])"
    using assms by (rule eth_signTypedData_v4_object)
  show "types (typed_data_request ps ts) =
      Obj (filter (\<lambda>kv. fst kv \<noteq> ascii ''EIP712Domain'') (own_properties ts))"
    by (simp add: typed_data_request_def)
  show "set (filter (\<lambda>kv. fst kv \<noteq> ascii ''EIP712Domain'') (own_properties ts)) =
      {kv \<in> set ts. fst kv \<noteq> ascii ''EIP712Domain''}"
    by (simp add: set_own_properties)
  show "primaryType (typed_data_request ps ts) =
      nullish_coalesce (own_property ps (ascii ''primaryType''))
        (own_property ps (ascii ''primary_type''))"
    by (simp add: typed_data_request_def)
next
  fix params' raw'
  assume a: "element params' 1 = Inr raw' \<and>
     parse_if_string raw' =
       Inr (Obj (rename_key (ascii ''primaryType'') (ascii ''primary_type'') ps)) \<and>
     ascii ''primary_type'' \<notin> fst ` set ps \<and>
     \<not> nullish (own_property ps (ascii ''primaryType''))"
  let ?ps' = "rename_key (ascii ''primaryType'') (ascii ''primary_type'') ps"
  have "own_property ?ps' (ascii ''types'') = Obj ts"
    using assms(3) by (simp add: own_property_def map_of_rename_key_other typed_data_names)
  with a have "request env p (ascii ''eth_signTypedData_v4'') params' =
      (signTypedData env (typed_data_request ?ps' ts), [SignTypedData (typed_data_request ?ps' ts)])"
    by (simp add: eth_signTypedData_v4_object)
  with a show "request env p (ascii ''eth_signTypedData_v4'') params' =
      request env p (ascii ''eth_signTypedData_v4'') params"
    by (simp add: typed_data_request_rename eth_signTypedData_v4_object [OF assms])
qed

lemma example_typed_data_facts:
  "element (Arr [Str (ascii ''0xaa''), Obj ps]) 1 = Inr (Obj ps)"
  "parse_if_string (Obj ps) = Inr (Obj ps)"
  "own_property example_typed_data (ascii ''types'') =
     Obj ((ascii ''EIP712Domain'', Arr []) # example_types)"
  "ascii ''primary_type'' \<notin> fst ` set example_typed_data"
  "\<not> nullish (own_property example_typed_data (ascii ''primaryType''))"
  by (simp_all add: parse_if_string_def example_typed_data_def own_property_def nullish_def
      ascii_def)

lemma example_typed_data_request:
  "typed_data_request example_typed_data ((ascii ''EIP712Domain'', Arr []) # example_types) =
     \<lparr>domain = Obj [(ascii ''name'', Str (ascii ''Mail''))],
      types = Obj example_types,
      primaryType = Str (ascii ''Mail''),
      message = Obj [(ascii ''body'', Str (ascii ''hello''))]\<rparr>"
  by (simp add: typed_data_request_def example_typed_data_def example_types_def own_property_def
      own_properties_def index_of_key_def is_digit_def nullish_coalesce_def nullish_def ascii_def)

theorem typed_data_domain_stripped_and_alias_witness:
  "element (Arr [Str (ascii ''0xaa''), Obj example_typed_data]) 1 = Inr (Obj example_typed_data) \<and>
   parse_if_string (Obj example_typed_data) = Inr (Obj example_typed_data) \<and>
   own_property example_typed_data (ascii ''types'') =
     Obj ((ascii ''EIP712Domain'', Arr []) # example_types) \<and>
   ascii ''primary_type'' \<notin> fst ` set example_typed_data \<and>
   \<not> nullish (own_property example_typed_data (ascii ''primaryType'')) \<and>
   request example_provider_env example_provider (ascii ''eth_signTypedData_v4'')
     (Arr [Str (ascii ''0xaa''),
           Obj (rename_key (ascii ''primaryType'') (ascii ''primary_type'') example_typed_data)]) =
   request example_provider_env example_provider (ascii ''eth_signTypedData_v4'')
     (Arr [Str (ascii ''0xaa''), Obj example_typed_data]) \<and>
   request example_provider_env example_provider (ascii ''eth_signTypedData_v4'')
     (Arr [Str (ascii ''0xaa''), Obj example_typed_data]) =
     (Inr (Str (ascii ''0xsigned:Mail'')),
      [SignTypedData
         \<lparr>domain = Obj [(ascii ''name'', Str (ascii ''Mail''))],
          types = Obj example_types,
          primaryType = Str (ascii ''Mail''),
          message = Obj [(ascii ''body'', Str (ascii ''hello''))]\<rparr>])"
proof -
  let ?renamed = "rename_key (ascii ''primaryType'') (ascii ''primary_type'') example_typed_data"
  note facts = example_typed_data_facts
  from typed_data_domain_stripped_and_alias
    [where env = example_provider_env and p = example_provider, OF facts(1) facts(2) facts(3)]
  have "element (Arr [Str (ascii ''0xaa''), Obj ?renamed]) 1 = Inr (Obj ?renamed) \<and>
        parse_if_string (Obj ?renamed) = Inr (Obj ?renamed) \<and>
        ascii ''primary_type'' \<notin> fst ` set example_typed_data \<and>
        \<not> nullish (own_property example_typed_data (ascii ''primaryType'')) \<longrightarrow>
        request example_provider_env example_provider (ascii ''eth_signTypedData_v4'')
          (Arr [Str (ascii ''0xaa''), Obj ?renamed]) =
        request example_provider_env example_provider (ascii ''eth_signTypedData_v4'')
          (Arr [Str (ascii ''0xaa''), Obj example_typed_data])"
    by blast
  with facts have same:
    "request example_provider_env example_provider (ascii ''eth_signTypedData_v4'')
       (Arr [Str (ascii ''0xaa''), Obj ?renamed]) =
     request example_provider_env example_provider (ascii ''eth_signTypedData_v4'')
       (Arr [Str (ascii ''0xaa''), Obj example_typed_data])"
    by simp
  have signed:
    "request example_provider_env example_provider (ascii ''eth_signTypedData_v4'')
       (Arr [Str (ascii ''0xaa''), Obj example_typed_data]) =
     (Inr (Str (ascii ''0xsigned:Mail'')),
      [SignTypedData
         \<lparr>domain = Obj [(ascii ''name'', Str (ascii ''Mail''))],
          types = Obj example_types,
          primaryType = Str (ascii ''Mail''),
          message = Obj [(ascii ''body'', Str (ascii ''hello''))]\<rparr>])"
    by (simp add: eth_signTypedData_v4_object [OF facts(1) facts(2) facts(3)]
        example_typed_data_request example_provider_env_def)
       (simp add: ascii_def)
  from facts same signed show ?thesis by simp
qed

section \<open>Transaction fields\<close>

lemma digits_2_length_big: "length (digits 2 9007199254740993) = 54"
  by (simp add: digits_step digits_small)

lemma floor_log_big: "floor_log 2 9007199254740993 = 53"
  by (simp add: floor_log_def digits_2_length_big digits_small Let_def)

lemma floor_big_half: "\<lfloor>9007199254740993 / 2 :: rat\<rfloor> = 4503599627370496"
  by (rule floor_unique) simp_all

lemma round64_big: "round64 9007199254740993 = Fin 9007199254740992"
  by (simp add: round64_def floor_log_big Let_def round_half_even_def floor_big_half)

lemma StringToNumber_big:
  "StringToNumber (ascii ''9007199254740993'') = Fin 9007199254740992"
  by (simp add: StringToNumber_def trim_def is_str_whitespace_def non_decimal_value_def
      decimal_literal_def is_digit_def lex_exponent_def digits_value_def decimal_value_def
      digit_value_def hex_value_def round64_big Let_def ascii_def)

lemma dropWhile_hd: "s \<noteq> [] \<Longrightarrow> \<not> P (hd s) \<Longrightarrow> dropWhile P s = s"
  by (cases s) simp_all

lemma trim_id:
  assumes "s \<noteq> []" and "\<not> is_str_whitespace (hd s)" and "\<not> is_str_whitespace (last s)"
  shows "trim s = s"
proof -
  from assms(1,2) have 1: "dropWhile is_str_whitespace s = s" by (rule dropWhile_hd)
  from assms(1,3) have "dropWhile is_str_whitespace (rev s) = rev s"
    by (intro dropWhile_hd) (simp_all add: hd_rev)
  with 1 show ?thesis by (simp add: trim_def)
qed

lemma hex_digit_range:
  "is_digit_of radix c \<Longrightarrow>
   (48 \<le> unat c \<and> unat c \<le> 57) \<or> (97 \<le> unat c \<and> unat c \<le> 102) \<or> (65 \<le> unat c \<and> unat c \<le> 70)"
  by (auto simp: is_digit_of_def hex_value_def word_le_nat_alt split: if_splits)

lemma hex_digit_not_space: "is_digit_of radix c \<Longrightarrow> \<not> is_str_whitespace c"
  by (drule hex_digit_range) (auto simp: is_str_whitespace_def word_le_nat_alt)

lemma decimal_digit_iff: "is_digit_of 10 c \<longleftrightarrow> is_digit c"
proof
  assume "is_digit c"
  then have r: "48 \<le> c \<and> c \<le> 57" by (simp add: is_digit_def)
  then have "unat c \<le> 57" by (simp add: word_le_nat_alt)
  with r show "is_digit_of 10 c" by (simp add: is_digit_of_def hex_value_def)
next
  assume d: "is_digit_of 10 c"
  show "is_digit c"
  proof (rule ccontr)
    assume "\<not> is_digit c"
    then have no: "\<not> (48 \<le> c \<and> c \<le> 57)" by (simp add: is_digit_def)
    with d show False
      by (auto simp: is_digit_of_def hex_value_def word_le_nat_alt split: if_splits)
  qed
qed

lemma radix_value_SomeD:
  "radix_value radix s = Some m \<Longrightarrow> s \<noteq> [] \<and> list_all (is_digit_of radix) s"
  by (simp add: radix_value_def split: if_splits)

lemma digits_not_space:
  assumes "radix_value radix s = Some m"
  shows "\<not> is_str_whitespace (hd s)" and "\<not> is_str_whitespace (last s)"
proof -
  from radix_value_SomeD [OF assms] have ne: "s \<noteq> []" and all: "list_all (is_digit_of radix) s"
    by simp_all
  from ne all have "is_digit_of radix (hd s)" "is_digit_of radix (last s)"
    by (simp_all add: list_all_iff)
  then show "\<not> is_str_whitespace (hd s)" and "\<not> is_str_whitespace (last s)"
    by (simp_all add: hex_digit_not_space)
qed

lemma hex_text_shape:
  assumes "take 2 s = ascii ''0x''"
  shows "s = 0x30 # 0x78 # drop 2 s"
proof -
  from assms obtain a b r where s: "s = a # b # r"
    by (cases s; cases "tl s") (auto simp: ascii_def)
  with assms show ?thesis by (simp add: ascii_def)
qed

lemma trim_hex_text:
  assumes "take 2 s = ascii ''0x''" and "radix_value 16 (drop 2 s) = Some m"
  shows "trim s = s"
proof -
  note shape = hex_text_shape [OF assms(1)]
  from radix_value_SomeD [OF assms(2)] have ne: "drop 2 s \<noteq> []" by simp
  have "\<not> is_str_whitespace (hd s)"
    by (subst shape) (simp add: is_str_whitespace_def)
  moreover have "last s = last (drop 2 s)"
    using ne by (subst shape) simp
  ultimately show ?thesis
    using digits_not_space(2) [OF assms(2)] ne by (intro trim_id) auto
qed

lemma non_decimal_hex_text:
  assumes "take 2 s = ascii ''0x''"
  shows "non_decimal_value s = radix_value 16 (drop 2 s)"
  by (subst hex_text_shape [OF assms]) (simp add: non_decimal_value_def)

lemma non_decimal_digits:
  assumes "radix_value 10 s = Some m"
  shows "non_decimal_value s = None"
proof (cases s)
  case Nil
  then show ?thesis by (simp add: non_decimal_value_def)
next
  case (Cons z r)
  show ?thesis
  proof (cases r)
    case Nil
    with Cons show ?thesis by (simp add: non_decimal_value_def)
  next
    case (Cons x ds)
    from radix_value_SomeD [OF assms] \<open>s = z # r\<close> Cons have "is_digit_of 10 x" by simp
    then have "is_digit x" by (simp add: decimal_digit_iff)
    then have "x \<noteq> 0x78 \<and> x \<noteq> 0x58 \<and> x \<noteq> 0x6F \<and> x \<noteq> 0x4F \<and> x \<noteq> 0x62 \<and> x \<noteq> 0x42"
      by (auto simp: is_digit_def)
    with \<open>s = z # r\<close> Cons show ?thesis by (simp add: non_decimal_value_def)
  qed
qed

lemma StringToBigInt_integer_text:
  assumes "integer_text s = Some n"
  shows "StringToBigInt s = Some n"
proof (cases "take 2 s = ascii ''0x''")
  case True
  with assms obtain m where m: "radix_value 16 (drop 2 s) = Some m" and n: "n = int m"
    by (auto simp: integer_text_def)
  from trim_hex_text [OF True m] non_decimal_hex_text [OF True] m n
    hex_text_shape [OF True]
  show ?thesis
    by (cases s) (simp_all add: StringToBigInt_def)
next
  case False
  with assms obtain m where m: "radix_value 10 s = Some m" and n: "n = int m"
    by (auto simp: integer_text_def)
  from radix_value_SomeD [OF m] obtain c r where s: "s = c # r"
    by (cases s) auto
  have t: "trim s = s"
    using radix_value_SomeD [OF m] digits_not_space [OF m] by (intro trim_id) simp_all
  from radix_value_SomeD [OF m] s have "is_digit c" by (simp add: decimal_digit_iff)
  then have sign: "c \<noteq> 0x2D \<and> c \<noteq> 0x2B" by (auto simp: is_digit_def)
  from t non_decimal_digits [OF m] m n sign show ?thesis
    by (simp add: StringToBigInt_def s)
qed

lemma decimal_literal_digits:
  assumes "radix_value 10 s = Some m"
  shows "decimal_literal s = Some (of_nat m)"
proof -
  from radix_value_SomeD [OF assms] have ne: "s \<noteq> []" and all: "list_all is_digit s"
    by (simp_all add: list_all_iff decimal_digit_iff)
  from all have tw: "takeWhile is_digit s = s" and dw: "dropWhile is_digit s = []"
    by (simp_all add: list_all_iff)
  from assms have "decimal_value s = m"
    by (simp add: radix_value_def decimal_value_def split: if_splits)
  with ne show ?thesis
    by (simp add: decimal_literal_def tw dw lex_exponent_def digits_value_def decimal_value_def)
qed

lemma StringToNumber_integer_text:
  assumes "integer_text s = Some n"
  shows "StringToNumber s = round64 (of_int n)"
proof (cases "take 2 s = ascii ''0x''")
  case True
  with assms obtain m where m: "radix_value 16 (drop 2 s) = Some m" and n: "n = int m"
    by (auto simp: integer_text_def)
  from trim_hex_text [OF True m] non_decimal_hex_text [OF True] m n
    hex_text_shape [OF True]
  show ?thesis
    by (cases s) (simp_all add: StringToNumber_def)
next
  case False
  with assms obtain m where m: "radix_value 10 s = Some m" and n: "n = int m"
    by (auto simp: integer_text_def)
  from radix_value_SomeD [OF m] obtain c r where s: "s = c # r"
    by (cases s) auto
  have t: "trim s = s"
    using radix_value_SomeD [OF m] digits_not_space [OF m] by (intro trim_id) simp_all
  from radix_value_SomeD [OF m] s have "is_digit c" by (simp add: decimal_digit_iff)
  then have sign: "c \<noteq> 0x2D \<and> c \<noteq> 0x2B \<and> c \<noteq> 0x49" by (auto simp: is_digit_def)
  then have inf: "c # r \<noteq> ascii ''Infinity''" by (simp add: ascii_def)
  from decimal_literal_digits [OF m] have dl: "decimal_literal (c # r) = Some (of_nat m)"
    by (simp add: s)
  from t non_decimal_digits [OF m] sign inf dl n show ?thesis
    by (simp add: StringToNumber_def s Let_def)
qed

lemma digits_2_length: "m < 2 ^ k \<Longrightarrow> 0 < k \<Longrightarrow> length (digits 2 m) \<le> k"
proof (induction k arbitrary: m)
  case 0
  then show ?case by simp
next
  case (Suc k)
  show ?case
  proof (cases "m < 2")
    case True
    then show ?thesis by (simp add: digits_small)
  next
    case False
    with Suc.prems have k: "0 < k" by (cases k) auto
    from Suc.prems have "m div 2 < 2 ^ k" by auto
    from Suc.IH [OF this k] False show ?thesis by (simp add: digits_step)
  qed
qed

lemma floor_log_2_nat:
  assumes "0 < m" and "m \<le> 2 ^ 53"
  shows "- 1 \<le> floor_log 2 (of_nat m) \<and>
         (floor_log 2 (of_nat m) \<le> 52 \<or> floor_log 2 (of_nat m) = 53 \<and> m = 2 ^ 53)"
proof -
  define c where "c = int (length (digits 2 m)) - 1"
  have q: "quotient_of (of_nat m :: rat) = (int m, 1)"
    using quotient_of_int [of "int m"] by simp
  have fl: "floor_log 2 (of_nat m) = (if power_int 2 c \<le> (of_nat m :: rat) then c else c - 1)"
    by (simp add: floor_log_def q digits_small c_def)
  from assms have "m < 2 ^ 54" by (simp add: order_le_less_trans [of m "2 ^ 53"])
  from digits_2_length [OF this] have "length (digits 2 m) \<le> 54" by simp
  moreover have "0 < length (digits 2 m)" by (simp add: digits_not_empty)
  ultimately have c: "0 \<le> c" "c \<le> 53" by (simp_all add: c_def)
  show ?thesis
  proof (cases "power_int 2 c \<le> (of_nat m :: rat)")
    case True
    show ?thesis
    proof (cases "c = 53")
      case True
      with \<open>power_int 2 c \<le> (of_nat m :: rat)\<close> have "(2 ^ 53 :: rat) \<le> of_nat m" by simp
      then have "(of_nat (2 ^ 53) :: rat) \<le> of_nat m" by simp
      then have "2 ^ 53 \<le> m" by (simp only: of_nat_le_iff)
      with assms(2) True fl \<open>power_int 2 c \<le> (of_nat m :: rat)\<close> show ?thesis by simp
    next
      case False
      with c True fl show ?thesis by simp
    qed
  next
    case False
    with c fl show ?thesis by simp
  qed
qed

lemma round_half_even_int: "round_half_even (of_int K) = K"
  by (simp add: round_half_even_def)

lemma round64_nat_exact:
  assumes "0 < m" and "m \<le> 2 ^ 53"
  shows "round64 (of_nat m) = Fin (of_nat m)"
proof -
  define e where "e = floor_log 2 (of_nat m)"
  define ulp :: rat where "ulp = power_int 2 (e - 52)"
  from floor_log_2_nat [OF assms]
  have lo: "- 1 \<le> e" and hi: "e \<le> 52 \<or> e = 53 \<and> m = 2 ^ 53"
    by (simp_all add: e_def)
  have pos: "0 < ulp" by (simp add: ulp_def)
  have "\<exists>K::int. (of_nat m :: rat) / ulp = of_int K"
  proof (cases "e \<le> 52")
    case True
    then have "ulp = inverse (2 ^ nat (52 - e))"
      by (simp add: ulp_def power_int_def power_one_over inverse_eq_divide)
    then have "(of_nat m :: rat) / ulp = of_int (int m * 2 ^ nat (52 - e))"
      by (simp add: divide_inverse)
    then show ?thesis by blast
  next
    case False
    with hi have e: "e = 53" and m: "m = 2 ^ 53" by simp_all
    have "ulp = 2" by (simp add: ulp_def e)
    with m have "(of_nat m :: rat) / ulp = of_int (2 ^ 52)" by simp
    then show ?thesis by blast
  qed
  then obtain K :: int where K: "(of_nat m :: rat) / ulp = of_int K" by blast
  with pos have scaled: "of_int K * ulp = (of_nat m :: rat)"
    by (simp add: field_simps)
  from assms(2) have "(of_nat m :: rat) \<le> of_nat (2 ^ 53)" by (simp only: of_nat_le_iff)
  then have small: "\<not> (2 ^ 1024 \<le> (of_nat m :: rat))" by simp
  from lo have mx: "max e (- 1022) = e" by simp
  from assms(1) have nz: "(of_nat m :: rat) \<noteq> 0" by simp
  show ?thesis
    using nz small
    by (simp add: round64_def Let_def e_def [symmetric] mx ulp_def [symmetric] K
        round_half_even_int scaled)
qed

lemma round64_neg: "round64 (- q) = (case round64 q of Fin r \<Rightarrow> Fin (- r) | PosInf \<Rightarrow> NegInf | NegInf \<Rightarrow> PosInf | NaN \<Rightarrow> NaN)"
  by (simp add: round64_def Let_def)

lemma round64_int_exact:
  assumes "\<bar>n\<bar> \<le> 2 ^ 53"
  shows "round64 (of_int n) = Fin (of_int n)"
proof -
  consider "n = 0" | "0 < n" | "n < 0" by linarith
  then show ?thesis
  proof cases
    case 1
    then show ?thesis by (simp add: round64_def)
  next
    case 2
    with assms have "0 < nat n" "nat n \<le> 2 ^ 53" by (simp_all add: nat_le_iff)
    from round64_nat_exact [OF this] 2 show ?thesis by simp
  next
    case 3
    with assms have "0 < nat (- n)" "nat (- n) \<le> 2 ^ 53" by (simp_all add: nat_le_iff)
    from round64_nat_exact [OF this] 3 have "round64 (of_int (- n)) = Fin (of_int (- n))"
      by simp
    then have "round64 (- of_int n) = Fin (- of_int n)" by simp
    then show ?thesis
      using round64_neg [of "- of_int n"] by simp
  qed
qed

lemma BigInt_as_integer: "as_integer v = Some n \<Longrightarrow> BigInt v = Inr n"
  by (induction v rule: as_integer.induct)
     (auto simp: string_BigInt_def StringToBigInt_integer_text split: if_splits)

lemma Number_as_integer:
  "as_integer v = Some n \<Longrightarrow> \<bar>n\<bar> \<le> 2 ^ 53 \<Longrightarrow> Number v = Fin (of_int n)"
  by (induction v rule: as_integer.induct)
     (auto simp: StringToNumber_integer_text round64_int_exact split: if_splits)

lemma unless_nullish_BigInt:
  "nullish v \<or> as_integer v \<noteq> None \<Longrightarrow>
   unless_nullish BigInt v = Inr (if nullish v then None else as_integer v)"
  by (auto simp: unless_nullish_def BigInt_as_integer)

lemma eth_sendTransaction_object:
  assumes "element params 0 = Inr (Obj ps)"
    and "unless_nullish BigInt (own_property ps (ascii ''value'')) = Inr value_arg"
    and "unless_nullish BigInt (own_property ps (ascii ''gas'')) = Inr gas_arg"
  shows "request env p (ascii ''eth_sendTransaction'') params =
     (let req = \<lparr>to = own_property ps (ascii ''to''), data = own_property ps (ascii ''data''),
                  value = value_arg, gas = gas_arg,
                  nonce = (if nullish (own_property ps (ascii ''nonce'')) then None
                           else Some (Number (own_property ps (ascii ''nonce'')))),
                  chain = resolved_chain p\<rparr>
      in (sendTransaction env req, [SendTransaction req]))"
proof -
  have "request env p (ascii ''eth_sendTransaction'') params = eth_sendTransaction env p params"
    by (simp add: request_def ascii_def)
  with assms show ?thesis
    by (simp add: eth_sendTransaction_def attempt_def unless_nullish_def Let_def)
qed

text \<open>
  Claim C8, as the code has it. When \<open>value\<close> and \<open>gas\<close> are each absent or a decimal
  string, a \<open>0x\<close> hexadecimal string or an integral number, the send operation is called
  once, with \<open>value\<close> and \<open>gas\<close> converted by \<open>BigInt\<close> to exactly the integers they
  denote, and with \<open>undefined\<close> for an absent (\<open>undefined\<close> or \<open>null\<close>) field. The nonce
  is converted by \<open>Number\<close>, to a binary64 value: that is the integer the nonce denotes
  when its magnitude is at most \<open>2^53\<close>.
\<close>

theorem transaction_fields_coerced:
  assumes "element params 0 = Inr (Obj ps)"
    and "nullish (own_property ps (ascii ''value'')) \<or>
         as_integer (own_property ps (ascii ''value'')) \<noteq> None"
    and "nullish (own_property ps (ascii ''gas'')) \<or>
         as_integer (own_property ps (ascii ''gas'')) \<noteq> None"
  shows "\<exists>req. request env p (ascii ''eth_sendTransaction'') params =
                 (sendTransaction env req, [SendTransaction req]) \<and>
     value req = (if nullish (own_property ps (ascii ''value'')) then None
                  else as_integer (own_property ps (ascii ''value''))) \<and>
     gas req = (if nullish (own_property ps (ascii ''gas'')) then None
                else as_integer (own_property ps (ascii ''gas''))) \<and>
     nonce req = (if nullish (own_property ps (ascii ''nonce'')) then None
                  else Some (Number (own_property ps (ascii ''nonce'')))) \<and>
     (\<forall>n. as_integer (own_property ps (ascii ''nonce'')) = Some n \<and> \<bar>n\<bar> \<le> 2 ^ 53 \<longrightarrow>
          nonce req = Some (Fin (of_int n))) \<and>
     to req = own_property ps (ascii ''to'') \<and> data req = own_property ps (ascii ''data'') \<and>
     chain req = resolved_chain p"
proof -
  let ?req = "\<lparr>to = own_property ps (ascii ''to''), data = own_property ps (ascii ''data''),
      value = (if nullish (own_property ps (ascii ''value'')) then None
               else as_integer (own_property ps (ascii ''value''))),
      gas = (if nullish (own_property ps (ascii ''gas'')) then None
             else as_integer (own_property ps (ascii ''gas''))),
      nonce = (if nullish (own_property ps (ascii ''nonce'')) then None
               else Some (Number (own_property ps (ascii ''nonce'')))),
      chain = resolved_chain p\<rparr>"
  have call: "request env p (ascii ''eth_sendTransaction'') params =
      (sendTransaction env ?req, [SendTransaction ?req])"
    using eth_sendTransaction_object
      [OF assms(1) unless_nullish_BigInt [OF assms(2)] unless_nullish_BigInt [OF assms(3)]]
    by (simp add: Let_def)
  have exact: "nonce ?req = Some (Fin (of_int n))"
    if "as_integer (own_property ps (ascii ''nonce'')) = Some n \<and> \<bar>n\<bar> \<le> 2 ^ 53" for n
  proof -
    from that have "\<not> nullish (own_property ps (ascii ''nonce''))"
      by (auto simp: nullish_def)
    with that show ?thesis by (simp add: Number_as_integer)
  qed
  show ?thesis
    by (rule exI [of _ ?req]) (use call exact in simp)
qed

lemma example_transaction_fields:
  "element example_transaction 0 =
     Inr (Obj [(ascii ''to'', Str (ascii ''0xbb'')), (ascii ''value'', Str (ascii ''0x10'')),
               (ascii ''gas'', Num (Fin 21000)), (ascii ''nonce'', Str (ascii ''7''))])"
  "as_integer (Str (ascii ''0x10'')) = Some 16"
  "as_integer (Num (Fin 21000)) = Some 21000"
  "as_integer (Str (ascii ''7'')) = Some 7"
  by (simp_all add: example_transaction_def integer_text_def radix_value_def is_digit_of_def
      digit_value_def hex_value_def ascii_def)

theorem transaction_fields_coerced_witness:
  "element example_transaction 0 =
     Inr (Obj [(ascii ''to'', Str (ascii ''0xbb'')), (ascii ''value'', Str (ascii ''0x10'')),
               (ascii ''gas'', Num (Fin 21000)), (ascii ''nonce'', Str (ascii ''7''))]) \<and>
   as_integer (Str (ascii ''0x10'')) = Some 16 \<and>
   as_integer (Num (Fin 21000)) = Some 21000 \<and>
   as_integer (Str (ascii ''7'')) = Some 7 \<and> \<bar>7 :: int\<bar> \<le> 2 ^ 53 \<and>
   request example_provider_env example_provider (ascii ''eth_sendTransaction'')
       example_transaction =
     (Inr (Str (ascii ''0xhash'')),
      [SendTransaction
         \<lparr>to = Str (ascii ''0xbb''), data = Undefined, value = Some 16, gas = Some 21000,
          nonce = Some (Fin 7), chain = sepolia\<rparr>])"
proof -
  let ?ps = "[(ascii ''to'', Str (ascii ''0xbb'')), (ascii ''value'', Str (ascii ''0x10'')),
              (ascii ''gas'', Num (Fin 21000)), (ascii ''nonce'', Str (ascii ''7''))]"
  note f = example_transaction_fields
  have props: "own_property ?ps (ascii ''to'') = Str (ascii ''0xbb'')"
    "own_property ?ps (ascii ''data'') = Undefined"
    "own_property ?ps (ascii ''value'') = Str (ascii ''0x10'')"
    "own_property ?ps (ascii ''gas'') = Num (Fin 21000)"
    "own_property ?ps (ascii ''nonce'') = Str (ascii ''7'')"
    by (simp_all add: own_property_def ascii_def)
  have v: "nullish (own_property ?ps (ascii ''value'')) \<or>
      as_integer (own_property ?ps (ascii ''value'')) \<noteq> None"
    by (simp only: props f) simp
  have g: "nullish (own_property ?ps (ascii ''gas'')) \<or>
      as_integer (own_property ?ps (ascii ''gas'')) \<noteq> None"
    by (simp only: props f) simp
  from transaction_fields_coerced
    [where env = example_provider_env and p = example_provider, OF f(1) v g]
  obtain req where call: "request example_provider_env example_provider
        (ascii ''eth_sendTransaction'') example_transaction =
        (sendTransaction example_provider_env req, [SendTransaction req])"
    and val: "value req = (if nullish (own_property ?ps (ascii ''value'')) then None
                  else as_integer (own_property ?ps (ascii ''value'')))"
    and gas: "gas req = (if nullish (own_property ?ps (ascii ''gas'')) then None
                else as_integer (own_property ?ps (ascii ''gas'')))"
    and exact: "\<forall>n. as_integer (own_property ?ps (ascii ''nonce'')) = Some n \<and> \<bar>n\<bar> \<le> 2 ^ 53 \<longrightarrow>
          nonce req = Some (Fin (of_int n))"
    and rest: "to req = own_property ?ps (ascii ''to'')" "data req = own_property ?ps (ascii ''data'')"
      "chain req = resolved_chain example_provider"
    by blast
  from exact have "as_integer (own_property ?ps (ascii ''nonce'')) = Some 7 \<and> \<bar>7 :: int\<bar> \<le> 2 ^ 53 \<longrightarrow>
      nonce req = Some (Fin (of_int 7))"
    by blast
  then have n: "nonce req = Some (Fin 7)"
    by (simp add: props f del: as_integer.simps)
  from val gas rest have fields: "value req = Some 16" "gas req = Some 21000"
    "to req = Str (ascii ''0xbb'')" "data req = Undefined" "chain req = sepolia"
    by (simp_all add: props f nullish_def example_provider_def del: as_integer.simps)
  from fields n have req: "req = \<lparr>to = Str (ascii ''0xbb''), data = Undefined, value = Some 16,
      gas = Some 21000, nonce = Some (Fin 7), chain = sepolia\<rparr>"
    by (cases req) simp
  from call have "request example_provider_env example_provider
        (ascii ''eth_sendTransaction'') example_transaction =
      (Inr (Str (ascii ''0xhash'')), [SendTransaction req])"
    by (simp add: example_provider_env_def)
  with req f show ?thesis by simp
qed

text \<open>
  The claim as stated fails for the nonce: the decimal string of \<open>2^53 + 1\<close> reaches the
  send operation as the number \<open>2^53\<close>.
\<close>

theorem nonce_precision_counterexample:
  "as_integer (Str (ascii ''9007199254740993'')) = Some 9007199254740993 \<and>
   request example_provider_env example_provider (ascii ''eth_sendTransaction'')
       large_nonce_transaction =
     (Inr (Str (ascii ''0xhash'')),
      [SendTransaction
         \<lparr>to = Undefined, data = Undefined, value = None, gas = None,
          nonce = Some (Fin 9007199254740992), chain = sepolia\<rparr>])"
proof -
  have 1: "as_integer (Str (ascii ''9007199254740993'')) = Some 9007199254740993"
    by (simp add: integer_text_def radix_value_def is_digit_of_def digit_value_def hex_value_def
        ascii_def)
  have el: "element large_nonce_transaction 0 =
      Inr (Obj [(ascii ''nonce'', Str (ascii ''9007199254740993''))])"
    by (simp add: large_nonce_transaction_def)
  have props: "own_property [(ascii ''nonce'', Str (ascii ''9007199254740993''))] k =
      (if k = ascii ''nonce'' then Str (ascii ''9007199254740993'') else Undefined)" for k
    by (simp add: own_property_def)
  have names: "ascii ''to'' \<noteq> ascii ''nonce''" "ascii ''data'' \<noteq> ascii ''nonce''"
    "ascii ''value'' \<noteq> ascii ''nonce''" "ascii ''gas'' \<noteq> ascii ''nonce''"
    by (simp_all add: ascii_def)
  have none: "unless_nullish BigInt Undefined = Inr None"
    by (simp add: unless_nullish_def nullish_def)
  have 2: "request example_provider_env example_provider (ascii ''eth_sendTransaction'')
       large_nonce_transaction =
     (Inr (Str (ascii ''0xhash'')),
      [SendTransaction
         \<lparr>to = Undefined, data = Undefined, value = None, gas = None,
          nonce = Some (Fin 9007199254740992), chain = sepolia\<rparr>])"
    using eth_sendTransaction_object [where env = example_provider_env and p = example_provider,
        OF el, of None None]
    by (simp add: props names none Let_def nullish_def StringToNumber_big
        example_provider_env_def example_provider_def)
  from 1 2 show ?thesis by simp
qed

section \<open>Reading back the text of a number\<close>

lemma digit_unit_0: "is_digit_of 10 (digit_unit 0)" "digit_value (digit_unit 0) = 0"
  by (simp_all add: is_digit_of_def digit_value_def hex_value_def digit_unit_def)

lemma radix_value_zeros:
  "radix_value 10 (digits 10 a @ replicate j (digit_unit 0)) = Some (a * 10 ^ j)"
proof (induction j)
  case 0
  then show ?case by (simp add: radix_value_digits)
next
  case (Suc j)
  have "digits 10 a @ replicate (Suc j) (digit_unit 0) =
      (digits 10 a @ replicate j (digit_unit 0)) @ [digit_unit 0]"
    by (simp add: replicate_append_same)
  with radix_value_snoc [OF Suc digit_unit_0(1)] show ?case
    by (simp add: digit_unit_0)
qed

lemma radix_value_other:
  "c \<in> set s \<Longrightarrow> \<not> is_digit_of radix c \<Longrightarrow> radix_value radix s = None"
  by (auto simp: radix_value_def list_all_iff)

lemma not_decimal_digits:
  "\<not> is_digit_of 10 0x2E" "\<not> is_digit_of 10 0x65" "\<not> is_digit_of 10 0x2D"
  "\<not> is_digit_of 10 0x4E" "\<not> is_digit_of 10 0x49"
  by (simp_all add: is_digit_of_def hex_value_def)

lemma format_digits_integer:
  assumes "format_digits 10 (k, s, n) = digits 10 m"
  shows "int k \<le> n \<and> nat s * 10 ^ nat (n - int k) = m"
proof -
  have val: "radix_value 10 (format_digits 10 (k, s, n)) = Some m"
    by (simp add: assms radix_value_digits)
  have point: "radix_value 10 (a @ ascii ''.'' @ b) = None" for a b
    by (rule radix_value_other [of "0x2E"]) (simp_all add: ascii_def not_decimal_digits)
  have zero_point: "radix_value 10 (ascii ''0.'' @ b) = None" for b
    by (rule radix_value_other [of "0x2E"]) (simp_all add: ascii_def not_decimal_digits)
  have expo: "radix_value 10 (a @ (if neg then ascii ''e-'' else ascii ''e+'') @ b) = None"
    for a b neg
    by (rule radix_value_other [of "0x65"]) (simp_all add: ascii_def not_decimal_digits)
  have expo': "radix_value 10 (a @ ascii ''.'' @ b @ c) = None" for a b c
    using point [of a "b @ c"] by simp
  show ?thesis
  proof (cases "int k \<le> n \<and> - 6 < n \<and> n \<le> 21")
    case True
    with val have "radix_value 10 (digits 10 (nat s) @ replicate (nat (n - int k)) (digit_unit 0)) =
        Some m"
      by (simp add: format_digits_def Let_def)
    with True show ?thesis by (simp add: radix_value_zeros)
  next
    case False
    with val point zero_point expo expo' have False
      by (auto simp: format_digits_def Let_def split: if_splits)
    then show ?thesis ..
  qed
qed

lemma candidates_length: "length (candidates radix q k) \<le> 2"
proof -
  have "length (filter P [a, b]) \<le> 2" for P and a b :: "int \<times> int"
    using length_filter_le [of P "[a, b]"] by simp
  then show ?thesis by (simp add: candidates_def Let_def)
qed

lemma candidates_round:
  "(s, n) \<in> set (candidates radix q k) \<Longrightarrow>
   round64 (of_int s * power_int (of_nat radix) (n - int k)) = Fin q"
  by (auto simp: candidates_def Let_def split: if_splits)

lemma closest_mem:
  assumes "cs \<noteq> []" and "length cs \<le> 2"
  shows "closest radix q k cs \<in> set cs"
proof -
  from assms consider c where "cs = [c]" | c d where "cs = [c, d]"
    by (cases cs; cases "tl cs"; cases "tl (tl cs)") auto
  then show ?thesis
  proof cases
    case 1
    then show ?thesis by (simp add: closest_def)
  next
    case 2
    then show ?thesis
      by (cases c; cases d) (simp add: closest_def Let_def)
  qed
qed

lemma shortest_cases:
  assumes "shortest radix q k fuel = (k', s, n)"
  shows "(s, n) \<in> set (candidates radix q k') \<or>
         candidates radix q k' = [] \<and> k' = k + fuel \<and>
         s = \<lfloor>q / power_int (of_nat radix) (floor_log radix q + 1 - int k')\<rfloor> \<and>
         n = floor_log radix q + 1"
  using assms
proof (induction fuel arbitrary: k)
  case 0
  show ?case
  proof (cases "candidates radix q k = []")
    case True
    with 0 show ?thesis by (auto simp: closest_def)
  next
    case False
    from closest_mem [OF False candidates_length, of radix q k] 0 show ?thesis
      by auto
  qed
next
  case (Suc fuel)
  show ?case
  proof (cases "candidates radix q k = []")
    case True
    with Suc.prems have "shortest radix q (Suc k) fuel = (k', s, n)" by simp
    from Suc.IH [OF this] show ?thesis by simp
  next
    case False
    from closest_mem [OF False candidates_length, of radix q k] Suc.prems False show ?thesis
      by auto
  qed
qed

lemma digits_length_lower:
  "2 \<le> b \<Longrightarrow> 0 < m \<Longrightarrow> b ^ (length (digits b m) - 1) \<le> m"
proof (induction b m rule: digits.induct)
  case (1 b m)
  show ?case
  proof (cases "m < b")
    case True
    with 1(3) show ?thesis by (simp add: digits_small)
  next
    case False
    with 1(2) have pos: "0 < m div b" by (simp add: div_greater_zero_iff)
    from False 1 pos have ih: "b ^ (length (digits b (m div b)) - 1) \<le> m div b" by simp
    have len: "0 < length (digits b (m div b))" using digits_not_empty [of b "m div b"] by simp
    then have "b ^ length (digits b (m div b)) = b * b ^ (length (digits b (m div b)) - 1)"
      by (cases "length (digits b (m div b))") simp_all
    also from ih have "\<dots> \<le> b * (m div b)" by simp
    also have "\<dots> \<le> m" by simp
    finally show ?thesis using False 1(2) by (simp add: digits_step)
  qed
qed

lemma digits_length_upper: "2 \<le> b \<Longrightarrow> m < b ^ length (digits b m)"
proof (induction b m rule: digits.induct)
  case (1 b m)
  show ?case
  proof (cases "m < b")
    case True
    then show ?thesis by (simp add: digits_small)
  next
    case False
    with 1 have ih: "m div b < b ^ length (digits b (m div b))" by simp
    then have "m div b + 1 \<le> b ^ length (digits b (m div b))" by simp
    then have "b * (m div b + 1) \<le> b * b ^ length (digits b (m div b))"
      by (rule mult_le_mono2)
    moreover from 1(2) have "m < b * (m div b + 1)"
      using dividend_less_times_div [of b m] by (simp add: algebra_simps)
    ultimately show ?thesis using False 1(2) by (simp add: digits_step)
  qed
qed

lemma floor_log_lower:
  assumes "2 \<le> b" and "0 < a"
  shows "power_int (of_nat b) (floor_log b a) \<le> a"
proof -
  obtain p d where pd: "quotient_of a = (p, d)" by (cases "quotient_of a")
  then have d: "0 < d" and a: "a = of_int p / of_int d"
    by (simp_all add: quotient_of_denom_pos quotient_of_div)
  from assms(2) a d have p: "0 < p" by (simp add: zero_less_divide_iff)
  define Lp where "Lp = length (digits b (nat p))"
  define Ld where "Ld = length (digits b (nat d))"
  define c where "c = int Lp - int Ld"
  have fl: "floor_log b a = (if power_int (of_nat b) c \<le> a then c else c - 1)"
    by (simp add: floor_log_def pd c_def Lp_def Ld_def Let_def)
  show ?thesis
  proof (cases "power_int (of_nat b) c \<le> a")
    case True
    with fl show ?thesis by simp
  next
    case False
    from p assms(1) have "b ^ (Lp - 1) \<le> nat p"
      unfolding Lp_def by (intro digits_length_lower) simp_all
    then have "(of_nat (b ^ (Lp - 1)) :: rat) \<le> of_nat (nat p)" by (simp only: of_nat_le_iff)
    with p have low: "(of_nat b :: rat) ^ (Lp - 1) \<le> of_int p" by simp
    from assms(1) have "nat d < b ^ Ld"
      unfolding Ld_def by (rule digits_length_upper)
    then have "(of_nat (nat d) :: rat) < of_nat (b ^ Ld)" by (simp only: of_nat_less_iff)
    with d have up: "(of_int d :: rat) \<le> of_nat b ^ Ld" by simp
    have Lp: "0 < Lp" unfolding Lp_def using digits_not_empty [of b "nat p"] by simp
    from assms(1) have b0: "(of_nat b :: rat) \<noteq> 0" by simp
    from Lp have "c - 1 = int (Lp - 1) - int Ld" by (simp add: c_def)
    then have "power_int (of_nat b :: rat) (c - 1) = of_nat b ^ (Lp - 1) / of_nat b ^ Ld"
      using b0 by (simp add: power_int_diff)
    also have "\<dots> \<le> of_int p / of_int d"
      using low up d p by (intro frac_le) simp_all
    finally show ?thesis using False fl a by simp
  qed
qed

lemma candidates_nonneg:
  assumes "0 < q" and "(s, n) \<in> set (candidates 10 q k)"
  shows "0 \<le> s"
proof -
  have "0 \<le> \<lfloor>q / power_int 10 j\<rfloor>" for j
    using assms(1) by (simp add: zero_le_divide_iff)
  from this [of "floor_log 10 q + 1 - int k"] assms(2) show ?thesis
    by (auto simp: candidates_def Let_def split: if_splits)
qed

lemma round64_nat:
  assumes "m \<le> 2 ^ 53"
  shows "round64 (of_nat m) = Fin (of_nat m)"
proof (cases "m = 0")
  case True
  then show ?thesis by (simp add: round64_def)
next
  case False
  with assms show ?thesis by (simp add: round64_nat_exact)
qed

lemma slow_digits:
  assumes "0 < q" and "format_digits 10 (shortest 10 q 1 52) = digits 10 m" and "m \<le> 2 ^ 53"
  shows "q = of_nat m"
proof -
  obtain k s n where sh: "shortest 10 q 1 52 = (k, s, n)" by (cases "shortest 10 q 1 52")
  with assms(2) have "format_digits 10 (k, s, n) = digits 10 m" by simp
  from format_digits_integer [OF this]
  have kn: "int k \<le> n" and m: "nat s * 10 ^ nat (n - int k) = m" by simp_all
  from shortest_cases [OF sh]
  consider (found) "(s, n) \<in> set (candidates 10 q k)"
    | (none) "k = 53" "s = \<lfloor>q / power_int 10 (floor_log 10 q + 1 - int k)\<rfloor>"
        "n = floor_log 10 q + 1"
    by auto
  then show ?thesis
  proof cases
    case found
    from candidates_nonneg [OF assms(1) found] have s: "0 \<le> s" .
    from kn have "power_int (10 :: rat) (n - int k) = 10 ^ nat (n - int k)"
      by (simp add: power_int_def)
    with s have "of_int s * power_int (10 :: rat) (n - int k) =
        of_nat (nat s * 10 ^ nat (n - int k))"
      by simp
    with m candidates_round [OF found] have "round64 (of_nat m) = Fin q" by simp
    with round64_nat [OF assms(3)] show ?thesis by simp
  next
    case none
    define N where "N = floor_log 10 q + 1"
    from floor_log_lower [of 10 q] assms(1) have "power_int 10 (N - 1) \<le> q"
      by (simp add: N_def)
    then have "power_int 10 (N - 1) / power_int 10 (N - 53) \<le> q / power_int (10 :: rat) (N - 53)"
      by (simp add: divide_right_mono)
    moreover have "power_int (10 :: rat) (N - 1) / power_int 10 (N - 53) = 10 ^ 52"
    proof -
      have "power_int (10 :: rat) (N - 1) / power_int 10 (N - 53) = power_int 10 (N - 1 - (N - 53))"
        by (simp add: power_int_diff)
      also have "\<dots> = power_int 10 (int 52)" by simp
      also have "\<dots> = 10 ^ 52" by (simp only: power_int_of_nat)
      finally show ?thesis .
    qed
    ultimately have "(of_int (10 ^ 52) :: rat) \<le> q / power_int 10 (N - 53)" by simp
    then have "10 ^ 52 \<le> \<lfloor>q / power_int (10 :: rat) (N - 53)\<rfloor>" by (simp only: le_floor_iff)
    with none have "10 ^ 52 \<le> s" by (simp add: N_def)
    then have "10 ^ 52 \<le> nat s" by (simp add: le_nat_iff)
    moreover have "nat s \<le> nat s * 10 ^ nat (n - int k)" by simp
    ultimately have "10 ^ 52 \<le> m" using m by linarith
    with assms(3) have False by simp
    then show ?thesis ..
  qed
qed

lemma Number_toString_digits:
  assumes "Number_toString x = digits 10 m" and "m \<le> 2 ^ 53"
  shows "x = Fin (of_nat m)"
proof -
  have val: "radix_value 10 (Number_toString x) = Some m"
    by (simp add: assms(1) radix_value_digits)
  have minus: "radix_value 10 (ascii ''-'' @ t) = None" for t
    by (rule radix_value_other [of "0x2D"]) (simp_all add: ascii_def not_decimal_digits)
  show ?thesis
  proof (cases x)
    case NaN
    have "radix_value 10 (ascii ''NaN'') = None"
      by (rule radix_value_other [of "0x4E"]) (simp_all add: ascii_def not_decimal_digits)
    with val NaN show ?thesis by (simp add: Number_toString_def Number_toString_radix_def)
  next
    case PosInf
    have "radix_value 10 (ascii ''Infinity'') = None"
      by (rule radix_value_other [of "0x49"]) (simp_all add: ascii_def not_decimal_digits)
    with val PosInf show ?thesis by (simp add: Number_toString_def Number_toString_radix_def)
  next
    case NegInf
    from minus [of "ascii ''Infinity''"] have "radix_value 10 (ascii ''-Infinity'') = None"
      by (simp add: ascii_def)
    with val NegInf show ?thesis by (simp add: Number_toString_def Number_toString_radix_def)
  next
    case (Fin q)
    show ?thesis
    proof (cases "q = of_int \<lfloor>q\<rfloor> \<and> \<bar>q\<bar> \<le> 2 ^ 53")
      case True
      with val Fin have v: "radix_value 10 (int_toString 10 \<lfloor>q\<rfloor>) = Some m"
        by (simp add: Number_toString_def Number_toString_radix_def)
      show ?thesis
      proof (cases "\<lfloor>q\<rfloor> < 0")
        case True
        with v minus show ?thesis by (simp add: int_toString_def)
      next
        case False
        with v have "nat \<lfloor>q\<rfloor> = m" by (simp add: int_toString_def radix_value_digits)
        with False have "\<lfloor>q\<rfloor> = int m" by linarith
        with True have "q = of_int (int m)" by simp
        with Fin show ?thesis by simp
      qed
    next
      case False
      show ?thesis
      proof (cases "q < 0")
        case True
        have "Number_toString x = ascii ''-'' @ format_digits 10 (shortest 10 (- q) 1 52)"
          unfolding Number_toString_def Number_toString_radix_def Fin jsnum.case
          using False True by (simp only: if_False if_True)
        with val minus show ?thesis by simp
      next
        case nonneg: False
        from False have "q \<noteq> 0" by auto
        with nonneg have pos: "0 < q" by simp
        have "Number_toString x = format_digits 10 (shortest 10 q 1 52)"
          unfolding Number_toString_def Number_toString_radix_def Fin jsnum.case
          using False nonneg by (simp only: if_False)
        with assms(1) have "format_digits 10 (shortest 10 q 1 52) = digits 10 m"
          by (simp only:)
        from slow_digits [OF pos this assms(2)] Fin show ?thesis by simp
      qed
    qed
  qed
qed

lemma Number_toString_radix_nat:
  "m \<le> 2 ^ 53 \<Longrightarrow> Number_toString_radix radix (Fin (of_nat m)) = digits radix m"
  by (simp add: Number_toString_radix_def int_toString_def)

lemma Number_toString_nat: "m \<le> 2 ^ 53 \<Longrightarrow> Number_toString (Fin (of_nat m)) = digits 10 m"
  by (simp add: Number_toString_def Number_toString_radix_nat)

lemma Number_toString_int:
  assumes "\<bar>n\<bar> \<le> 2 ^ 53"
  shows "Number_toString (Fin (of_int n)) = int_toString 10 n"
proof -
  from assms have "(of_int \<bar>n\<bar> :: rat) \<le> of_int (2 ^ 53)" by (simp only: of_int_le_iff)
  then have "\<bar>of_int n :: rat\<bar> \<le> 2 ^ 53" by simp
  moreover have "(of_int n :: rat) = of_int \<lfloor>of_int n :: rat\<rfloor>" by simp
  ultimately have "Number_toString (Fin (of_int n)) = int_toString 10 \<lfloor>of_int n :: rat\<rfloor>"
    unfolding Number_toString_def Number_toString_radix_def jsnum.case
    by (simp only: if_True simp_thms)
  then show ?thesis by simp
qed

section \<open>Numbers that are held exactly\<close>

lemma round64_scaled:
  assumes "0 < m" and "m < 2 ^ 53" and "j \<le> 970"
  shows "round64 (of_nat m * 2 ^ j) = Fin (of_nat m * 2 ^ j)"
proof -
  define x :: rat where "x = of_nat m * 2 ^ j"
  define e where "e = max (floor_log 2 x) (- 1022)"
  define ulp :: rat where "ulp = power_int 2 (e - 52)"
  from assms(1) have x: "0 < x" by (simp add: x_def)
  from assms(2) have "(of_nat m :: rat) < of_nat (2 ^ 53)" by (simp only: of_nat_less_iff)
  then have "(of_nat m :: rat) < 2 ^ 53" by simp
  then have "x < 2 ^ 53 * 2 ^ j" by (simp add: x_def)
  then have up: "x < 2 ^ (53 + j)" by (simp add: power_add)
  then have up': "x < power_int 2 (53 + int j)"
    using power_int_of_nat [of "2 :: rat" "53 + j"] by simp
  from floor_log_lower [of 2 x] x have "power_int 2 (floor_log 2 x) \<le> x" by simp
  with up' have "power_int (2 :: rat) (floor_log 2 x) < power_int 2 (53 + int j)" by simp
  then have "floor_log 2 x < 53 + int j"
    by (rule power_int_le_imp_less_exp [rotated]) simp_all
  then have le: "e - 52 \<le> int j" by (simp add: e_def)
  define d where "d = nat (int j - (e - 52))"
  from le have j: "int j = (e - 52) + int d" by (simp add: d_def)
  have "(2 :: rat) ^ j = power_int 2 (int j)" by (simp only: power_int_of_nat)
  also have "\<dots> = power_int 2 (e - 52) * power_int 2 (int d)"
    by (simp only: j) (simp add: power_int_add)
  also have "\<dots> = ulp * 2 ^ d" by (simp only: power_int_of_nat ulp_def)
  finally have pj: "(2 :: rat) ^ j = ulp * 2 ^ d" .
  have pos: "0 < ulp" by (simp add: ulp_def)
  have K: "x / ulp = of_int (int m * 2 ^ d)"
    using pos by (simp add: x_def pj)
  have scaled: "of_int (int m * 2 ^ d) * ulp = x"
    by (simp add: x_def pj)
  have "(2 :: rat) ^ (53 + j) \<le> 2 ^ 1023"
    using assms(3) by (intro power_increasing) simp_all
  with up have small: "\<not> 2 ^ 1024 \<le> x" by simp
  from x have abs: "\<bar>x\<bar> = x" and nz: "x \<noteq> 0" and nn: "\<not> x < 0" by simp_all
  have "round64 x = Fin x"
    unfolding round64_def Let_def abs e_def [symmetric] ulp_def [symmetric] K
      round_half_even_int scaled
    using nz small nn by (simp only: if_False)
  then show ?thesis by (simp only: x_def)
qed

lemma is_Number_int: "\<bar>n\<bar> \<le> 2 ^ 53 \<Longrightarrow> is_Number (Fin (of_int n))"
  by (simp add: is_Number_def round64_int_exact)

lemma sextillion: "(10 :: rat) ^ 21 = of_nat 476837158203125 * 2 ^ 21"
  by simp

lemma is_Number_sextillion: "is_Number (Fin (10 ^ 21))"
  unfolding is_Number_def jsnum.case sextillion
  by (rule round64_scaled) simp_all

lemma floor_log_sextillion: "floor_log 10 1000000000000000000000 = 21"
proof -
  have "length (digits 10 1000000000000000000000) = 22"
    by (simp add: digits_step digits_small)
  then show ?thesis
    by (simp add: floor_log_def digits_small Let_def)
qed

lemma round64_sextillion:
  "round64 1000000000000000000000 = Fin 1000000000000000000000"
  "round64 2000000000000000000000 = Fin 2000000000000000000000"
proof -
  have "(1000000000000000000000 :: rat) = of_nat 476837158203125 * 2 ^ 21" by simp
  then show "round64 1000000000000000000000 = Fin 1000000000000000000000"
    using round64_scaled [of 476837158203125 21] by simp
  have "(2000000000000000000000 :: rat) = of_nat 476837158203125 * 2 ^ 22" by simp
  then show "round64 2000000000000000000000 = Fin 2000000000000000000000"
    using round64_scaled [of 476837158203125 22] by simp
qed

lemma candidates_sextillion: "candidates 10 1000000000000000000000 1 = [(1, 22)]"
  by (simp add: candidates_def floor_log_sextillion Let_def round64_sextillion)

lemma Number_toString_sextillion:
  "Number_toString (Fin 1000000000000000000000) = ascii ''1e+21''"
proof -
  have "shortest 10 1000000000000000000000 1 52 = (1, 1, 22)"
    using candidates_sextillion by (simp add: numeral_eq_Suc closest_def)
  then show ?thesis
    by (simp add: Number_toString_def Number_toString_radix_def format_digits_def Let_def
        digits_step digits_small digit_unit_def ascii_def)
qed

section \<open>The network registry\<close>

lemma chain_key_texts:
  "ascii ''1'' = digits 10 1" "ascii ''11155111'' = digits 10 11155111"
  "ascii ''8453'' = digits 10 8453"
  by (simp_all add: digits_step digits_small digit_unit_def ascii_def)

lemma CHAIN_MAP_texts:
  "CHAIN_MAP = [(ascii ''1'', mainnet), (ascii ''11155111'', sepolia), (ascii ''8453'', base)]"
  by (simp add: CHAIN_MAP_def Number_toString_def Number_toString_radix_def int_toString_def
      digits_step digits_small digit_unit_def ascii_def)

lemma chain_keys_indices:
  "index_of_key (ascii ''1'') = Some 1" "index_of_key (ascii ''11155111'') = Some 11155111"
  "index_of_key (ascii ''8453'') = Some 8453"
  by (simp_all add: index_of_key_def is_digit_def decimal_value_def digit_value_def hex_value_def
      ascii_def)

lemma Object_keys_CHAIN_MAP:
  "join (ascii '', '') (Object_keys CHAIN_MAP) = ascii ''1, 8453, 11155111''"
  by (simp add: Object_keys_def CHAIN_MAP_texts own_properties_def chain_keys_indices)
     (simp add: ascii_def)

lemma resolveChain_hit:
  "resolveChain (Fin 1) = Inr mainnet" "resolveChain (Fin 11155111) = Inr sepolia"
  "resolveChain (Fin 8453) = Inr base"
  by (simp_all add: resolveChain_def CHAIN_MAP_texts Number_toString_def
      Number_toString_radix_def int_toString_def digits_step digits_small digit_unit_def ascii_def)

lemma key_is_id:
  assumes "map_of CHAIN_MAP (Number_toString x) = Some c"
  shows "x = chain_id c"
proof -
  from assms consider "Number_toString x = ascii ''1''" "c = mainnet"
    | "Number_toString x = ascii ''11155111''" "c = sepolia"
    | "Number_toString x = ascii ''8453''" "c = base"
    by (auto simp: CHAIN_MAP_texts split: if_splits)
  then show ?thesis
  proof cases
    case 1
    from Number_toString_digits [OF 1(1) [unfolded chain_key_texts]] 1(2) show ?thesis by simp
  next
    case 2
    from Number_toString_digits [OF 2(1) [unfolded chain_key_texts]] 2(2) show ?thesis by simp
  next
    case 3
    from Number_toString_digits [OF 3(1) [unfolded chain_key_texts]] 3(2) show ?thesis by simp
  qed
qed

lemma resolveChain_Inr: "resolveChain x = Inr c \<Longrightarrow> x = chain_id c"
  by (auto simp: resolveChain_def key_is_id split: option.splits)

lemma resolveChain_miss:
  assumes "x \<notin> {Fin 1, Fin 11155111, Fin 8453}"
  shows "resolveChain x =
     Inl (Error (ascii ''Unsupported chain ID: '' @ Number_toString x @
                 ascii ''. Supported: 1, 8453, 11155111''))"
proof (cases "map_of CHAIN_MAP (Number_toString x)")
  case None
  then show ?thesis
    by (simp add: resolveChain_def Object_keys_CHAIN_MAP) (simp add: ascii_def)
next
  case (Some c)
  from key_is_id [OF Some] assms have False by (cases c) simp_all
  then show ?thesis ..
qed

text \<open>
  Claim C4. \<open>resolveChain\<close> is a function of the id alone. For each of the ids 1, 11155111
  and 8453 it returns the entry with that id. For every other Number, integral or not,
  it fails with an error whose message names the requested id, as JavaScript prints the
  number, and lists exactly the three supported ids, in the order in which \<open>Object.keys\<close>
  gives them. Every integer up to \<open>2^53\<close> in magnitude is a Number and is printed as its
  decimal digits.
\<close>

theorem resolveChain_lookup:
  "resolveChain (Fin 1) = Inr mainnet \<and> chain_id mainnet = Fin 1 \<and>
   resolveChain (Fin 11155111) = Inr sepolia \<and> chain_id sepolia = Fin 11155111 \<and>
   resolveChain (Fin 8453) = Inr base \<and> chain_id base = Fin 8453 \<and>
   (\<forall>chainId. is_Number chainId \<and> chainId \<notin> {Fin 1, Fin 11155111, Fin 8453} \<longrightarrow>
      resolveChain chainId =
        Inl (Error (ascii ''Unsupported chain ID: '' @ Number_toString chainId @
                    ascii ''. Supported: 1, 8453, 11155111''))) \<and>
   (\<forall>n. \<bar>n\<bar> \<le> 2 ^ 53 \<longrightarrow>
      is_Number (Fin (of_int n)) \<and> Number_toString (Fin (of_int n)) = int_toString 10 n)"
  using resolveChain_hit resolveChain_miss is_Number_int Number_toString_int
  by (intro conjI allI impI) (simp_all del: insert_iff)

theorem resolveChain_lookup_witness:
  "is_Number (Fin 5) \<and> Fin 5 \<notin> {Fin 1, Fin 11155111, Fin 8453} \<and>
   resolveChain (Fin 5) =
     Inl (Error (ascii ''Unsupported chain ID: 5. Supported: 1, 8453, 11155111'')) \<and>
   is_Number (Fin (10 ^ 21)) \<and> Fin (10 ^ 21) \<notin> {Fin 1, Fin 11155111, Fin 8453} \<and>
   resolveChain (Fin (10 ^ 21)) =
     Inl (Error (ascii ''Unsupported chain ID: 1e+21. Supported: 1, 8453, 11155111'')) \<and>
   is_Number NaN \<and> NaN \<notin> {Fin 1, Fin 11155111, Fin 8453} \<and>
   resolveChain NaN =
     Inl (Error (ascii ''Unsupported chain ID: NaN. Supported: 1, 8453, 11155111''))"
proof -
  note miss = resolveChain_lookup [THEN conjunct2, THEN conjunct2, THEN conjunct2,
      THEN conjunct2, THEN conjunct2, THEN conjunct2, THEN conjunct1, rule_format]
  have five: "is_Number (Fin 5) \<and> Fin 5 \<notin> {Fin 1, Fin 11155111, Fin 8453}"
    using is_Number_int [of 5] by simp
  have text5: "Number_toString (Fin 5) = ascii ''5''"
    by (simp add: Number_toString_def Number_toString_radix_def int_toString_def digits_small
        digit_unit_def ascii_def)
  from miss [OF five] have r5: "resolveChain (Fin 5) =
      Inl (Error (ascii ''Unsupported chain ID: 5. Supported: 1, 8453, 11155111''))"
    by (simp add: text5) (simp add: ascii_def)
  have big: "is_Number (Fin (10 ^ 21)) \<and> Fin (10 ^ 21) \<notin> {Fin 1, Fin 11155111, Fin 8453}"
    using is_Number_sextillion by simp
  from miss [OF big] have rbig: "resolveChain (Fin (10 ^ 21)) =
      Inl (Error (ascii ''Unsupported chain ID: 1e+21. Supported: 1, 8453, 11155111''))"
    using Number_toString_sextillion by simp (simp add: ascii_def)
  have nan: "is_Number NaN \<and> NaN \<notin> {Fin 1, Fin 11155111, Fin 8453}"
    by (simp add: is_Number_def)
  from miss [OF nan] have rnan: "resolveChain NaN =
      Inl (Error (ascii ''Unsupported chain ID: NaN. Supported: 1, 8453, 11155111''))"
    by (simp add: Number_toString_def Number_toString_radix_def) (simp add: ascii_def)
  from five r5 big rbig nan rnan show ?thesis by (intro conjI) (elim conjE, assumption)+
qed

section \<open>The chain id of a provider\<close>

lemma createPrivyProvider_chainId:
  assumes "createPrivyProvider env cfg = Inr p"
  shows "config p = cfg \<and> chain_id (resolved_chain p) = chainId cfg"
proof -
  from assms obtain c where "resolveChain (chainId cfg) = Inr c"
    and p: "p = \<lparr>config = cfg, resolved_chain = c\<rparr>"
    by (auto simp: createPrivyProvider_def split: sum.splits)
  from resolveChain_Inr [OF this(1)] p show ?thesis by simp
qed

lemma chain_id_nat: "\<exists>n \<le> 11155111. chain_id c = Fin (of_nat n)"
proof (cases c)
  case mainnet
  then show ?thesis by (intro exI [of _ 1]) simp
next
  case sepolia
  then show ?thesis by (intro exI [of _ 11155111]) simp
next
  case base
  then show ?thesis by (intro exI [of _ 8453]) simp
qed

lemma example_address: "is_address (ascii ''0x00000000000000000000000000000000000000aa'')"
  by (simp add: is_address_def ascii_def is_digit_of_def hex_value_def)

lemma example_provider_created:
  "createPrivyProvider example_provider_env example_config = Inr example_provider"
  using example_address
  by (simp add: createPrivyProvider_def example_config_def example_provider_def
      example_provider_env_def resolveChain_hit)

text \<open>
  Claim C3. A provider exists only for a supported chain id, which is a natural number.
  Its \<open>eth_chainId\<close> request returns \<open>0x\<close> followed by the digits of the id in radix 16,
  makes no call, the digits are lower-case hexadecimal digits, and read back in radix 16
  they give the configured id. For the id 11155111 the result is \<open>0xaa36a7\<close>.
\<close>

theorem eth_chainId_hex:
  assumes "createPrivyProvider env cfg = Inr p"
  shows "\<exists>n. chainId cfg = Fin (of_nat n) \<and>
           request env' p (ascii ''eth_chainId'') params =
             (Inr (Str (ascii ''0x'' @ digits 16 n)), []) \<and>
           set (digits 16 n) \<subseteq> set (ascii ''0123456789abcdef'') \<and>
           radix_value 16 (digits 16 n) = Some n \<and>
           (chainId cfg = Fin 11155111 \<longrightarrow> digits 16 n = ascii ''aa36a7'')"
proof -
  from createPrivyProvider_chainId [OF assms]
  have cfg: "config p = cfg" and c: "chain_id (resolved_chain p) = chainId cfg" by simp_all
  from chain_id_nat [of "resolved_chain p"] c
  obtain n where n: "n \<le> 11155111" and id: "chainId cfg = Fin (of_nat n)" by auto
  from n have small: "n \<le> 2 ^ 53" by simp
  let ?hex = "digits 16 n"
  have req: "request env' p (ascii ''eth_chainId'') params = (Inr (Str (ascii ''0x'' @ ?hex)), [])"
    by (simp add: request_def cfg id Number_toString_radix_nat [OF small] ascii_def)
  have lower: "set ?hex \<subseteq> set (ascii ''0123456789abcdef'')"
  proof
    fix c assume "c \<in> set ?hex"
    then show "c \<in> set (ascii ''0123456789abcdef'')"
      by (rule digits_lower_hex [rotated 2]) simp_all
  qed
  have val: "radix_value 16 ?hex = Some n"
    by (simp add: radix_value_digits)
  have "digits 16 11155111 = ascii ''aa36a7''"
    by (simp add: digits_step digits_small digit_unit_def ascii_def)
  moreover have "n = 11155111" if "chainId cfg = Fin 11155111"
  proof -
    from that id have "(of_nat n :: rat) = of_nat 11155111" by simp
    then show ?thesis by (simp only: of_nat_eq_iff)
  qed
  ultimately have sep: "chainId cfg = Fin 11155111 \<longrightarrow> ?hex = ascii ''aa36a7''" by simp
  from id req lower val sep show ?thesis by blast
qed

theorem eth_chainId_hex_witness:
  "createPrivyProvider example_provider_env example_config = Inr example_provider \<and>
   request example_provider_env example_provider (ascii ''eth_chainId'') Undefined =
     (Inr (Str (ascii ''0xaa36a7'')), [])"
proof -
  have c: "chainId example_config = Fin 11155111" by (simp add: example_config_def)
  from eth_chainId_hex [OF example_provider_created, of example_provider_env Undefined]
  obtain n where
    "request example_provider_env example_provider (ascii ''eth_chainId'') Undefined =
       (Inr (Str (ascii ''0x'' @ digits 16 n)), [])"
    and "chainId example_config = Fin 11155111 \<longrightarrow> digits 16 n = ascii ''aa36a7''"
    by blast
  with c have "request example_provider_env example_provider (ascii ''eth_chainId'') Undefined =
      (Inr (Str (ascii ''0x'' @ ascii ''aa36a7'')), [])"
    by simp
  with example_provider_created show ?thesis by (simp add: ascii_def)
qed

end
